theory Spec2Isabelle
  imports Main "HOL-Library.Word"
begin

unbundle bit_operations_syntax

section \<open>GATT conventions shared by the handlers\<close>

text \<open>
  The attribute write handlers return an \<open>ssize_t\<close>: the number of bytes consumed on
  success, or \<open>BT_GATT_ERR(code)\<close>, the negated ATT error byte.  The header that
  declares the standard ATT codes is not among the sources.

  Modelled from the spec: the ATT-layer error bytes (Invalid Offset, Invalid Attribute
  Length, Unlikely, Not Supported) and the macro \<open>BT_GATT_ERR\<close>; the values are those
  of the ATT protocol, all below the service range 0x80.
\<close>

definition BT_ATT_ERR_NOT_SUPPORTED :: "8 word" where
  "BT_ATT_ERR_NOT_SUPPORTED = 0x06"

definition BT_ATT_ERR_INVALID_OFFSET :: "8 word" where
  "BT_ATT_ERR_INVALID_OFFSET = 0x07"

definition BT_ATT_ERR_INVALID_ATTRIBUTE_LEN :: "8 word" where
  "BT_ATT_ERR_INVALID_ATTRIBUTE_LEN = 0x0d"

definition BT_ATT_ERR_UNLIKELY :: "8 word" where
  "BT_ATT_ERR_UNLIKELY = 0x0e"

definition BT_GATT_ERR :: "8 word \<Rightarrow> int" where
  "BT_GATT_ERR e = - uint e"

text \<open>
  A handler either returns its \<open>ssize_t\<close> or never returns because it called
  through a null function pointer.
\<close>

datatype outcome = Returned int | Null_Call


section \<open>VCS server (vcs.c, vcs_internal.h, vcs.h)\<close>

definition VCS_OPCODE_REL_VOL_DOWN :: "8 word" where
  "VCS_OPCODE_REL_VOL_DOWN = 0x00"

definition VCS_OPCODE_REL_VOL_UP :: "8 word" where
  "VCS_OPCODE_REL_VOL_UP = 0x01"

definition VCS_OPCODE_UNMUTE_REL_VOL_DOWN :: "8 word" where
  "VCS_OPCODE_UNMUTE_REL_VOL_DOWN = 0x02"

definition VCS_OPCODE_UNMUTE_REL_VOL_UP :: "8 word" where
  "VCS_OPCODE_UNMUTE_REL_VOL_UP = 0x03"

definition VCS_OPCODE_SET_ABS_VOL :: "8 word" where
  "VCS_OPCODE_SET_ABS_VOL = 0x04"

definition VCS_OPCODE_UNMUTE :: "8 word" where
  "VCS_OPCODE_UNMUTE = 0x05"

definition VCS_OPCODE_MUTE :: "8 word" where
  "VCS_OPCODE_MUTE = 0x06"

definition VCS_ERR_INVALID_COUNTER :: "8 word" where
  "VCS_ERR_INVALID_COUNTER = 0x80"

definition VCS_ERR_OP_NOT_SUPPORTED :: "8 word" where
  "VCS_ERR_OP_NOT_SUPPORTED = 0x81"

definition VCS_CP_LEN :: "16 word" where
  "VCS_CP_LEN = 0x02"

definition VCS_CP_ABS_VOL_LEN :: "16 word" where
  "VCS_CP_ABS_VOL_LEN = 0x03"

record vcs_state_t =
  vcs_volume :: "8 word"
  vcs_mute :: "8 word"
  vcs_change_counter :: "8 word"

text \<open>
  \<open>struct vcs_control_t\<close> is the view the handler casts the write buffer to.  The
  handler reads a member whether or not \<open>len\<close> covers it, so the record holds the three
  bytes that lie at the buffer address and \<open>len\<close> is passed beside it.
\<close>

record vcs_control_t =
  vcs_cp_opcode :: "8 word"
  vcs_cp_counter :: "8 word"
  vcs_cp_volume :: "8 word"

text \<open>
  \<open>struct bt_vcs_cb_t\<close>, server part: two function pointers.  Each is modelled by
  whether it is non-null; a call is recorded as an event.
\<close>

record bt_vcs_cb_t =
  vcs_cb_state :: bool
  vcs_cb_flags :: bool

record vcs_inst_t =
  vcs_state :: vcs_state_t
  vcs_flags :: "8 word"
  vcs_cb :: "bt_vcs_cb_t option"
  vcs_volume_step :: "8 word"

datatype vcs_event =
    Notify_VCS_State vcs_state_t
  | Notify_VCS_Flags "8 word"
  | Cb_VCS_State "8 word" "8 word"
  | Cb_VCS_Flags "8 word"

text \<open>The static initialiser of \<open>vcs_inst\<close>: volume 100, step 1, everything else zero.\<close>

definition vcs_inst_init :: vcs_inst_t where
  "vcs_inst_init =
     \<lparr>vcs_state = \<lparr>vcs_volume = 100, vcs_mute = 0, vcs_change_counter = 0\<rparr>,
      vcs_flags = 0, vcs_cb = None, vcs_volume_step = 1\<rparr>"

definition VOLUME_DOWN :: "vcs_inst_t \<Rightarrow> 8 word \<Rightarrow> 8 word" where
  "VOLUME_DOWN inst current_vol =
     word_of_int (max 0 (uint current_vol - uint (vcs_volume_step inst)))"

definition VOLUME_UP :: "vcs_inst_t \<Rightarrow> 8 word \<Rightarrow> 8 word" where
  "VOLUME_UP inst current_vol =
     word_of_int (min 255 (uint current_vol + uint (vcs_volume_step inst)))"

definition VALID_VCS_OPCODE :: "8 word \<Rightarrow> bool" where
  "VALID_VCS_OPCODE opcode \<longleftrightarrow>
     VCS_OPCODE_REL_VOL_DOWN \<le> opcode \<and> opcode \<le> VCS_OPCODE_MUTE"

text \<open>
  The \<open>switch\<close> of \<open>write_vcs_control\<close>: the state after the opcode's assignments,
  the local \<open>notify\<close> and the local \<open>volume_change\<close>; \<open>None\<close> is the \<open>default\<close>
  branch.
\<close>

definition vcs_rel_down :: "vcs_inst_t \<Rightarrow> vcs_state_t \<times> bool" where
  "vcs_rel_down inst =
     (let st = vcs_state inst in
      if vcs_volume st \<noteq> 0
      then (st\<lparr>vcs_volume := VOLUME_DOWN inst (vcs_volume st)\<rparr>, True)
      else (st, False))"

definition vcs_rel_up :: "vcs_inst_t \<Rightarrow> vcs_state_t \<times> bool" where
  "vcs_rel_up inst =
     (let st = vcs_state inst in
      if vcs_volume st \<noteq> 255
      then (st\<lparr>vcs_volume := VOLUME_UP inst (vcs_volume st)\<rparr>, True)
      else (st, False))"

definition vcs_clear_mute :: "vcs_state_t \<times> bool \<Rightarrow> vcs_state_t \<times> bool" where
  "vcs_clear_mute p =
     (case p of (st, notify) \<Rightarrow>
        if vcs_mute st \<noteq> 0 then (st\<lparr>vcs_mute := 0\<rparr>, True) else (st, notify))"

definition vcs_switch ::
  "vcs_inst_t \<Rightarrow> vcs_control_t \<Rightarrow> (vcs_state_t \<times> bool \<times> bool) option" where
  "vcs_switch inst cp =
     (let st = vcs_state inst; opc = vcs_cp_opcode cp in
      if opc = VCS_OPCODE_REL_VOL_DOWN then
        (case vcs_rel_down inst of (st', n) \<Rightarrow> Some (st', n, True))
      else if opc = VCS_OPCODE_REL_VOL_UP then
        (case vcs_rel_up inst of (st', n) \<Rightarrow> Some (st', n, True))
      else if opc = VCS_OPCODE_UNMUTE_REL_VOL_DOWN then
        (case vcs_clear_mute (vcs_rel_down inst) of (st', n) \<Rightarrow> Some (st', n, True))
      else if opc = VCS_OPCODE_UNMUTE_REL_VOL_UP then
        (case vcs_clear_mute (vcs_rel_up inst) of (st', n) \<Rightarrow> Some (st', n, True))
      else if opc = VCS_OPCODE_SET_ABS_VOL then
        (if vcs_volume st \<noteq> vcs_cp_volume cp
         then Some (st\<lparr>vcs_volume := vcs_cp_volume cp\<rparr>, True, True)
         else Some (st, False, True))
      else if opc = VCS_OPCODE_UNMUTE then
        (case vcs_clear_mute (st, False) of (st', n) \<Rightarrow> Some (st', n, False))
      else if opc = VCS_OPCODE_MUTE then
        (if vcs_mute st = 0 then Some (st\<lparr>vcs_mute := 1\<rparr>, True, False)
         else Some (st, False, False))
      else None)"

text \<open>The \<open>if (notify)\<close> block: bump the counter, notify the state, call \<open>cb->state\<close>.\<close>

definition vcs_notify_state ::
  "vcs_inst_t \<Rightarrow> vcs_state_t \<Rightarrow> bool \<Rightarrow> vcs_inst_t \<times> vcs_event list" where
  "vcs_notify_state inst st notify =
     (if notify then
        (let st' = st\<lparr>vcs_change_counter := vcs_change_counter st + 1\<rparr> in
         (inst\<lparr>vcs_state := st'\<rparr>,
          Notify_VCS_State st' #
          (case vcs_cb inst of
             None \<Rightarrow> []
           | Some cb \<Rightarrow>
               if vcs_cb_state cb then [Cb_VCS_State (vcs_volume st') (vcs_mute st')]
               else [])))
      else (inst\<lparr>vcs_state := st\<rparr>, []))"

text \<open>
  The \<open>if (volume_change && !vcs_inst.flags)\<close> block.  The guard in front of the call
  of \<open>cb->flags\<close> tests \<open>cb->state\<close>, as the source does.
\<close>

definition vcs_latch_flags ::
  "vcs_inst_t \<Rightarrow> bool \<Rightarrow> bool \<times> vcs_inst_t \<times> vcs_event list" where
  "vcs_latch_flags inst volume_change =
     (if volume_change \<and> vcs_flags inst = 0 then
        (let inst' = inst\<lparr>vcs_flags := 1\<rparr> in
         case vcs_cb inst' of
           None \<Rightarrow> (True, inst', [Notify_VCS_Flags 1])
         | Some cb \<Rightarrow>
             if vcs_cb_state cb then
               (if vcs_cb_flags cb
                then (True, inst', [Notify_VCS_Flags 1, Cb_VCS_Flags 1])
                else (False, inst', [Notify_VCS_Flags 1]))
             else (True, inst', [Notify_VCS_Flags 1]))
      else (True, inst, []))"

definition write_vcs_control ::
  "vcs_inst_t \<Rightarrow> vcs_control_t option \<Rightarrow> 16 word \<Rightarrow> 16 word
     \<Rightarrow> outcome \<times> vcs_inst_t \<times> vcs_event list" where
  "write_vcs_control inst buf len offset =
     (if offset \<noteq> 0 then
        (Returned (BT_GATT_ERR BT_ATT_ERR_INVALID_OFFSET), inst, [])
      else
        (case buf of
           None \<Rightarrow> (Returned (BT_GATT_ERR BT_ATT_ERR_INVALID_ATTRIBUTE_LEN), inst, [])
         | Some cp \<Rightarrow>
             if len = 0 then
               (Returned (BT_GATT_ERR BT_ATT_ERR_INVALID_ATTRIBUTE_LEN), inst, [])
             else if \<not> VALID_VCS_OPCODE (vcs_cp_opcode cp) then
               (Returned (BT_GATT_ERR VCS_ERR_OP_NOT_SUPPORTED), inst, [])
             else if len < VCS_CP_LEN \<or>
                     (len = VCS_CP_ABS_VOL_LEN \<and>
                      vcs_cp_opcode cp \<noteq> VCS_OPCODE_SET_ABS_VOL) \<or>
                     len > VCS_CP_ABS_VOL_LEN then
               (Returned (BT_GATT_ERR BT_ATT_ERR_INVALID_ATTRIBUTE_LEN), inst, [])
             else if vcs_cp_counter cp \<noteq> vcs_change_counter (vcs_state inst) then
               (Returned (BT_GATT_ERR VCS_ERR_INVALID_COUNTER), inst, [])
             else
               (case vcs_switch inst cp of
                  None \<Rightarrow> (Returned (BT_GATT_ERR VCS_ERR_OP_NOT_SUPPORTED), inst, [])
                | Some (st, notify, volume_change) \<Rightarrow>
                    (case vcs_notify_state inst st notify of (inst1, ev1) \<Rightarrow>
                       (case vcs_latch_flags inst1 volume_change of
                          (ok, inst2, ev2) \<Rightarrow>
                            (if ok then Returned (uint len) else Null_Call,
                             inst2, ev1 @ ev2))))))"

text \<open>
  The server-side API forges a control-point write to itself with the current counter
  (\<open>bt_vcs_volume_down\<close> ... \<open>bt_vcs_mute\<close>, the branch taken when \<open>conn\<close> is
  null); the result is \<open>err > 0 ? 0 : err\<close>.
\<close>

definition vcs_api_result :: "outcome \<Rightarrow> outcome" where
  "vcs_api_result out =
     (case out of Null_Call \<Rightarrow> Null_Call
      | Returned err \<Rightarrow> Returned (if err > 0 then 0 else err))"

definition vcs_local_write ::
  "vcs_inst_t \<Rightarrow> 8 word \<Rightarrow> 8 word \<Rightarrow> 16 word
     \<Rightarrow> outcome \<times> vcs_inst_t \<times> vcs_event list" where
  "vcs_local_write inst opcode volume len =
     (case write_vcs_control inst
             (Some \<lparr>vcs_cp_opcode = opcode,
                    vcs_cp_counter = vcs_change_counter (vcs_state inst),
                    vcs_cp_volume = volume\<rparr>) len 0 of
        (out, inst', ev) \<Rightarrow> (vcs_api_result out, inst', ev))"

definition bt_vcs_volume_down :: "vcs_inst_t \<Rightarrow> outcome \<times> vcs_inst_t \<times> vcs_event list" where
  "bt_vcs_volume_down inst = vcs_local_write inst VCS_OPCODE_REL_VOL_DOWN 0 VCS_CP_LEN"

definition bt_vcs_volume_up :: "vcs_inst_t \<Rightarrow> outcome \<times> vcs_inst_t \<times> vcs_event list" where
  "bt_vcs_volume_up inst = vcs_local_write inst VCS_OPCODE_REL_VOL_UP 0 VCS_CP_LEN"

definition bt_vcs_unmute_volume_down ::
  "vcs_inst_t \<Rightarrow> outcome \<times> vcs_inst_t \<times> vcs_event list" where
  "bt_vcs_unmute_volume_down inst =
     vcs_local_write inst VCS_OPCODE_UNMUTE_REL_VOL_DOWN 0 VCS_CP_LEN"

definition bt_vcs_unmute_volume_up ::
  "vcs_inst_t \<Rightarrow> outcome \<times> vcs_inst_t \<times> vcs_event list" where
  "bt_vcs_unmute_volume_up inst =
     vcs_local_write inst VCS_OPCODE_UNMUTE_REL_VOL_UP 0 VCS_CP_LEN"

definition bt_vcs_volume_set ::
  "vcs_inst_t \<Rightarrow> 8 word \<Rightarrow> outcome \<times> vcs_inst_t \<times> vcs_event list" where
  "bt_vcs_volume_set inst volume =
     vcs_local_write inst VCS_OPCODE_SET_ABS_VOL volume VCS_CP_ABS_VOL_LEN"

definition bt_vcs_unmute :: "vcs_inst_t \<Rightarrow> outcome \<times> vcs_inst_t \<times> vcs_event list" where
  "bt_vcs_unmute inst = vcs_local_write inst VCS_OPCODE_UNMUTE 0 VCS_CP_LEN"

definition bt_vcs_mute :: "vcs_inst_t \<Rightarrow> outcome \<times> vcs_inst_t \<times> vcs_event list" where
  "bt_vcs_mute inst = vcs_local_write inst VCS_OPCODE_MUTE 0 VCS_CP_LEN"

text \<open>
  \<open>bt_vcs_volume_step_set\<close> stores a non-zero step and then falls through to
  \<open>return -EOPNOTSUPP\<close>; for zero it returns \<open>-EINVAL\<close> and stores nothing.
  \<open>errno.h\<close> is not among the sources: the two error numbers are constants of the
  model with the values of that header, and no statement below depends on the values.
  \<open>bt_vcs_server_cb_register\<close> returns \<open>void\<close> and stores the callback structure.
\<close>

definition EINVAL :: int where
  "EINVAL = 22"

definition EOPNOTSUPP :: int where
  "EOPNOTSUPP = 95"

definition bt_vcs_volume_step_set :: "vcs_inst_t \<Rightarrow> 8 word \<Rightarrow> int \<times> vcs_inst_t" where
  "bt_vcs_volume_step_set inst volume_step =
     (if volume_step > 0 then (- EOPNOTSUPP, inst\<lparr>vcs_volume_step := volume_step\<rparr>)
      else (- EINVAL, inst))"

definition bt_vcs_server_cb_register ::
  "vcs_inst_t \<Rightarrow> bt_vcs_cb_t option \<Rightarrow> vcs_inst_t" where
  "bt_vcs_server_cb_register inst cb = inst\<lparr>vcs_cb := cb\<rparr>"

text \<open>
  A session of the VCS server: the operations that reach \<open>vcs_inst\<close>, run in order.
  A call through a null function pointer ends the run.  The outcome of the \<open>void\<close>
  function \<open>bt_vcs_server_cb_register\<close> is written \<open>Returned 0\<close>.
\<close>

datatype vcs_op =
    CP_Write "vcs_control_t option" "16 word" "16 word"
  | Api_Volume_Down
  | Api_Volume_Up
  | Api_Unmute_Volume_Down
  | Api_Unmute_Volume_Up
  | Api_Volume_Set "8 word"
  | Api_Unmute
  | Api_Mute
  | Api_Volume_Step_Set "8 word"
  | Api_Cb_Register "bt_vcs_cb_t option"

fun vcs_step :: "vcs_inst_t \<Rightarrow> vcs_op \<Rightarrow> outcome \<times> vcs_inst_t \<times> vcs_event list" where
  "vcs_step inst (CP_Write buf len offset) = write_vcs_control inst buf len offset"
| "vcs_step inst Api_Volume_Down = bt_vcs_volume_down inst"
| "vcs_step inst Api_Volume_Up = bt_vcs_volume_up inst"
| "vcs_step inst Api_Unmute_Volume_Down = bt_vcs_unmute_volume_down inst"
| "vcs_step inst Api_Unmute_Volume_Up = bt_vcs_unmute_volume_up inst"
| "vcs_step inst (Api_Volume_Set v) = bt_vcs_volume_set inst v"
| "vcs_step inst Api_Unmute = bt_vcs_unmute inst"
| "vcs_step inst Api_Mute = bt_vcs_mute inst"
| "vcs_step inst (Api_Volume_Step_Set s) =
     (case bt_vcs_volume_step_set inst s of (r, inst') \<Rightarrow> (Returned r, inst', []))"
| "vcs_step inst (Api_Cb_Register cb) = (Returned 0, bt_vcs_server_cb_register inst cb, [])"

fun vcs_session :: "vcs_inst_t \<Rightarrow> vcs_op list \<Rightarrow> vcs_inst_t \<times> vcs_event list" where
  "vcs_session inst [] = (inst, [])"
| "vcs_session inst (x # xs) =
     (case vcs_step inst x of
        (Null_Call, inst', ev) \<Rightarrow> (inst', ev)
      | (Returned r, inst', ev) \<Rightarrow>
          (case vcs_session inst' xs of (inst'', ev') \<Rightarrow> (inst'', ev @ ev')))"

fun is_flags_notify :: "vcs_event \<Rightarrow> bool" where
  "is_flags_notify (Notify_VCS_Flags f) = True"
| "is_flags_notify e = False"

fun is_state_notify :: "vcs_event \<Rightarrow> bool" where
  "is_state_notify (Notify_VCS_State s) = True"
| "is_state_notify e = False"

text \<open>The five opcodes after which the handler sets \<open>volume_change\<close>.\<close>

definition vcs_volume_opcode :: "8 word \<Rightarrow> bool" where
  "vcs_volume_opcode opc \<longleftrightarrow>
     opc = VCS_OPCODE_REL_VOL_DOWN \<or> opc = VCS_OPCODE_REL_VOL_UP \<or>
     opc = VCS_OPCODE_UNMUTE_REL_VOL_DOWN \<or> opc = VCS_OPCODE_UNMUTE_REL_VOL_UP \<or>
     opc = VCS_OPCODE_SET_ABS_VOL"

text \<open>
  The guards of \<open>write_vcs_control\<close> in the source's order (the buffer is non-null):
  offset, opcode and length first, then the counter.
\<close>

definition vcs_format_ok :: "vcs_control_t \<Rightarrow> 16 word \<Rightarrow> 16 word \<Rightarrow> bool" where
  "vcs_format_ok cp len offset \<longleftrightarrow>
     offset = 0 \<and> len \<noteq> 0 \<and> VALID_VCS_OPCODE (vcs_cp_opcode cp) \<and>
     \<not> (len < VCS_CP_LEN \<or>
        (len = VCS_CP_ABS_VOL_LEN \<and> vcs_cp_opcode cp \<noteq> VCS_OPCODE_SET_ABS_VOL) \<or>
        len > VCS_CP_ABS_VOL_LEN)"

definition vcs_guards_pass ::
  "vcs_inst_t \<Rightarrow> vcs_control_t \<Rightarrow> 16 word \<Rightarrow> 16 word \<Rightarrow> bool" where
  "vcs_guards_pass inst cp len offset \<longleftrightarrow>
     vcs_format_ok cp len offset \<and>
     vcs_cp_counter cp = vcs_change_counter (vcs_state inst)"


section \<open>AICS server (aics.c, aics_internal.h, aics.h)\<close>

definition AICS_OPCODE_SET_GAIN :: "8 word" where
  "AICS_OPCODE_SET_GAIN = 0x01"

definition AICS_OPCODE_UNMUTE :: "8 word" where
  "AICS_OPCODE_UNMUTE = 0x02"

definition AICS_OPCODE_MUTE :: "8 word" where
  "AICS_OPCODE_MUTE = 0x03"

definition AICS_OPCODE_SET_MANUAL :: "8 word" where
  "AICS_OPCODE_SET_MANUAL = 0x04"

definition AICS_OPCODE_SET_AUTO :: "8 word" where
  "AICS_OPCODE_SET_AUTO = 0x05"

definition AICS_STATE_UNMUTED :: "8 word" where
  "AICS_STATE_UNMUTED = 0x00"

definition AICS_STATE_MUTED :: "8 word" where
  "AICS_STATE_MUTED = 0x01"

definition AICS_STATE_MUTE_DISABLED :: "8 word" where
  "AICS_STATE_MUTE_DISABLED = 0x02"

definition AICS_MODE_MANUAL_ONLY :: "8 word" where
  "AICS_MODE_MANUAL_ONLY = 0x00"

definition AICS_MODE_AUTO_ONLY :: "8 word" where
  "AICS_MODE_AUTO_ONLY = 0x01"

definition AICS_MODE_MANUAL :: "8 word" where
  "AICS_MODE_MANUAL = 0x02"

definition AICS_MODE_AUTO :: "8 word" where
  "AICS_MODE_AUTO = 0x03"

definition AICS_ERR_INVALID_COUNTER :: "8 word" where
  "AICS_ERR_INVALID_COUNTER = 0x80"

definition AICS_ERR_OP_NOT_SUPPORTED :: "8 word" where
  "AICS_ERR_OP_NOT_SUPPORTED = 0x81"

definition AICS_ERR_MUTE_DISABLED :: "8 word" where
  "AICS_ERR_MUTE_DISABLED = 0x82"

definition AICS_ERR_OUT_OF_RANGE :: "8 word" where
  "AICS_ERR_OUT_OF_RANGE = 0x83"

definition AICS_ERR_GAIN_MODE_NO_SUPPORT :: "8 word" where
  "AICS_ERR_GAIN_MODE_NO_SUPPORT = 0x84"

definition AICS_CP_LEN :: "16 word" where
  "AICS_CP_LEN = 0x02"

definition AICS_CP_SET_GAIN_LEN :: "16 word" where
  "AICS_CP_SET_GAIN_LEN = 0x03"

definition AICS_INPUT_MODE_IMMUTABLE :: "8 word \<Rightarrow> bool" where
  "AICS_INPUT_MODE_IMMUTABLE m \<longleftrightarrow> m = AICS_MODE_MANUAL_ONLY \<or> m = AICS_MODE_AUTO_ONLY"

definition AICS_INPUT_MODE_SETTABLE :: "8 word \<Rightarrow> bool" where
  "AICS_INPUT_MODE_SETTABLE m \<longleftrightarrow> m = AICS_MODE_MANUAL_ONLY \<or> m = AICS_MODE_MANUAL"

definition VALID_AICS_OPCODE :: "8 word \<Rightarrow> bool" where
  "VALID_AICS_OPCODE opcode \<longleftrightarrow>
     AICS_OPCODE_SET_GAIN \<le> opcode \<and> opcode \<le> AICS_OPCODE_SET_AUTO"

text \<open>\<open>gain\<close>, \<open>minimum\<close> and \<open>maximum\<close> are \<open>int8_t\<close>: bytes read through \<open>sint\<close>.\<close>

record aics_state_t =
  aics_gain :: "8 word"
  aics_mute :: "8 word"
  aics_mode :: "8 word"
  aics_change_counter :: "8 word"

record aics_gain_settings_t =
  aics_units :: "8 word"
  aics_minimum :: "8 word"
  aics_maximum :: "8 word"

record aics_control_t =
  aics_cp_opcode :: "8 word"
  aics_cp_counter :: "8 word"

record aics_gain_control_t =
  aics_cp :: aics_control_t
  aics_gain_setting :: "8 word"

text \<open>
  \<open>struct bt_aics\<close> with the members the control point reads or writes; of
  \<open>struct bt_aics_cb\<close> the handler uses the \<open>state\<close> pointer only.
\<close>

record bt_aics_cb =
  aics_cb_state :: bool

record bt_aics =
  aics_state :: aics_state_t
  aics_gain_settings :: aics_gain_settings_t
  aics_index :: "8 word"
  aics_cb :: "bt_aics_cb option"

datatype aics_event =
    Notify_AICS_State aics_state_t
  | Cb_AICS_State "8 word" "8 word" "8 word" "8 word"

text \<open>
  The \<open>switch\<close> of \<open>write_aics_control\<close>: \<open>Inl\<close> is an error returned from inside
  the switch, \<open>Inr\<close> the state after the assignments with the local \<open>notify\<close>.
\<close>

definition aics_switch ::
  "bt_aics \<Rightarrow> aics_gain_control_t \<Rightarrow> 8 word + aics_state_t \<times> bool" where
  "aics_switch inst cp =
     (let st = aics_state inst; opc = aics_cp_opcode (aics_cp cp);
          gs = aics_gain_settings inst in
      if opc = AICS_OPCODE_SET_GAIN then
        (if sint (aics_gain_setting cp) < sint (aics_minimum gs) \<or>
            sint (aics_gain_setting cp) > sint (aics_maximum gs)
         then Inl AICS_ERR_OUT_OF_RANGE
         else if AICS_INPUT_MODE_SETTABLE (aics_mode st) \<and>
                 aics_gain st \<noteq> aics_gain_setting cp
         then Inr (st\<lparr>aics_gain := aics_gain_setting cp\<rparr>, True)
         else Inr (st, False))
      else if opc = AICS_OPCODE_UNMUTE then
        (if aics_mute st = AICS_STATE_MUTE_DISABLED then Inl AICS_ERR_MUTE_DISABLED
         else if aics_mute st \<noteq> AICS_STATE_UNMUTED
         then Inr (st\<lparr>aics_mute := AICS_STATE_UNMUTED\<rparr>, True)
         else Inr (st, False))
      else if opc = AICS_OPCODE_MUTE then
        (if aics_mute st = AICS_STATE_MUTE_DISABLED then Inl AICS_ERR_MUTE_DISABLED
         else if aics_mute st \<noteq> AICS_STATE_MUTED
         then Inr (st\<lparr>aics_mute := AICS_STATE_MUTED\<rparr>, True)
         else Inr (st, False))
      else if opc = AICS_OPCODE_SET_MANUAL then
        (if AICS_INPUT_MODE_IMMUTABLE (aics_mode st) then Inl AICS_ERR_GAIN_MODE_NO_SUPPORT
         else if aics_mode st \<noteq> AICS_MODE_MANUAL
         then Inr (st\<lparr>aics_mode := AICS_MODE_MANUAL\<rparr>, True)
         else Inr (st, False))
      else if opc = AICS_OPCODE_SET_AUTO then
        (if AICS_INPUT_MODE_IMMUTABLE (aics_mode st) then Inl AICS_ERR_GAIN_MODE_NO_SUPPORT
         else if aics_mode st \<noteq> AICS_MODE_AUTO
         then Inr (st\<lparr>aics_mode := AICS_MODE_AUTO\<rparr>, True)
         else Inr (st, False))
      else Inl AICS_ERR_OP_NOT_SUPPORTED)"

definition aics_notify_state ::
  "bt_aics \<Rightarrow> aics_state_t \<Rightarrow> bool \<Rightarrow> bt_aics \<times> aics_event list" where
  "aics_notify_state inst st notify =
     (if notify then
        (let st' = st\<lparr>aics_change_counter := aics_change_counter st + 1\<rparr> in
         (inst\<lparr>aics_state := st'\<rparr>,
          Notify_AICS_State st' #
          (case aics_cb inst of
             None \<Rightarrow> []
           | Some cb \<Rightarrow>
               if aics_cb_state cb
               then [Cb_AICS_State (aics_index inst) (aics_gain st') (aics_mute st')
                       (aics_mode st')]
               else [])))
      else (inst\<lparr>aics_state := st\<rparr>, []))"

definition write_aics_control ::
  "bt_aics \<Rightarrow> aics_gain_control_t option \<Rightarrow> 16 word \<Rightarrow> 16 word
     \<Rightarrow> int \<times> bt_aics \<times> aics_event list" where
  "write_aics_control inst buf len offset =
     (if offset \<noteq> 0 then (BT_GATT_ERR BT_ATT_ERR_INVALID_OFFSET, inst, [])
      else
        (case buf of
           None \<Rightarrow> (BT_GATT_ERR BT_ATT_ERR_INVALID_ATTRIBUTE_LEN, inst, [])
         | Some cp \<Rightarrow>
             if len = 0 then (BT_GATT_ERR BT_ATT_ERR_INVALID_ATTRIBUTE_LEN, inst, [])
             else if \<not> VALID_AICS_OPCODE (aics_cp_opcode (aics_cp cp)) then
               (BT_GATT_ERR AICS_ERR_OP_NOT_SUPPORTED, inst, [])
             else if len < AICS_CP_LEN \<or>
                     (len = AICS_CP_SET_GAIN_LEN \<and>
                      aics_cp_opcode (aics_cp cp) \<noteq> AICS_OPCODE_SET_GAIN) \<or>
                     len > AICS_CP_SET_GAIN_LEN then
               (BT_GATT_ERR BT_ATT_ERR_INVALID_ATTRIBUTE_LEN, inst, [])
             else if aics_cp_counter (aics_cp cp) \<noteq> aics_change_counter (aics_state inst)
             then (BT_GATT_ERR AICS_ERR_INVALID_COUNTER, inst, [])
             else
               (case aics_switch inst cp of
                  Inl e \<Rightarrow> (BT_GATT_ERR e, inst, [])
                | Inr (st, notify) \<Rightarrow>
                    (case aics_notify_state inst st notify of
                       (inst', ev) \<Rightarrow> (uint len, inst', ev)))))"

text \<open>The guards of \<open>write_aics_control\<close>: offset, opcode and length, then the counter.\<close>

definition aics_format_ok :: "aics_gain_control_t \<Rightarrow> 16 word \<Rightarrow> 16 word \<Rightarrow> bool" where
  "aics_format_ok cp len offset \<longleftrightarrow>
     offset = 0 \<and> len \<noteq> 0 \<and> VALID_AICS_OPCODE (aics_cp_opcode (aics_cp cp)) \<and>
     \<not> (len < AICS_CP_LEN \<or>
        (len = AICS_CP_SET_GAIN_LEN \<and>
         aics_cp_opcode (aics_cp cp) \<noteq> AICS_OPCODE_SET_GAIN) \<or>
        len > AICS_CP_SET_GAIN_LEN)"

definition aics_guards_pass ::
  "bt_aics \<Rightarrow> aics_gain_control_t \<Rightarrow> 16 word \<Rightarrow> 16 word \<Rightarrow> bool" where
  "aics_guards_pass inst cp len offset \<longleftrightarrow>
     aics_format_ok cp len offset \<and>
     aics_cp_counter (aics_cp cp) = aics_change_counter (aics_state inst)"

fun is_aics_state_notify :: "aics_event \<Rightarrow> bool" where
  "is_aics_state_notify (Notify_AICS_State s) = True"
| "is_aics_state_notify e = False"


section \<open>VOCS server (vocs.c, vocs_internal.h, vocs.h)\<close>

definition VOCS_OPCODE_SET_OFFSET :: "8 word" where
  "VOCS_OPCODE_SET_OFFSET = 0x01"

definition VOCS_ERR_INVALID_COUNTER :: "8 word" where
  "VOCS_ERR_INVALID_COUNTER = 0x80"

definition VOCS_ERR_OP_NOT_SUPPORTED :: "8 word" where
  "VOCS_ERR_OP_NOT_SUPPORTED = 0x81"

definition VOCS_ERR_OUT_OF_RANGE :: "8 word" where
  "VOCS_ERR_OUT_OF_RANGE = 0x82"

definition VALID_VOCS_OPCODE :: "8 word \<Rightarrow> bool" where
  "VALID_VOCS_OPCODE opcode \<longleftrightarrow> opcode = VOCS_OPCODE_SET_OFFSET"

text \<open>\<open>sizeof(struct vocs_control_t)\<close>: the struct is packed, 1 + 1 + 2 bytes.\<close>

definition sizeof_vocs_control_t :: "16 word" where
  "sizeof_vocs_control_t = 4"

text \<open>
  Modelled from the spec: \<open>sys/byteorder.h\<close> is not among the sources.  The operand
  of SetOffset is "i16 little-endian" on the wire, and \<open>sys_le16_to_cpu\<close> converts a
  little-endian 16-bit value to the byte order of the host: on a little-endian host the
  macro is its argument, on a big-endian host it is the byte swap \<open>__bswap_16\<close>, a
  \<open>uint16_t\<close>.  The byte order of the host is a parameter of the handler.

  \<open>offset\<close> is an \<open>int16_t\<close>, read through \<open>sint\<close>.  \<open>sys_le16_to_cpu\<close> is applied
  to the \<open>int16_t\<close> member \<open>cp->offset\<close>, the two operand bytes as the host reads
  them; its result is given as the \<open>int\<close> the expression has after the integer
  promotions.
\<close>

datatype byte_order = Little_Endian | Big_Endian

definition bswap_16 :: "16 word \<Rightarrow> 16 word" where
  "bswap_16 x = (drop_bit 8 x AND 0xff) OR push_bit 8 (x AND 0xff)"

definition sys_le16_to_cpu :: "byte_order \<Rightarrow> 16 word \<Rightarrow> int" where
  "sys_le16_to_cpu bo v =
     (case bo of Little_Endian \<Rightarrow> sint v | Big_Endian \<Rightarrow> uint (bswap_16 v))"

record vocs_state_t =
  vocs_offset :: "16 word"
  vocs_change_counter :: "8 word"

record vocs_control_t =
  vocs_cp_opcode :: "8 word"
  vocs_cp_counter :: "8 word"
  vocs_cp_offset :: "16 word"

text \<open>
  The view \<open>(struct vocs_control_t *)buf\<close> of a buffer of four bytes: the packed
  member \<open>offset\<close> is made of the third and fourth byte in the byte order of the host.
\<close>

definition vocs_control_of_bytes ::
  "byte_order \<Rightarrow> 8 word \<Rightarrow> 8 word \<Rightarrow> 8 word \<Rightarrow> 8 word \<Rightarrow> vocs_control_t" where
  "vocs_control_of_bytes bo b0 b1 b2 b3 =
     \<lparr>vocs_cp_opcode = b0, vocs_cp_counter = b1,
      vocs_cp_offset = (case bo of Little_Endian \<Rightarrow> word_cat b3 b2
                        | Big_Endian \<Rightarrow> word_cat b2 b3)\<rparr>"

record bt_vocs_cb =
  vocs_cb_state :: bool

record bt_vocs =
  vocs_state :: vocs_state_t
  vocs_index :: "8 word"
  vocs_cb :: "bt_vocs_cb option"

datatype vocs_event =
    Notify_VOCS_State vocs_state_t
  | Cb_VOCS_State "8 word" "16 word"

text \<open>
  \<open>UINT8_MAX\<close> is 255; the range test is made on \<open>int\<close>, on \<open>cp->offset\<close> itself.
  The comparison with \<open>inst->state.offset\<close> is made on \<open>int\<close> too, and the
  assignment converts to \<open>int16_t\<close>.
\<close>

definition vocs_switch ::
  "byte_order \<Rightarrow> bt_vocs \<Rightarrow> vocs_control_t \<Rightarrow> 8 word + vocs_state_t \<times> bool" where
  "vocs_switch bo inst cp =
     (let st = vocs_state inst in
      if vocs_cp_opcode cp = VOCS_OPCODE_SET_OFFSET then
        (if sint (vocs_cp_offset cp) > 255 \<or> sint (vocs_cp_offset cp) < - 255
         then Inl VOCS_ERR_OUT_OF_RANGE
         else if sint (vocs_offset st) \<noteq> sys_le16_to_cpu bo (vocs_cp_offset cp)
         then Inr (st\<lparr>vocs_offset := word_of_int (sys_le16_to_cpu bo (vocs_cp_offset cp))\<rparr>,
                   True)
         else Inr (st, False))
      else Inl VOCS_ERR_OP_NOT_SUPPORTED)"

definition vocs_notify_state ::
  "bt_vocs \<Rightarrow> vocs_state_t \<Rightarrow> bool \<Rightarrow> bt_vocs \<times> vocs_event list" where
  "vocs_notify_state inst st notify =
     (if notify then
        (let st' = st\<lparr>vocs_change_counter := vocs_change_counter st + 1\<rparr> in
         (inst\<lparr>vocs_state := st'\<rparr>,
          Notify_VOCS_State st' #
          (case vocs_cb inst of
             None \<Rightarrow> []
           | Some cb \<Rightarrow>
               if vocs_cb_state cb then [Cb_VOCS_State (vocs_index inst) (vocs_offset st')]
               else [])))
      else (inst\<lparr>vocs_state := st\<rparr>, []))"

text \<open>
  \<open>write_vocs_control\<close> tests the buffer and the opcode before the offset, in this
  order in the source.
\<close>

definition write_vocs_control ::
  "byte_order \<Rightarrow> bt_vocs \<Rightarrow> vocs_control_t option \<Rightarrow> 16 word \<Rightarrow> 16 word
     \<Rightarrow> int \<times> bt_vocs \<times> vocs_event list" where
  "write_vocs_control bo inst buf len offset =
     (case buf of
        None \<Rightarrow> (BT_GATT_ERR BT_ATT_ERR_INVALID_ATTRIBUTE_LEN, inst, [])
      | Some cp \<Rightarrow>
          if len = 0 then (BT_GATT_ERR BT_ATT_ERR_INVALID_ATTRIBUTE_LEN, inst, [])
          else if \<not> VALID_VOCS_OPCODE (vocs_cp_opcode cp) then
            (BT_GATT_ERR VOCS_ERR_OP_NOT_SUPPORTED, inst, [])
          else if offset \<noteq> 0 then (BT_GATT_ERR BT_ATT_ERR_INVALID_OFFSET, inst, [])
          else if len \<noteq> sizeof_vocs_control_t then
            (BT_GATT_ERR BT_ATT_ERR_INVALID_ATTRIBUTE_LEN, inst, [])
          else if vocs_cp_counter cp \<noteq> vocs_change_counter (vocs_state inst) then
            (BT_GATT_ERR VOCS_ERR_INVALID_COUNTER, inst, [])
          else
            (case vocs_switch bo inst cp of
               Inl e \<Rightarrow> (BT_GATT_ERR e, inst, [])
             | Inr (st, notify) \<Rightarrow>
                 (case vocs_notify_state inst st notify of
                    (inst', ev) \<Rightarrow> (uint len, inst', ev))))"

text \<open>
  The guards of \<open>write_vocs_control\<close> in the source's order: buffer, opcode, offset
  and length, then the counter.
\<close>

definition vocs_format_ok :: "vocs_control_t \<Rightarrow> 16 word \<Rightarrow> 16 word \<Rightarrow> bool" where
  "vocs_format_ok cp len offset \<longleftrightarrow>
     len \<noteq> 0 \<and> VALID_VOCS_OPCODE (vocs_cp_opcode cp) \<and> offset = 0 \<and>
     len = sizeof_vocs_control_t"

definition vocs_guards_pass ::
  "bt_vocs \<Rightarrow> vocs_control_t \<Rightarrow> 16 word \<Rightarrow> 16 word \<Rightarrow> bool" where
  "vocs_guards_pass inst cp len offset \<longleftrightarrow>
     vocs_format_ok cp len offset \<and>
     vocs_cp_counter cp = vocs_change_counter (vocs_state inst)"

fun is_vocs_state_notify :: "vocs_event \<Rightarrow> bool" where
  "is_vocs_state_notify (Notify_VOCS_State s) = True"
| "is_vocs_state_notify e = False"


section \<open>CSIS set lock (csis.c)\<close>

text \<open>
  Modelled from the spec: \<open>csip.h\<close> is not among the sources; the lock values are
  those of the data model, Released = 0x01 and Locked = 0x02.  The service error codes
  of that header are kept symbolic in the datatype \<open>csis_err\<close>.
\<close>

definition BT_CSIP_RELEASE_VALUE :: "8 word" where
  "BT_CSIP_RELEASE_VALUE = 0x01"

definition BT_CSIP_LOCK_VALUE :: "8 word" where
  "BT_CSIP_LOCK_VALUE = 0x02"

datatype csis_err =
    CSIS_ATT_ERR_INVALID_OFFSET
  | CSIS_ATT_ERR_INVALID_ATTRIBUTE_LEN
  | BT_CSIP_ERROR_LOCK_INVAL_VALUE
  | BT_CSIP_ERROR_LOCK_DENIED
  | BT_CSIP_ERROR_LOCK_RELEASE_DENIED

text \<open>\<open>bt_addr_le_t\<close>: one type byte and six address bytes, compared with \<open>memcmp\<close>.\<close>

record bt_addr_le_t =
  addr_type :: "8 word"
  addr_val :: "48 word"

definition server_dummy_addr :: bt_addr_le_t where
  "server_dummy_addr = \<lparr>addr_type = 0, addr_val = 0\<rparr>"

text \<open>
  A connection object: its identity (the pointer) and its peer address
  (\<open>bt_conn_get_dst\<close>).
\<close>

record bt_conn =
  conn_ref :: nat
  conn_dst :: bt_addr_le_t

record csis_pending_notifications_t =
  pn_addr :: bt_addr_le_t
  pn_pending :: bool
  pn_active :: bool

record bt_csis_cb_t =
  csis_cb_locked :: bool

text \<open>
  \<open>struct csis_instance_t\<close> with the members of the lock engine, and the global
  \<open>csis_cbs\<close>.  \<open>set_lock_timer\<close> is the delayed work item: the model keeps whether it
  is pending.

  Modelled from the spec: the kernel's delayed work is not among the sources.
  \<open>k_delayed_work_submit\<close> makes the item pending (the countdown of 60 seconds runs),
  \<open>k_delayed_work_cancel\<close> makes it idle, and at expiry the kernel makes it idle and
  runs the handler once.
\<close>

record csis_instance_t =
  csis_set_lock :: "8 word"
  csis_set_lock_timer :: bool
  csis_lock_client_addr :: bt_addr_le_t
  csis_pend_notify :: "csis_pending_notifications_t list"
  csis_cbs :: "bt_csis_cb_t option"

text \<open>The host state the engine reads: the live connections and the bonded addresses.\<close>

record csis_host =
  host_conns :: "bt_conn list"
  host_bonds :: "bt_addr_le_t list"

datatype csis_event =
    Notify_Lock_Value bt_conn "8 word"
  | Cb_Locked "bt_conn option" bool

definition is_bonded :: "csis_host \<Rightarrow> bt_conn \<Rightarrow> bool" where
  "is_bonded host conn \<longleftrightarrow> conn_dst conn \<in> set (host_bonds host)"

definition is_last_client_to_write :: "csis_instance_t \<Rightarrow> bt_conn option \<Rightarrow> bool" where
  "is_last_client_to_write inst conn =
     (case conn of
        Some c \<Rightarrow> conn_dst c = csis_lock_client_addr inst
      | None \<Rightarrow> server_dummy_addr = csis_lock_client_addr inst)"

text \<open>The loop of \<open>notify_client\<close>: clear the first pending entry of that address.\<close>

fun clear_first_pending ::
  "bt_addr_le_t \<Rightarrow> csis_pending_notifications_t list \<Rightarrow> csis_pending_notifications_t list"
  where
  "clear_first_pending a [] = []"
| "clear_first_pending a (e # es) =
     (if pn_pending e \<and> a = pn_addr e then e\<lparr>pn_pending := False\<rparr> # es
      else e # clear_first_pending a es)"

definition notify_client ::
  "bt_conn option \<Rightarrow> bt_conn \<Rightarrow> csis_instance_t \<times> csis_event list
     \<Rightarrow> csis_instance_t \<times> csis_event list" where
  "notify_client excluded_conn conn acc =
     (case acc of (inst, ev) \<Rightarrow>
        if excluded_conn = Some conn then (inst, ev)
        else (inst\<lparr>csis_pend_notify :=
                     clear_first_pending (conn_dst conn) (csis_pend_notify inst)\<rparr>,
              ev @ [Notify_Lock_Value conn (csis_set_lock inst)]))"

text \<open>The first loop of \<open>notify_clients\<close>: mark the active entries as pending.\<close>

definition mark_pending ::
  "bt_conn option \<Rightarrow> csis_pending_notifications_t \<Rightarrow> csis_pending_notifications_t" where
  "mark_pending excluded_client e =
     (if pn_active e then
        (case excluded_client of
           Some c \<Rightarrow> if conn_dst c = pn_addr e then e else e\<lparr>pn_pending := True\<rparr>
         | None \<Rightarrow> e\<lparr>pn_pending := True\<rparr>)
      else e)"

definition notify_clients ::
  "csis_host \<Rightarrow> bt_conn option \<Rightarrow> csis_instance_t \<Rightarrow> csis_instance_t \<times> csis_event list"
  where
  "notify_clients host excluded_client inst =
     fold (notify_client excluded_client) (host_conns host)
       (inst\<lparr>csis_pend_notify := map (mark_pending excluded_client) (csis_pend_notify inst)\<rparr>,
        [])"

definition csis_locked_cb ::
  "csis_instance_t \<Rightarrow> bt_conn option \<Rightarrow> csis_event list" where
  "csis_locked_cb inst conn =
     (case csis_cbs inst of
        None \<Rightarrow> []
      | Some cb \<Rightarrow>
          if csis_cb_locked cb
          then [Cb_Locked conn (csis_set_lock inst = BT_CSIP_LOCK_VALUE)]
          else [])"

text \<open>
  \<open>write_set_lock\<close>: the buffer is the list of the \<open>len\<close> bytes written, and
  \<open>val\<close> is its only byte once \<open>len\<close> is \<open>sizeof(val)\<close>.
\<close>

definition write_set_lock ::
  "csis_host \<Rightarrow> csis_instance_t \<Rightarrow> bt_conn option \<Rightarrow> 8 word list \<Rightarrow> 16 word
     \<Rightarrow> (csis_err + nat) \<times> csis_instance_t \<times> csis_event list" where
  "write_set_lock host inst conn buf offset =
     (if offset \<noteq> 0 then (Inl CSIS_ATT_ERR_INVALID_OFFSET, inst, [])
      else
        (case buf of
           [val] \<Rightarrow>
             if val \<noteq> BT_CSIP_RELEASE_VALUE \<and> val \<noteq> BT_CSIP_LOCK_VALUE then
               (Inl BT_CSIP_ERROR_LOCK_INVAL_VALUE, inst, [])
             else if csis_set_lock inst = BT_CSIP_LOCK_VALUE \<and> val = BT_CSIP_LOCK_VALUE
             then (Inl BT_CSIP_ERROR_LOCK_DENIED, inst, [])
             else if csis_set_lock inst = BT_CSIP_LOCK_VALUE \<and>
                     \<not> is_last_client_to_write inst conn
             then (Inl BT_CSIP_ERROR_LOCK_RELEASE_DENIED, inst, [])
             else
               (let notify = (csis_set_lock inst \<noteq> val);
                    inst1 = inst\<lparr>csis_set_lock := val\<rparr>;
                    inst2 =
                      (if csis_set_lock inst1 = BT_CSIP_LOCK_VALUE then
                         (case conn of
                            Some c \<Rightarrow> inst1\<lparr>csis_lock_client_addr := conn_dst c\<rparr>
                          | None \<Rightarrow> inst1)\<lparr>csis_set_lock_timer := True\<rparr>
                       else inst1\<lparr>csis_lock_client_addr := server_dummy_addr,
                                  csis_set_lock_timer := False\<rparr>)
                in if notify then
                     (case notify_clients host conn inst2 of
                        (inst3, ev) \<Rightarrow> (Inr 1, inst3, ev @ csis_locked_cb inst3 conn))
                   else (Inr 1, inst2, []))
         | _ \<Rightarrow> (Inl CSIS_ATT_ERR_INVALID_ATTRIBUTE_LEN, inst, [])))"

definition set_lock_timer_handler ::
  "csis_host \<Rightarrow> csis_instance_t \<Rightarrow> csis_instance_t \<times> csis_event list" where
  "set_lock_timer_handler host inst =
     (case notify_clients host None (inst\<lparr>csis_set_lock := BT_CSIP_RELEASE_VALUE\<rparr>) of
        (inst', ev) \<Rightarrow> (inst', ev @ csis_locked_cb inst' None))"

text \<open>The second loop of \<open>csis_disconnected\<close>: zero the first entry of that address.\<close>

fun forget_first ::
  "bt_addr_le_t \<Rightarrow> csis_pending_notifications_t list \<Rightarrow> csis_pending_notifications_t list"
  where
  "forget_first a [] = []"
| "forget_first a (e # es) =
     (if a = pn_addr e
      then \<lparr>pn_addr = server_dummy_addr, pn_pending = False, pn_active = False\<rparr> # es
      else e # forget_first a es)"

definition csis_disconnected ::
  "csis_host \<Rightarrow> csis_instance_t \<Rightarrow> bt_conn \<Rightarrow> csis_instance_t \<times> csis_event list" where
  "csis_disconnected host inst conn =
     (if is_bonded host conn then (inst, [])
      else
        (case (if is_last_client_to_write inst (Some conn) then
                 (case notify_clients host None
                         (inst\<lparr>csis_lock_client_addr := server_dummy_addr,
                               csis_set_lock := BT_CSIP_RELEASE_VALUE\<rparr>) of
                    (inst1, ev) \<Rightarrow> (inst1, ev @ csis_locked_cb inst1 (Some conn)))
               else (inst, [])) of
           (inst2, ev2) \<Rightarrow>
             (inst2\<lparr>csis_pend_notify :=
                      forget_first (conn_dst conn) (csis_pend_notify inst2)\<rparr>, ev2)))"

text \<open>
  \<open>bt_csis_lock\<close>, the server-side API: a forced release assigns the lock value
  directly, everything else goes through \<open>write_set_lock\<close> with a null connection.
  The result keeps the error of the write (\<open>err < 0\<close>) and maps success to 0.
\<close>

definition bt_csis_lock ::
  "csis_host \<Rightarrow> csis_instance_t \<Rightarrow> bool \<Rightarrow> bool
     \<Rightarrow> (csis_err + nat) \<times> csis_instance_t \<times> csis_event list" where
  "bt_csis_lock host inst lock force =
     (let lock_val = (if lock then BT_CSIP_LOCK_VALUE else BT_CSIP_RELEASE_VALUE) in
      if \<not> lock \<and> force then
        (case notify_clients host None (inst\<lparr>csis_set_lock := BT_CSIP_RELEASE_VALUE\<rparr>) of
           (inst', ev) \<Rightarrow>
             (Inr 0, inst',
              ev @ (case csis_cbs inst' of
                      None \<Rightarrow> []
                    | Some cb \<Rightarrow> if csis_cb_locked cb then [Cb_Locked None False] else [])))
      else
        (case write_set_lock host inst None [lock_val] 0 of
           (Inl e, inst', ev) \<Rightarrow> (Inl e, inst', ev)
         | (Inr n, inst', ev) \<Rightarrow> (Inr 0, inst', ev)))"

text \<open>
  The engine after \<open>bt_csis_init\<close>: lock released, timer idle, address and
  notification table zeroed (static storage).
\<close>

definition csis_inst_init :: "nat \<Rightarrow> csis_instance_t" where
  "csis_inst_init max_paired =
     \<lparr>csis_set_lock = BT_CSIP_RELEASE_VALUE, csis_set_lock_timer = False,
      csis_lock_client_addr = server_dummy_addr,
      csis_pend_notify =
        replicate max_paired
          \<lparr>pn_addr = server_dummy_addr, pn_pending = False, pn_active = False\<rparr>,
      csis_cbs = None\<rparr>"

text \<open>
  The steps that reach the lock: a write of the Set Lock characteristic by a peer, the
  server-side API, the expiry of the timer (only a pending item expires) and a
  disconnect.  Each step sees the host state of its moment.
\<close>

datatype csis_step =
    Lock_Write csis_host bt_conn "8 word list" "16 word"
  | Api_Lock csis_host bool bool
  | Timer_Expiry csis_host
  | Disconnected csis_host bt_conn

fun csis_do :: "csis_instance_t \<Rightarrow> csis_step \<Rightarrow> csis_instance_t" where
  "csis_do inst (Lock_Write host conn buf offset) =
     fst (snd (write_set_lock host inst (Some conn) buf offset))"
| "csis_do inst (Api_Lock host lock force) = fst (snd (bt_csis_lock host inst lock force))"
| "csis_do inst (Timer_Expiry host) =
     (if csis_set_lock_timer inst
      then fst (set_lock_timer_handler host (inst\<lparr>csis_set_lock_timer := False\<rparr>))
      else inst)"
| "csis_do inst (Disconnected host conn) = fst (csis_disconnected host inst conn)"

definition csis_run :: "csis_instance_t \<Rightarrow> csis_step list \<Rightarrow> csis_instance_t" where
  "csis_run inst steps = fold (\<lambda>step s. csis_do s step) steps inst"

text \<open>The lock invariant as the data model words it, and the part the engine keeps.\<close>

definition csis_lock_invariant :: "csis_instance_t \<Rightarrow> bool" where
  "csis_lock_invariant inst \<longleftrightarrow>
     (csis_set_lock inst = BT_CSIP_LOCK_VALUE) =
     (csis_lock_client_addr inst \<noteq> server_dummy_addr \<and> csis_set_lock_timer inst)"

definition csis_locked_timer :: "csis_instance_t \<Rightarrow> bool" where
  "csis_locked_timer inst \<longleftrightarrow>
     (csis_set_lock inst = BT_CSIP_LOCK_VALUE \<longrightarrow> csis_set_lock_timer inst) \<and>
     (csis_set_lock inst = BT_CSIP_LOCK_VALUE \<or> csis_set_lock inst = BT_CSIP_RELEASE_VALUE)"


section \<open>ASCS control-point response (ascs.c)\<close>

text \<open>
  Modelled from the spec: the header with \<open>struct bt_ascs_cp_rsp\<close>,
  \<open>struct bt_ascs_cp_ase_rsp\<close> and the response codes is not among the sources.  The
  response is one header \<open>{op, num_ase}\<close> followed by entries \<open>{id, code, reason}\<close>;
  Not Supported is 0x01 and Truncated is 0x02, the two values the comment in
  \<open>ascs_cp_rsp_add\<close> names.
\<close>

definition BT_ASCS_RSP_NOT_SUPPORTED :: "8 word" where
  "BT_ASCS_RSP_NOT_SUPPORTED = 0x01"

definition BT_ASCS_RSP_TRUNCATED :: "8 word" where
  "BT_ASCS_RSP_TRUNCATED = 0x02"

record bt_ascs_cp_rsp =
  rsp_op :: "8 word"
  rsp_num_ase :: "8 word"

record bt_ascs_cp_ase_rsp =
  ase_rsp_id :: "8 word"
  ase_rsp_code :: "8 word"
  ase_rsp_reason :: "8 word"

text \<open>
  \<open>rsp_buf\<close>: empty (\<open>len\<close> is 0, as after \<open>net_buf_simple_reset\<close>), or the header
  and the entries added behind it.  The capacity of the buffer is not modelled.
\<close>

type_synonym rsp_buf_t = "(bt_ascs_cp_rsp \<times> bt_ascs_cp_ase_rsp list) option"

definition ascs_cp_rsp_alloc :: "8 word \<Rightarrow> bt_ascs_cp_rsp \<times> bt_ascs_cp_ase_rsp list" where
  "ascs_cp_rsp_alloc op = (\<lparr>rsp_op = op, rsp_num_ase = 0\<rparr>, [])"

definition ascs_cp_rsp_add ::
  "8 word \<Rightarrow> 8 word \<Rightarrow> 8 word \<Rightarrow> 8 word \<Rightarrow> rsp_buf_t \<Rightarrow> rsp_buf_t" where
  "ascs_cp_rsp_add ase_id op code reason buf =
     (case (case buf of None \<Rightarrow> ascs_cp_rsp_alloc op | Some b \<Rightarrow> b) of
        (rsp, ases) \<Rightarrow>
          if rsp_num_ase rsp = 0xff then Some (rsp, ases)
          else
            Some (rsp\<lparr>rsp_num_ase :=
                        (if code = BT_ASCS_RSP_NOT_SUPPORTED \<or> code = BT_ASCS_RSP_TRUNCATED
                         then 0xff else rsp_num_ase rsp + 1)\<rparr>,
                  ases @ [\<lparr>ase_rsp_id = ase_id, ase_rsp_code = code,
                           ase_rsp_reason = reason\<rparr>]))"

text \<open>
  One control-point write resets the buffer and then adds responses; a call is the
  tuple \<open>(ase_id, op, code, reason)\<close>.
\<close>

fun ascs_cp_rsp_adds :: "(8 word \<times> 8 word \<times> 8 word \<times> 8 word) list \<Rightarrow> rsp_buf_t \<Rightarrow> rsp_buf_t"
  where
  "ascs_cp_rsp_adds [] buf = buf"
| "ascs_cp_rsp_adds ((ase_id, op, code, reason) # cs) buf =
     ascs_cp_rsp_adds cs (ascs_cp_rsp_add ase_id op code reason buf)"

definition ase_rsp_special :: "bt_ascs_cp_ase_rsp \<Rightarrow> bool" where
  "ase_rsp_special e \<longleftrightarrow>
     ase_rsp_code e = BT_ASCS_RSP_NOT_SUPPORTED \<or> ase_rsp_code e = BT_ASCS_RSP_TRUNCATED"


section \<open>Client write transactions (vcs_client.c, aics_client.c)\<close>

text \<open>
  What a client callback does to the outside: it calls \<open>bt_gatt_write\<close> or
  \<open>bt_gatt_read\<close>, or it calls a write callback of the application.  A GATT call
  returns at once; its \<open>int\<close> result is an input of the model (0 when the request
  was accepted), and the completion arrives later as a call of the completion callback.
  An event records the call made, whatever its result.
\<close>

datatype client_event =
    Gatt_Write "16 word" "8 word list"
  | Gatt_Read "16 word"
  | App_VCS_Write_Cb "8 word" "8 word"
  | App_VOCS_Set_Offset_Cb "8 word" "8 word"
  | App_AICS_Write_Cb "8 word" "8 word" "8 word"

text \<open>
  The result of a client API call: 0, one of the errno values it returns itself, or
  the non-zero result of the GATT call.
\<close>

datatype client_ret = Ret_OK | Ret_ENOTCONN | Ret_EINVAL | Ret_EBUSY | Ret_GATT int

definition gatt_ret :: "int \<Rightarrow> client_ret" where
  "gatt_ret err = (if err = 0 then Ret_OK else Ret_GATT err)"

subsection \<open>VCS client\<close>

text \<open>
  \<open>struct vocs_instance_t\<close> and \<open>struct vcs_instance_t\<close> with the members of the
  write transaction; \<open>write_buf\<close> is kept as the control struct it holds.
\<close>

record vocs_instance_t =
  vocs_cli_state :: vocs_state_t
  vocs_cli_start_handle :: "16 word"
  vocs_cli_end_handle :: "16 word"
  vocs_cli_state_handle :: "16 word"
  vocs_cli_control_handle :: "16 word"
  vocs_cli_busy :: bool
  vocs_cli_index :: "8 word"
  vocs_cli_write_buf :: vocs_control_t

record vcs_instance_t =
  vcs_cli_state :: vcs_state_t
  vcs_cli_state_handle :: "16 word"
  vcs_cli_control_handle :: "16 word"
  vcs_cli_busy :: bool
  vcs_cli_write_buf :: vcs_control_t
  vcs_cli_vocs_inst_cnt :: "8 word"
  vcs_cli_vocs :: "vocs_instance_t list"

text \<open>The write callbacks of \<open>struct bt_vcs_cb_t\<close>, each as "is non-null".\<close>

record bt_vcs_client_cb =
  cli_cb_vol_down :: bool
  cli_cb_vol_up :: bool
  cli_cb_mute :: bool
  cli_cb_unmute :: bool
  cli_cb_vol_down_unmute :: bool
  cli_cb_vol_up_unmute :: bool
  cli_cb_vol_set :: bool
  cli_cb_vocs_set_offset :: bool

record vcs_client =
  cli_vcs_inst :: vcs_instance_t
  cli_vcs_client_cb :: "bt_vcs_client_cb option"

definition sizeof_vcs_state_t :: "16 word" where
  "sizeof_vcs_state_t = 3"

definition sizeof_vocs_state_t :: "16 word" where
  "sizeof_vocs_state_t = 3"

definition vcs_cp_notify_app :: "vcs_client \<Rightarrow> 8 word \<Rightarrow> 8 word \<Rightarrow> client_event list" where
  "vcs_cp_notify_app c opcode err =
     (case cli_vcs_client_cb c of
        None \<Rightarrow> []
      | Some cb \<Rightarrow>
          if opcode = VCS_OPCODE_REL_VOL_DOWN then
            (if cli_cb_vol_down cb then [App_VCS_Write_Cb opcode err] else [])
          else if opcode = VCS_OPCODE_REL_VOL_UP then
            (if cli_cb_vol_up cb then [App_VCS_Write_Cb opcode err] else [])
          else if opcode = VCS_OPCODE_UNMUTE_REL_VOL_DOWN then
            (if cli_cb_vol_down_unmute cb then [App_VCS_Write_Cb opcode err] else [])
          else if opcode = VCS_OPCODE_UNMUTE_REL_VOL_UP then
            (if cli_cb_vol_up_unmute cb then [App_VCS_Write_Cb opcode err] else [])
          else if opcode = VCS_OPCODE_SET_ABS_VOL then
            (if cli_cb_vol_set cb then [App_VCS_Write_Cb opcode err] else [])
          else if opcode = VCS_OPCODE_UNMUTE then
            (if cli_cb_unmute cb then [App_VCS_Write_Cb opcode err] else [])
          else if opcode = VCS_OPCODE_MUTE then
            (if cli_cb_mute cb then [App_VCS_Write_Cb opcode err] else [])
          else [])"

text \<open>
  \<open>vcs_client_common_vcs_cp\<close> sets \<open>busy\<close> before it calls \<open>bt_gatt_write\<close>, and
  fills two bytes of \<open>write_buf\<close>; \<open>write_ret\<close> is the result of \<open>bt_gatt_write\<close>.
\<close>

definition vcs_client_common_vcs_cp ::
  "vcs_client \<Rightarrow> bt_conn option \<Rightarrow> 8 word \<Rightarrow> int
     \<Rightarrow> client_ret \<times> vcs_client \<times> client_event list" where
  "vcs_client_common_vcs_cp c conn opcode write_ret =
     (let inst = cli_vcs_inst c in
      if conn = None then (Ret_ENOTCONN, c, [])
      else if vcs_cli_control_handle inst = 0 then (Ret_EINVAL, c, [])
      else if vcs_cli_busy inst then (Ret_EBUSY, c, [])
      else
        (let wb = (vcs_cli_write_buf inst)
                    \<lparr>vcs_cp_opcode := opcode,
                     vcs_cp_counter := vcs_change_counter (vcs_cli_state inst)\<rparr>;
             inst' = inst\<lparr>vcs_cli_busy := True, vcs_cli_write_buf := wb\<rparr>
         in (gatt_ret write_ret, c\<lparr>cli_vcs_inst := inst'\<rparr>,
             [Gatt_Write (vcs_cli_control_handle inst)
                [vcs_cp_opcode wb, vcs_cp_counter wb]])))"

definition bt_vcs_client_set_volume ::
  "vcs_client \<Rightarrow> bt_conn option \<Rightarrow> 8 word \<Rightarrow> int
     \<Rightarrow> client_ret \<times> vcs_client \<times> client_event list" where
  "bt_vcs_client_set_volume c conn volume write_ret =
     (let inst = cli_vcs_inst c;
          cp = \<lparr>vcs_cp_opcode = VCS_OPCODE_SET_ABS_VOL,
                vcs_cp_counter = vcs_change_counter (vcs_cli_state inst),
                vcs_cp_volume = volume\<rparr>
      in
      if conn = None then (Ret_ENOTCONN, c, [])
      else if vcs_cli_control_handle inst = 0 then (Ret_EINVAL, c, [])
      else if vcs_cli_busy inst then (Ret_EBUSY, c, [])
      else
        (gatt_ret write_ret,
         c\<lparr>cli_vcs_inst := inst\<lparr>vcs_cli_busy := True, vcs_cli_write_buf := cp\<rparr>\<rparr>,
         [Gatt_Write (vcs_cli_control_handle inst)
            [vcs_cp_opcode cp, vcs_cp_counter cp, vcs_cp_volume cp]]))"

text \<open>
  \<open>internal_read_volume_state_cb\<close>, the completion of the re-read: \<open>data\<close> is the
  state read (or null), \<open>write_ret\<close> the result of the \<open>bt_gatt_write\<close> of the retry.
\<close>

definition internal_read_volume_state_cb ::
  "vcs_client \<Rightarrow> bt_conn option \<Rightarrow> 8 word \<Rightarrow> vcs_state_t option \<Rightarrow> 16 word \<Rightarrow> int
     \<Rightarrow> vcs_client \<times> client_event list" where
  "internal_read_volume_state_cb c conn err data data_len write_ret =
     (let opcode = vcs_cp_opcode (vcs_cli_write_buf (cli_vcs_inst c));
          cp = vcs_cli_write_buf (cli_vcs_inst c);
          (cb_err, c1, ev1) =
            (if err \<noteq> 0 then (BT_ATT_ERR_UNLIKELY, c, [])
             else
               (case data of
                  None \<Rightarrow> (0, c, [])
                | Some st \<Rightarrow>
                    if data_len = sizeof_vcs_state_t then
                      (let c0 = c\<lparr>cli_vcs_inst :=
                                    (cli_vcs_inst c)\<lparr>vcs_cli_state := st,
                                                     vcs_cli_busy := False\<rparr>\<rparr>;
                           (write_err, c', ev) =
                             (if vcs_cp_opcode cp = VCS_OPCODE_SET_ABS_VOL
                              then bt_vcs_client_set_volume c0 conn (vcs_cp_volume cp)
                                     write_ret
                              else vcs_client_common_vcs_cp c0 conn opcode write_ret)
                       in (if write_err \<noteq> Ret_OK then BT_ATT_ERR_UNLIKELY else 0, c', ev))
                    else (BT_ATT_ERR_UNLIKELY, c, [])))
      in
      if cb_err \<noteq> 0 then
        (c1\<lparr>cli_vcs_inst := (cli_vcs_inst c1)\<lparr>vcs_cli_busy := False\<rparr>\<rparr>,
         ev1 @ vcs_cp_notify_app c1 opcode BT_ATT_ERR_UNLIKELY)
      else (c1, ev1))"

text \<open>
  \<open>vcs_client_write_vcs_cp_cb\<close>, the completion of the control-point write:
  \<open>read_ret\<close> is the result of the \<open>bt_gatt_read\<close> it may issue.
\<close>

definition vcs_client_write_vcs_cp_cb ::
  "vcs_client \<Rightarrow> 8 word \<Rightarrow> int \<Rightarrow> vcs_client \<times> client_event list" where
  "vcs_client_write_vcs_cp_cb c err read_ret =
     (let inst = cli_vcs_inst c; opcode = vcs_cp_opcode (vcs_cli_write_buf inst) in
      if err = VCS_ERR_INVALID_COUNTER \<and> vcs_cli_state_handle inst \<noteq> 0 \<and> read_ret = 0
      then (c, [Gatt_Read (vcs_cli_state_handle inst)])
      else
        (c\<lparr>cli_vcs_inst := inst\<lparr>vcs_cli_busy := False\<rparr>\<rparr>,
         (if err = VCS_ERR_INVALID_COUNTER \<and> vcs_cli_state_handle inst \<noteq> 0
          then [Gatt_Read (vcs_cli_state_handle inst)] else []) @
         vcs_cp_notify_app c opcode err))"

subsection \<open>VOCS client (inside the VCS client)\<close>

text \<open>
  \<open>lookup_vocs_by_handle\<close> scans the first \<open>vocs_inst_cnt\<close> instances and yields
  the position of the instance found.
\<close>

fun lookup_vocs_from :: "nat \<Rightarrow> vocs_instance_t list \<Rightarrow> 16 word \<Rightarrow> nat option" where
  "lookup_vocs_from i [] handle = None"
| "lookup_vocs_from i (v # vs) handle =
     (if vocs_cli_start_handle v \<le> handle \<and> vocs_cli_end_handle v \<ge> handle then Some i
      else lookup_vocs_from (Suc i) vs handle)"

definition lookup_vocs_by_handle :: "vcs_client \<Rightarrow> 16 word \<Rightarrow> nat option" where
  "lookup_vocs_by_handle c handle =
     lookup_vocs_from 0
       (take (unat (vcs_cli_vocs_inst_cnt (cli_vcs_inst c))) (vcs_cli_vocs (cli_vcs_inst c)))
       handle"

definition vocs_cp_notify_app ::
  "vcs_client \<Rightarrow> 8 word \<Rightarrow> 8 word \<Rightarrow> client_event list" where
  "vocs_cp_notify_app c index err =
     (case cli_vcs_client_cb c of
        None \<Rightarrow> []
      | Some cb \<Rightarrow>
          if cli_cb_vocs_set_offset cb then [App_VOCS_Set_Offset_Cb index err] else [])"

definition vocs_put :: "vcs_client \<Rightarrow> nat \<Rightarrow> vocs_instance_t \<Rightarrow> vcs_client" where
  "vocs_put c i v =
     c\<lparr>cli_vcs_inst :=
         (cli_vcs_inst c)\<lparr>vcs_cli_vocs := (vcs_cli_vocs (cli_vcs_inst c))[i := v]\<rparr>\<rparr>"

text \<open>The four bytes of a packed \<open>struct vocs_control_t\<close> on the little-endian host.\<close>

definition vocs_control_bytes :: "vocs_control_t \<Rightarrow> 8 word list" where
  "vocs_control_bytes cp =
     [vocs_cp_opcode cp, vocs_cp_counter cp,
      ucast (vocs_cp_offset cp), ucast (drop_bit 8 (vocs_cp_offset cp))]"

definition bt_vcs_client_vocs_set_offset ::
  "vcs_client \<Rightarrow> bt_conn option \<Rightarrow> 8 word \<Rightarrow> 16 word \<Rightarrow> int
     \<Rightarrow> client_ret \<times> vcs_client \<times> client_event list" where
  "bt_vcs_client_vocs_set_offset c conn vocs_idx offset write_ret =
     (if conn = None then (Ret_ENOTCONN, c, [])
      else if unat vocs_idx \<ge> length (vcs_cli_vocs (cli_vcs_inst c)) then
        (Ret_EINVAL, c, [])
      else
        (let v = vcs_cli_vocs (cli_vcs_inst c) ! unat vocs_idx in
         if vocs_cli_control_handle v = 0 then (Ret_EINVAL, c, [])
         else if vocs_cli_busy v then (Ret_EBUSY, c, [])
         else
           (let cp = \<lparr>vocs_cp_opcode = VOCS_OPCODE_SET_OFFSET,
                      vocs_cp_counter = vocs_change_counter (vocs_cli_state v),
                      vocs_cp_offset = offset\<rparr>;
                v' = v\<lparr>vocs_cli_write_buf := cp,
                       vocs_cli_busy := (if write_ret = 0 then True else vocs_cli_busy v)\<rparr>
            in (gatt_ret write_ret, vocs_put c (unat vocs_idx) v',
                [Gatt_Write (vocs_cli_control_handle v) (vocs_control_bytes cp)]))))"

text \<open>
  \<open>internal_read_volume_offset_state_cb\<close> takes \<open>cp\<close> from \<open>vcs_inst.write_buf\<close>,
  the three-byte buffer of the VCS control point, as the source does: the low byte of
  \<open>cp->offset\<close> is the third byte of that buffer, the high byte is the byte that
  follows the buffer in memory, an input of the model (\<open>next_byte\<close>).
\<close>

definition internal_read_volume_offset_state_cb ::
  "vcs_client \<Rightarrow> bt_conn option \<Rightarrow> 8 word \<Rightarrow> 16 word \<Rightarrow> vocs_state_t option \<Rightarrow> 16 word
     \<Rightarrow> 8 word \<Rightarrow> int \<Rightarrow> vcs_client \<times> client_event list" where
  "internal_read_volume_offset_state_cb c conn err handle data data_len next_byte write_ret =
     (let cp_offset =
            (word_cat next_byte (vcs_cp_volume (vcs_cli_write_buf (cli_vcs_inst c)))
               :: 16 word)
      in
      case lookup_vocs_by_handle c handle of
        None \<Rightarrow> (c, [])
      | Some i \<Rightarrow>
          (let v = vcs_cli_vocs (cli_vcs_inst c) ! i;
               (cb_err, c1, ev1) =
                 (if err \<noteq> 0 then (BT_ATT_ERR_UNLIKELY, c, [])
                  else
                    (case data of
                       None \<Rightarrow> (0, c, [])
                     | Some st \<Rightarrow>
                         if data_len = sizeof_vocs_state_t then
                           (let c0 = vocs_put c i
                                       (v\<lparr>vocs_cli_state := st, vocs_cli_busy := False\<rparr>);
                                (write_err, c', ev) =
                                  bt_vcs_client_vocs_set_offset c0 conn (vocs_cli_index v)
                                    cp_offset write_ret
                            in (if write_err \<noteq> Ret_OK then BT_ATT_ERR_UNLIKELY else 0,
                                c', ev))
                         else (BT_ATT_ERR_UNLIKELY, c, [])))
           in
           if cb_err \<noteq> 0 then
             (vocs_put c1 i ((vcs_cli_vocs (cli_vcs_inst c1) ! i)\<lparr>vocs_cli_busy := False\<rparr>),
              ev1 @ vocs_cp_notify_app c1 (vocs_cli_index v) BT_ATT_ERR_UNLIKELY)
           else (c1, ev1)))"

definition vcs_client_write_vocs_cp_cb ::
  "vcs_client \<Rightarrow> 8 word \<Rightarrow> 16 word \<Rightarrow> int \<Rightarrow> vcs_client \<times> client_event list" where
  "vcs_client_write_vocs_cp_cb c err handle read_ret =
     (case lookup_vocs_by_handle c handle of
        None \<Rightarrow> (c, [])
      | Some i \<Rightarrow>
          (let v = vcs_cli_vocs (cli_vcs_inst c) ! i in
           if err = VOCS_ERR_INVALID_COUNTER \<and> vocs_cli_state_handle v \<noteq> 0 \<and> read_ret = 0
           then (c, [Gatt_Read (vocs_cli_state_handle v)])
           else
             (vocs_put c i (v\<lparr>vocs_cli_busy := False\<rparr>),
              (if err = VOCS_ERR_INVALID_COUNTER \<and> vocs_cli_state_handle v \<noteq> 0
               then [Gatt_Read (vocs_cli_state_handle v)] else []) @
              vocs_cp_notify_app c (vocs_cli_index v) err)))"

subsection \<open>AICS client\<close>

text \<open>
  \<open>struct aics_instance_t\<close> with the members of the write transaction, the write
  callbacks of \<open>struct bt_aics_cb\<close>, and the global array \<open>aics_insts\<close> of registered
  instances (a null slot is \<open>None\<close>).
\<close>

record bt_aics_client_cb =
  cli_cb_set_gain :: bool
  cli_cb_aics_unmute :: bool
  cli_cb_aics_mute :: bool
  cli_cb_set_manual_mode :: bool
  cli_cb_set_auto_mode :: bool

record aics_instance_t =
  aics_cli_change_counter :: "8 word"
  aics_cli_start_handle :: "16 word"
  aics_cli_end_handle :: "16 word"
  aics_cli_state_handle :: "16 word"
  aics_cli_control_handle :: "16 word"
  aics_cli_busy :: bool
  aics_cli_index :: "8 word"
  aics_cli_write_buf :: aics_gain_control_t
  aics_cli_cb :: "bt_aics_client_cb option"

type_synonym aics_insts_t = "aics_instance_t option list"

definition sizeof_aics_state_t :: "16 word" where
  "sizeof_aics_state_t = 4"

fun lookup_aics_from :: "nat \<Rightarrow> aics_insts_t \<Rightarrow> 16 word \<Rightarrow> nat option" where
  "lookup_aics_from i [] handle = None"
| "lookup_aics_from i (x # xs) handle =
     (case x of
        None \<Rightarrow> lookup_aics_from (Suc i) xs handle
      | Some a \<Rightarrow>
          if aics_cli_start_handle a \<le> handle \<and> aics_cli_end_handle a \<ge> handle
          then Some i
          else lookup_aics_from (Suc i) xs handle)"

definition lookup_aics_by_handle :: "aics_insts_t \<Rightarrow> 16 word \<Rightarrow> nat option" where
  "lookup_aics_by_handle insts handle = lookup_aics_from 0 insts handle"

definition aics_cp_notify_app :: "aics_instance_t \<Rightarrow> 8 word \<Rightarrow> client_event list" where
  "aics_cp_notify_app a err =
     (let opcode = aics_cp_opcode (aics_cp (aics_cli_write_buf a));
          ev = [App_AICS_Write_Cb opcode (aics_cli_index a) err]
      in
      case aics_cli_cb a of
        None \<Rightarrow> []
      | Some cb \<Rightarrow>
          if opcode = AICS_OPCODE_SET_GAIN then (if cli_cb_set_gain cb then ev else [])
          else if opcode = AICS_OPCODE_UNMUTE then (if cli_cb_aics_unmute cb then ev else [])
          else if opcode = AICS_OPCODE_MUTE then (if cli_cb_aics_mute cb then ev else [])
          else if opcode = AICS_OPCODE_SET_MANUAL then
            (if cli_cb_set_manual_mode cb then ev else [])
          else if opcode = AICS_OPCODE_SET_AUTO then
            (if cli_cb_set_auto_mode cb then ev else [])
          else [])"

definition aics_client_common_control ::
  "aics_insts_t \<Rightarrow> bt_conn option \<Rightarrow> 8 word \<Rightarrow> 8 word \<Rightarrow> int
     \<Rightarrow> client_ret \<times> aics_insts_t \<times> client_event list" where
  "aics_client_common_control insts conn opcode index write_ret =
     (if conn = None then (Ret_ENOTCONN, insts, [])
      else if unat index \<ge> length insts then (Ret_EINVAL, insts, [])
      else
        (case insts ! unat index of
           None \<Rightarrow> (Ret_EINVAL, insts, [])
         | Some a \<Rightarrow>
             if aics_cli_control_handle a = 0 then (Ret_EINVAL, insts, [])
             else if aics_cli_busy a then (Ret_EBUSY, insts, [])
             else
               (let wb = (aics_cli_write_buf a)
                           \<lparr>aics_cp := \<lparr>aics_cp_opcode = opcode,
                                        aics_cp_counter = aics_cli_change_counter a\<rparr>\<rparr>;
                    a' = a\<lparr>aics_cli_write_buf := wb,
                           aics_cli_busy := (if write_ret = 0 then True else aics_cli_busy a)\<rparr>
                in (gatt_ret write_ret, insts[unat index := Some a'],
                    [Gatt_Write (aics_cli_control_handle a)
                       [opcode, aics_cli_change_counter a]]))))"

definition bt_aics_client_gain_set ::
  "aics_insts_t \<Rightarrow> bt_conn option \<Rightarrow> 8 word \<Rightarrow> 8 word \<Rightarrow> int
     \<Rightarrow> client_ret \<times> aics_insts_t \<times> client_event list" where
  "bt_aics_client_gain_set insts conn index gain write_ret =
     (if conn = None then (Ret_ENOTCONN, insts, [])
      else if unat index \<ge> length insts then (Ret_EINVAL, insts, [])
      else
        (case insts ! unat index of
           None \<Rightarrow> (Ret_EINVAL, insts, [])
         | Some a \<Rightarrow>
             if aics_cli_control_handle a = 0 then (Ret_EINVAL, insts, [])
             else if aics_cli_busy a then (Ret_EBUSY, insts, [])
             else
               (let cp = \<lparr>aics_cp = \<lparr>aics_cp_opcode = AICS_OPCODE_SET_GAIN,
                                      aics_cp_counter = aics_cli_change_counter a\<rparr>,
                          aics_gain_setting = gain\<rparr>;
                    a' = a\<lparr>aics_cli_write_buf := cp,
                           aics_cli_busy := (if write_ret = 0 then True else aics_cli_busy a)\<rparr>
                in (gatt_ret write_ret, insts[unat index := Some a'],
                    [Gatt_Write (aics_cli_control_handle a)
                       [AICS_OPCODE_SET_GAIN, aics_cli_change_counter a, gain]]))))"

definition aics_set_busy :: "aics_insts_t \<Rightarrow> nat \<Rightarrow> bool \<Rightarrow> aics_insts_t" where
  "aics_set_busy insts i b =
     (case insts ! i of
        None \<Rightarrow> insts
      | Some a \<Rightarrow> insts[i := Some (a\<lparr>aics_cli_busy := b\<rparr>)])"

text \<open>
  \<open>internal_read_input_state_cb\<close>: the instance is found by the handle of the read;
  the retry goes through the public functions with \<open>aics_inst->index\<close>.
\<close>

definition internal_read_input_state_cb ::
  "aics_insts_t \<Rightarrow> bt_conn option \<Rightarrow> 8 word \<Rightarrow> 16 word \<Rightarrow> aics_state_t option \<Rightarrow> 16 word
     \<Rightarrow> int \<Rightarrow> aics_insts_t \<times> client_event list" where
  "internal_read_input_state_cb insts conn err handle data data_len write_ret =
     (case lookup_aics_by_handle insts handle of
        None \<Rightarrow> (insts, [])
      | Some i \<Rightarrow>
          (case insts ! i of
             None \<Rightarrow> (insts, [])
           | Some a \<Rightarrow>
               (let (cb_err, insts1, ev1) =
                      (if err \<noteq> 0 then (BT_ATT_ERR_UNLIKELY, insts, [])
                       else
                         (case data of
                            None \<Rightarrow> (0, insts, [])
                          | Some st \<Rightarrow>
                              if data_len = sizeof_aics_state_t then
                                (let a0 = a\<lparr>aics_cli_change_counter := aics_change_counter st,
                                            aics_cli_busy := False\<rparr>;
                                     insts0 = insts[i := Some a0];
                                     cp = aics_cli_write_buf a0;
                                     (write_err, insts', ev) =
                                       (if aics_cp_opcode (aics_cp cp) = AICS_OPCODE_SET_GAIN
                                        then bt_aics_client_gain_set insts0 conn
                                               (aics_cli_index a0) (aics_gain_setting cp)
                                               write_ret
                                        else aics_client_common_control insts0 conn
                                               (aics_cp_opcode (aics_cp cp))
                                               (aics_cli_index a0) write_ret)
                                 in (if write_err \<noteq> Ret_OK then BT_ATT_ERR_UNLIKELY else 0,
                                     insts', ev))
                              else (BT_ATT_ERR_UNLIKELY, insts, [])))
                in
                if cb_err \<noteq> 0 then
                  (aics_set_busy insts1 i False,
                   ev1 @ (case insts1 ! i of
                            None \<Rightarrow> []
                          | Some a1 \<Rightarrow> aics_cp_notify_app a1 cb_err))
                else (insts1, ev1))))"

definition aics_client_write_aics_cp_cb ::
  "aics_insts_t \<Rightarrow> 8 word \<Rightarrow> 16 word \<Rightarrow> int \<Rightarrow> aics_insts_t \<times> client_event list" where
  "aics_client_write_aics_cp_cb insts err handle read_ret =
     (case lookup_aics_by_handle insts handle of
        None \<Rightarrow> (insts, [])
      | Some i \<Rightarrow>
          (case insts ! i of
             None \<Rightarrow> (insts, [])
           | Some a \<Rightarrow>
               if err = AICS_ERR_INVALID_COUNTER \<and> aics_cli_state_handle a \<noteq> 0 \<and>
                  read_ret = 0
               then (insts, [Gatt_Read (aics_cli_state_handle a)])
               else
                 (insts[i := Some (a\<lparr>aics_cli_busy := False\<rparr>)],
                  (if err = AICS_ERR_INVALID_COUNTER \<and> aics_cli_state_handle a \<noteq> 0
                   then [Gatt_Read (aics_cli_state_handle a)] else []) @
                  aics_cp_notify_app a err)))"


section \<open>What a committed control-point write must look like\<close>











section \<open>The guards as the control-point pattern states them\<close>

text \<open>
  Steps 1 to 3 of the pattern: the offset is zero, the opcode is one of the service,
  and the write length equals the length implied by the opcode: 2 bytes for the short
  opcodes, 3 bytes for Set Absolute Volume and Set Gain, 4 bytes for Set Offset.
\<close>

definition vcs_spec_length :: "8 word \<Rightarrow> 16 word" where
  "vcs_spec_length opc = (if opc = VCS_OPCODE_SET_ABS_VOL then 3 else 2)"

definition aics_spec_length :: "8 word \<Rightarrow> 16 word" where
  "aics_spec_length opc = (if opc = AICS_OPCODE_SET_GAIN then 3 else 2)"

definition vocs_spec_length :: "8 word \<Rightarrow> 16 word" where
  "vocs_spec_length opc = 4"

definition vcs_spec_guards_ok :: "vcs_control_t \<Rightarrow> 16 word \<Rightarrow> 16 word \<Rightarrow> bool" where
  "vcs_spec_guards_ok cp len offset \<longleftrightarrow>
     offset = 0 \<and> VALID_VCS_OPCODE (vcs_cp_opcode cp) \<and>
     len = vcs_spec_length (vcs_cp_opcode cp)"

definition aics_spec_guards_ok :: "aics_gain_control_t \<Rightarrow> 16 word \<Rightarrow> 16 word \<Rightarrow> bool" where
  "aics_spec_guards_ok cp len offset \<longleftrightarrow>
     offset = 0 \<and> VALID_AICS_OPCODE (aics_cp_opcode (aics_cp cp)) \<and>
     len = aics_spec_length (aics_cp_opcode (aics_cp cp))"

definition vocs_spec_guards_ok :: "vocs_control_t \<Rightarrow> 16 word \<Rightarrow> 16 word \<Rightarrow> bool" where
  "vocs_spec_guards_ok cp len offset \<longleftrightarrow>
     offset = 0 \<and> VALID_VOCS_OPCODE (vocs_cp_opcode cp) \<and>
     len = vocs_spec_length (vocs_cp_opcode cp)"

text \<open>
  The writes the length test of the VCS and of the AICS handler lets through beside
  those of the pattern: the long opcode written with two bytes, without its operand.
\<close>

definition vcs_short_long_opcode :: "vcs_control_t \<Rightarrow> 16 word \<Rightarrow> 16 word \<Rightarrow> bool" where
  "vcs_short_long_opcode cp len offset \<longleftrightarrow>
     offset = 0 \<and> vcs_cp_opcode cp = VCS_OPCODE_SET_ABS_VOL \<and> len = 2"

definition aics_short_long_opcode ::
  "aics_gain_control_t \<Rightarrow> 16 word \<Rightarrow> 16 word \<Rightarrow> bool" where
  "aics_short_long_opcode cp len offset \<longleftrightarrow>
     offset = 0 \<and> aics_cp_opcode (aics_cp cp) = AICS_OPCODE_SET_GAIN \<and> len = 2"

text \<open>
  The operand of Set Offset as the wire carries it, "i16 little-endian", recovered
  from the member \<open>cp->offset\<close> that the host reads in its own byte order.
\<close>

definition vocs_wire_offset :: "byte_order \<Rightarrow> vocs_control_t \<Rightarrow> 16 word" where
  "vocs_wire_offset bo cp =
     (case bo of Little_Endian \<Rightarrow> vocs_cp_offset cp
      | Big_Endian \<Rightarrow> bswap_16 (vocs_cp_offset cp))"


section \<open>Counting the ASCS response entries\<close>

text \<open>
  The two response codes that overload \<open>num_ase\<close>, the entry a call adds, and the
  relation between \<open>num_ase\<close> and the entries in the buffer: 0xFF as soon as one entry
  carries such a code, the number of entries as long as none does.
\<close>

definition rsp_code_special :: "8 word \<Rightarrow> bool" where
  "rsp_code_special code \<longleftrightarrow>
     code = BT_ASCS_RSP_NOT_SUPPORTED \<or> code = BT_ASCS_RSP_TRUNCATED"

definition rsp_counted :: "bt_ascs_cp_rsp \<Rightarrow> bt_ascs_cp_ase_rsp list \<Rightarrow> bool" where
  "rsp_counted rsp ases \<longleftrightarrow>
     ((\<exists>e \<in> set ases. ase_rsp_special e) \<longrightarrow> rsp_num_ase rsp = 0xff) \<and>
     ((\<forall>e \<in> set ases. \<not> ase_rsp_special e) \<longrightarrow> unat (rsp_num_ase rsp) = length ases)"

definition buf_counted :: "rsp_buf_t \<Rightarrow> bool" where
  "buf_counted buf \<longleftrightarrow> (case buf of None \<Rightarrow> True | Some (rsp, ases) \<Rightarrow> rsp_counted rsp ases)"

definition ase_rsp_of :: "8 word \<times> 8 word \<times> 8 word \<times> 8 word \<Rightarrow> bt_ascs_cp_ase_rsp" where
  "ase_rsp_of c =
     (case c of (i, op, code, reason) \<Rightarrow>
        \<lparr>ase_rsp_id = i, ase_rsp_code = code, ase_rsp_reason = reason\<rparr>)"


section \<open>The lock, its timer and its holder\<close>

text \<open>The three members the lock invariant speaks of: lock value, timer pending, holder.\<close>

definition csis_lock_part :: "csis_instance_t \<Rightarrow> 8 word \<times> bool \<times> bt_addr_le_t" where
  "csis_lock_part inst = (csis_set_lock inst, csis_set_lock_timer inst, csis_lock_client_addr inst)"


section \<open>The bytes of a retried client write\<close>

text \<open>
  The value a client sends when it repeats the write recorded in its write buffer
  with a refreshed counter: opcode and counter, and the operand for the opcodes that
  carry one.
\<close>

definition vcs_retry_bytes :: "vcs_control_t \<Rightarrow> 8 word \<Rightarrow> 8 word list" where
  "vcs_retry_bytes wb counter =
     (if vcs_cp_opcode wb = VCS_OPCODE_SET_ABS_VOL
      then [vcs_cp_opcode wb, counter, vcs_cp_volume wb]
      else [vcs_cp_opcode wb, counter])"

definition aics_retry_bytes :: "aics_gain_control_t \<Rightarrow> 8 word \<Rightarrow> 8 word list" where
  "aics_retry_bytes wb counter =
     (if aics_cp_opcode (aics_cp wb) = AICS_OPCODE_SET_GAIN
      then [aics_cp_opcode (aics_cp wb), counter, aics_gain_setting wb]
      else [aics_cp_opcode (aics_cp wb), counter])"


section \<open>Concrete inputs\<close>

text \<open>Instances and requests at which the theorems below are evaluated.\<close>

definition vcs_abs_vol_100 :: vcs_control_t where
  "vcs_abs_vol_100 = \<lparr>vcs_cp_opcode = 4, vcs_cp_counter = 0, vcs_cp_volume = 100\<rparr>"

definition vcs_vol_up :: vcs_control_t where
  "vcs_vol_up = \<lparr>vcs_cp_opcode = 1, vcs_cp_counter = 0, vcs_cp_volume = 0\<rparr>"

definition vcs_inst_latched :: vcs_inst_t where
  "vcs_inst_latched = vcs_inst_init\<lparr>vcs_flags := 1\<rparr>"

definition vcs_cb_state_only :: bt_vcs_cb_t where
  "vcs_cb_state_only = \<lparr>vcs_cb_state = True, vcs_cb_flags = False\<rparr>"

definition vcs_inst_state_cb :: vcs_inst_t where
  "vcs_inst_state_cb = vcs_inst_init\<lparr>vcs_cb := Some vcs_cb_state_only\<rparr>"

text \<open>The VCS instance of the spec's third scenario: volume 200, counter 2.\<close>

definition vcs_inst_ctr2 :: vcs_inst_t where
  "vcs_inst_ctr2 =
     vcs_inst_init\<lparr>vcs_state :=
       \<lparr>vcs_volume = 200, vcs_mute = 0, vcs_change_counter = 2\<rparr>\<rparr>"

definition vcs_abs_vol_50_stale :: vcs_control_t where
  "vcs_abs_vol_50_stale = \<lparr>vcs_cp_opcode = 4, vcs_cp_counter = 0, vcs_cp_volume = 50\<rparr>"

definition vcs_bad_opcode :: vcs_control_t where
  "vcs_bad_opcode = \<lparr>vcs_cp_opcode = 9, vcs_cp_counter = 0, vcs_cp_volume = 0\<rparr>"

text \<open>AICS instances with gain 0, range [-10, 10] and counter 0, one per mode.\<close>

definition aics_inst_mode :: "8 word \<Rightarrow> bt_aics" where
  "aics_inst_mode m =
     \<lparr>aics_state = \<lparr>aics_gain = 0, aics_mute = 0, aics_mode = m, aics_change_counter = 0\<rparr>,
      aics_gain_settings = \<lparr>aics_units = 1, aics_minimum = - 10, aics_maximum = 10\<rparr>,
      aics_index = 0, aics_cb = None\<rparr>"

definition aics_set_gain_5 :: aics_gain_control_t where
  "aics_set_gain_5 =
     \<lparr>aics_cp = \<lparr>aics_cp_opcode = 1, aics_cp_counter = 0\<rparr>, aics_gain_setting = 5\<rparr>"

definition aics_set_gain_5_stale :: aics_gain_control_t where
  "aics_set_gain_5_stale =
     \<lparr>aics_cp = \<lparr>aics_cp_opcode = 1, aics_cp_counter = 7\<rparr>, aics_gain_setting = 5\<rparr>"

definition aics_bad_opcode :: aics_gain_control_t where
  "aics_bad_opcode =
     \<lparr>aics_cp = \<lparr>aics_cp_opcode = 9, aics_cp_counter = 0\<rparr>, aics_gain_setting = 0\<rparr>"

text \<open>A VOCS instance with offset 0 and counter 0, and requests on it.\<close>

definition vocs_inst_zero :: bt_vocs where
  "vocs_inst_zero =
     \<lparr>vocs_state = \<lparr>vocs_offset = 0, vocs_change_counter = 0\<rparr>,
      vocs_index = 0, vocs_cb = None\<rparr>"

definition vocs_set_offset_req :: "8 word \<Rightarrow> 16 word \<Rightarrow> vocs_control_t" where
  "vocs_set_offset_req counter v =
     \<lparr>vocs_cp_opcode = 1, vocs_cp_counter = counter, vocs_cp_offset = v\<rparr>"

text \<open>
  The buffer of a write of two bytes, Set Absolute Volume with counter 0 and Set Gain
  with counter 1, seen through the struct: the operand is the byte that lies behind
  the two bytes written.
\<close>

definition vcs_abs_vol_short :: "8 word \<Rightarrow> vcs_control_t" where
  "vcs_abs_vol_short next_byte =
     \<lparr>vcs_cp_opcode = 4, vcs_cp_counter = 0, vcs_cp_volume = next_byte\<rparr>"

definition aics_set_gain_short :: "8 word \<Rightarrow> aics_gain_control_t" where
  "aics_set_gain_short next_byte =
     \<lparr>aics_cp = \<lparr>aics_cp_opcode = 1, aics_cp_counter = 1\<rparr>, aics_gain_setting = next_byte\<rparr>"


text \<open>A VOCS instance as a first write of the operand -1 leaves it.\<close>

definition vocs_inst_minus_one :: bt_vocs where
  "vocs_inst_minus_one =
     \<lparr>vocs_state = \<lparr>vocs_offset = - 1, vocs_change_counter = 1\<rparr>,
      vocs_index = 0, vocs_cb = None\<rparr>"

definition vocs_bad_opcode :: vocs_control_t where
  "vocs_bad_opcode = \<lparr>vocs_cp_opcode = 2, vocs_cp_counter = 0, vocs_cp_offset = 0\<rparr>"

text \<open>
  Two runs of \<open>ascs_cp_rsp_add\<close> on the emptied buffer, as tuples
  \<open>(ase_id, op, code, reason)\<close>: success, Truncated, success; and two successes.
\<close>

definition ascs_calls_truncated :: "(8 word \<times> 8 word \<times> 8 word \<times> 8 word) list" where
  "ascs_calls_truncated = [(1, 1, 0, 0), (0, 1, 2, 0), (3, 1, 0, 0)]"

definition ascs_calls_plain :: "(8 word \<times> 8 word \<times> 8 word \<times> 8 word) list" where
  "ascs_calls_plain = [(1, 1, 0, 0), (2, 1, 0, 0)]"

text \<open>
  CSIS runs from the initialised engine: the server takes the lock through its own API;
  a peer takes the lock and the server then forces the release.
\<close>

definition host_empty :: csis_host where
  "host_empty = \<lparr>host_conns = [], host_bonds = []\<rparr>"

definition peer_a :: bt_conn where
  "peer_a = \<lparr>conn_ref = 1, conn_dst = \<lparr>addr_type = 0, addr_val = 0xA\<rparr>\<rparr>"

definition host_a :: csis_host where
  "host_a = \<lparr>host_conns = [peer_a], host_bonds = []\<rparr>"

definition csis_server_locked :: csis_instance_t where
  "csis_server_locked = csis_run (csis_inst_init 2) [Api_Lock host_empty True False]"

definition csis_forced_release :: csis_instance_t where
  "csis_forced_release =
     csis_run (csis_inst_init 2)
       [Lock_Write host_a peer_a [BT_CSIP_LOCK_VALUE] 0, Api_Lock host_a False True]"

text \<open>
  A VCS client with one VOCS instance and an AICS client instance, all callbacks
  registered, and the states they pass through when a write is answered with the
  Invalid Change Counter error: written, re-reading, retried, re-reading again.
\<close>

definition client_conn :: bt_conn where
  "client_conn = \<lparr>conn_ref = 1, conn_dst = \<lparr>addr_type = 0, addr_val = 0xB\<rparr>\<rparr>"

definition vocs_client_inst :: vocs_instance_t where
  "vocs_client_inst =
     \<lparr>vocs_cli_state = \<lparr>vocs_offset = 0, vocs_change_counter = 0\<rparr>,
      vocs_cli_start_handle = 0x20, vocs_cli_end_handle = 0x2f,
      vocs_cli_state_handle = 0x22, vocs_cli_control_handle = 0x25,
      vocs_cli_busy = False, vocs_cli_index = 0,
      vocs_cli_write_buf = \<lparr>vocs_cp_opcode = 0, vocs_cp_counter = 0, vocs_cp_offset = 0\<rparr>\<rparr>"

definition vcs_client_cb_all :: bt_vcs_client_cb where
  "vcs_client_cb_all =
     \<lparr>cli_cb_vol_down = True, cli_cb_vol_up = True, cli_cb_mute = True,
      cli_cb_unmute = True, cli_cb_vol_down_unmute = True, cli_cb_vol_up_unmute = True,
      cli_cb_vol_set = True, cli_cb_vocs_set_offset = True\<rparr>"

definition vcs_client_idle :: vcs_client where
  "vcs_client_idle =
     \<lparr>cli_vcs_inst =
        \<lparr>vcs_cli_state = \<lparr>vcs_volume = 100, vcs_mute = 0, vcs_change_counter = 0\<rparr>,
         vcs_cli_state_handle = 3, vcs_cli_control_handle = 5, vcs_cli_busy = False,
         vcs_cli_write_buf = \<lparr>vcs_cp_opcode = 0, vcs_cp_counter = 0, vcs_cp_volume = 0\<rparr>,
         vcs_cli_vocs_inst_cnt = 1, vcs_cli_vocs = [vocs_client_inst]\<rparr>,
      cli_vcs_client_cb = Some vcs_client_cb_all\<rparr>"

definition vcs_server_state :: "8 word \<Rightarrow> vcs_state_t" where
  "vcs_server_state counter = \<lparr>vcs_volume = 100, vcs_mute = 0, vcs_change_counter = counter\<rparr>"

definition vcs_client_written :: vcs_client where
  "vcs_client_written =
     fst (snd (vcs_client_common_vcs_cp vcs_client_idle (Some client_conn)
                 VCS_OPCODE_REL_VOL_UP 0))"

definition vcs_client_rereading :: vcs_client where
  "vcs_client_rereading =
     fst (vcs_client_write_vcs_cp_cb vcs_client_written VCS_ERR_INVALID_COUNTER 0)"

definition vcs_client_retried :: vcs_client where
  "vcs_client_retried =
     fst (internal_read_volume_state_cb vcs_client_rereading (Some client_conn) 0
            (Some (vcs_server_state 1)) sizeof_vcs_state_t 0)"

definition vcs_client_rereading_again :: vcs_client where
  "vcs_client_rereading_again =
     fst (vcs_client_write_vcs_cp_cb vcs_client_retried VCS_ERR_INVALID_COUNTER 0)"

definition vocs_client_written :: vcs_client where
  "vocs_client_written =
     fst (snd (bt_vcs_client_vocs_set_offset vcs_client_idle (Some client_conn) 0 0x0107 0))"

definition aics_client_inst :: aics_instance_t where
  "aics_client_inst =
     \<lparr>aics_cli_change_counter = 0, aics_cli_start_handle = 0x30, aics_cli_end_handle = 0x3f,
      aics_cli_state_handle = 0x32, aics_cli_control_handle = 0x35, aics_cli_busy = False,
      aics_cli_index = 0,
      aics_cli_write_buf =
        \<lparr>aics_cp = \<lparr>aics_cp_opcode = 0, aics_cp_counter = 0\<rparr>, aics_gain_setting = 0\<rparr>,
      aics_cli_cb = Some \<lparr>cli_cb_set_gain = True, cli_cb_aics_unmute = True,
                          cli_cb_aics_mute = True, cli_cb_set_manual_mode = True,
                          cli_cb_set_auto_mode = True\<rparr>\<rparr>"

definition aics_client_written :: aics_insts_t where
  "aics_client_written =
     fst (snd (bt_aics_client_gain_set [Some aics_client_inst] (Some client_conn) 0 5 0))"

definition aics_server_state :: "8 word \<Rightarrow> aics_state_t" where
  "aics_server_state counter =
     \<lparr>aics_gain = 0, aics_mute = 0, aics_mode = 2, aics_change_counter = counter\<rparr>"


section \<open>Lemmas on the VCS server\<close>

lemmas att_err_defs = BT_ATT_ERR_INVALID_OFFSET_def BT_ATT_ERR_INVALID_ATTRIBUTE_LEN_def
  BT_ATT_ERR_UNLIKELY_def BT_ATT_ERR_NOT_SUPPORTED_def

lemmas vcs_opcode_defs = VCS_OPCODE_REL_VOL_DOWN_def VCS_OPCODE_REL_VOL_UP_def
  VCS_OPCODE_UNMUTE_REL_VOL_DOWN_def VCS_OPCODE_UNMUTE_REL_VOL_UP_def
  VCS_OPCODE_SET_ABS_VOL_def VCS_OPCODE_UNMUTE_def VCS_OPCODE_MUTE_def

lemmas vcs_len_defs = VCS_CP_LEN_def VCS_CP_ABS_VOL_LEN_def

lemmas vcs_eval = write_vcs_control_def vcs_inst_init_def vcs_abs_vol_100_def
  VALID_VCS_OPCODE_def vcs_opcode_defs vcs_len_defs vcs_switch_def vcs_notify_state_def
  vcs_latch_flags_def Let_def bt_vcs_volume_up_def vcs_local_write_def vcs_rel_up_def
  VOLUME_UP_def vcs_api_result_def att_err_defs BT_GATT_ERR_def VCS_ERR_INVALID_COUNTER_def
  VCS_ERR_OP_NOT_SUPPORTED_def vcs_inst_latched_def vcs_volume_opcode_def vcs_rel_down_def
  VOLUME_DOWN_def vcs_clear_mute_def vcs_guards_pass_def vcs_format_ok_def
  vcs_inst_state_cb_def vcs_vol_up_def

text \<open>An error result is negative, so it is never the length returned on success.\<close>

lemma BT_GATT_ERR_not_len [simp]:
  "0 < uint e \<Longrightarrow> BT_GATT_ERR e \<noteq> uint (l :: 16 word)"
  "0 < uint e \<Longrightarrow> BT_GATT_ERR e \<noteq> 0"
  unfolding BT_GATT_ERR_def using uint_ge_0 [of l] by linarith+

lemma vcs_switch_volume_opcode:
  "vcs_volume_opcode (vcs_cp_opcode cp) \<Longrightarrow> \<exists>st n. vcs_switch inst cp = Some (st, n, True)"
  by (auto simp: vcs_volume_opcode_def vcs_switch_def Let_def vcs_opcode_defs
      split: prod.splits)

lemma VALID_VCS_OPCODE_switch:
  "VALID_VCS_OPCODE (vcs_cp_opcode cp) \<Longrightarrow> \<exists>st n vc. vcs_switch inst cp = Some (st, n, vc)"
  apply (simp add: VALID_VCS_OPCODE_def vcs_switch_def Let_def vcs_opcode_defs
      split: prod.splits)
  apply (auto simp: word_le_nat_alt word_unat_eq_iff)
  done

lemma vcs_latch_flags_zero:
  "vcs_flags inst = 0 \<Longrightarrow> vcs_latch_flags inst True = (ok, inst', ev) \<Longrightarrow>
   vcs_flags inst' = 1 \<and> filter is_flags_notify ev = [Notify_VCS_Flags 1]"
  by (auto simp: vcs_latch_flags_def Let_def split: option.splits if_splits)

lemma vcs_latch_flags_nonzero:
  "vcs_flags inst \<noteq> 0 \<Longrightarrow> vcs_latch_flags inst vc = (True, inst, [])"
  by (auto simp: vcs_latch_flags_def)

lemma vcs_notify_state_flags:
  "vcs_notify_state inst st n = (inst', ev) \<Longrightarrow>
   vcs_flags inst' = vcs_flags inst \<and> vcs_cb inst' = vcs_cb inst \<and>
   filter is_flags_notify ev = []"
  by (auto simp: vcs_notify_state_def Let_def split: option.splits if_splits)

lemma vcs_success_guards:
  assumes "fst (write_vcs_control inst buf len offset) = Returned (uint len)"
  shows "\<exists>cp. buf = Some cp \<and> vcs_guards_pass inst cp len offset"
  using assms
  by (cases buf)
     (auto simp: write_vcs_control_def vcs_guards_pass_def vcs_format_ok_def att_err_defs
        VCS_ERR_OP_NOT_SUPPORTED_def VCS_ERR_INVALID_COUNTER_def
        split: if_splits option.splits prod.splits)

lemma write_vcs_control_accepted:
  assumes "vcs_guards_pass inst cp len offset"
    and "vcs_switch inst cp = Some (st, notify, vc)"
    and "vcs_notify_state inst st notify = (inst1, ev1)"
    and "vcs_latch_flags inst1 vc = (ok, inst2, ev2)"
  shows "write_vcs_control inst (Some cp) len offset =
           (if ok then Returned (uint len) else Null_Call, inst2, ev1 @ ev2)"
  using assms by (auto simp: write_vcs_control_def vcs_guards_pass_def vcs_format_ok_def)

lemma write_vcs_control_flags_nonzero:
  assumes "vcs_flags inst \<noteq> 0"
    and "write_vcs_control inst buf len offset = (out, inst', ev)"
  shows "vcs_flags inst' = vcs_flags inst \<and> filter is_flags_notify ev = [] \<and>
         out \<noteq> Null_Call"
  using assms
  by (auto simp: write_vcs_control_def vcs_latch_flags_nonzero
      dest!: vcs_notify_state_flags
      split: if_splits option.splits prod.splits)

lemma write_vcs_control_latch:
  assumes "fst (write_vcs_control inst (Some cp) len offset) = Returned (uint len)"
    and "vcs_volume_opcode (vcs_cp_opcode cp)"
    and "vcs_flags inst = 0"
  shows "vcs_flags (fst (snd (write_vcs_control inst (Some cp) len offset))) = 1 \<and>
         filter is_flags_notify (snd (snd (write_vcs_control inst (Some cp) len offset))) =
           [Notify_VCS_Flags 1]"
proof -
  from assms(1) have g: "vcs_guards_pass inst cp len offset"
    using vcs_success_guards [of inst "Some cp" len offset] by simp
  from assms(2) obtain st n where sw: "vcs_switch inst cp = Some (st, n, True)"
    using vcs_switch_volume_opcode by blast
  obtain inst1 ev1 where ns: "vcs_notify_state inst st n = (inst1, ev1)"
    by (cases "vcs_notify_state inst st n")
  obtain ok inst2 ev2 where lf: "vcs_latch_flags inst1 True = (ok, inst2, ev2)"
    by (cases "vcs_latch_flags inst1 True")
  from ns have f1: "vcs_flags inst1 = 0" "filter is_flags_notify ev1 = []"
    using vcs_notify_state_flags assms(3) by fastforce+
  from vcs_latch_flags_zero [OF f1(1) lf] f1(2)
  show ?thesis
    by (simp add: write_vcs_control_accepted [OF g sw ns lf])
qed

text \<open>
  While \<open>flags\<close> is 0, only a write that passes the guards with a volume-changing
  opcode sets it.
\<close>

lemma write_vcs_control_flags_stay_zero:
  assumes "vcs_flags inst = 0"
    and "vcs_flags (fst (snd (write_vcs_control inst buf len offset))) \<noteq> 0"
  shows "\<exists>cp. buf = Some cp \<and> vcs_guards_pass inst cp len offset \<and>
              vcs_volume_opcode (vcs_cp_opcode cp)"
proof (cases buf)
  case None
  with assms show ?thesis by (simp add: write_vcs_control_def split: if_splits)
next
  case (Some cp)
  show ?thesis
  proof (cases "vcs_guards_pass inst cp len offset")
    case False
    with assms Some show ?thesis
      by (auto simp: write_vcs_control_def vcs_guards_pass_def vcs_format_ok_def
          split: if_splits)
  next
    case True
    then obtain st n vc where sw: "vcs_switch inst cp = Some (st, n, vc)"
      using VALID_VCS_OPCODE_switch unfolding vcs_guards_pass_def vcs_format_ok_def by blast
    obtain inst1 ev1 where ns: "vcs_notify_state inst st n = (inst1, ev1)"
      by (cases "vcs_notify_state inst st n")
    obtain ok inst2 ev2 where lf: "vcs_latch_flags inst1 vc = (ok, inst2, ev2)"
      by (cases "vcs_latch_flags inst1 vc")
    from ns assms(1) have f1: "vcs_flags inst1 = 0" using vcs_notify_state_flags by fastforce
    from assms(2) Some have "vcs_flags inst2 \<noteq> 0"
      by (simp add: write_vcs_control_accepted [OF True sw ns lf])
    with lf f1 have vc by (auto simp: vcs_latch_flags_def split: if_splits)
    with sw have "vcs_volume_opcode (vcs_cp_opcode cp)"
      by (auto simp: vcs_volume_opcode_def vcs_switch_def Let_def vcs_opcode_defs
          split: prod.splits if_splits)
    with True Some show ?thesis by simp
  qed
qed

lemma vcs_step_flags_nonzero:
  assumes "vcs_flags inst \<noteq> 0" and "vcs_step inst x = (out, inst', ev)"
  shows "vcs_flags inst' = vcs_flags inst \<and> filter is_flags_notify ev = []"
proof (cases x)
  case (CP_Write buf len offset)
  with assms show ?thesis using write_vcs_control_flags_nonzero by auto
next
  case (Api_Volume_Step_Set s)
  with assms show ?thesis by (auto simp: bt_vcs_volume_step_set_def split: if_splits)
next
  case (Api_Cb_Register cb)
  with assms show ?thesis by (auto simp: bt_vcs_server_cb_register_def)
qed (use assms in \<open>auto simp: bt_vcs_volume_down_def bt_vcs_volume_up_def
       bt_vcs_unmute_volume_down_def bt_vcs_unmute_volume_up_def bt_vcs_volume_set_def
       bt_vcs_unmute_def bt_vcs_mute_def vcs_local_write_def
       split: prod.splits dest: write_vcs_control_flags_nonzero\<close>)

lemma vcs_session_flags_nonzero:
  "vcs_flags inst \<noteq> 0 \<Longrightarrow> vcs_session inst xs = (inst', ev) \<Longrightarrow>
   vcs_flags inst' = vcs_flags inst \<and> filter is_flags_notify ev = []"
proof (induction xs arbitrary: inst inst' ev)
  case Nil
  then show ?case by simp
next
  case (Cons x xs)
  obtain out i1 e1 where st: "vcs_step inst x = (out, i1, e1)"
    by (cases "vcs_step inst x")
  from vcs_step_flags_nonzero [OF Cons.prems(1) st]
  have f: "vcs_flags i1 = vcs_flags inst" "filter is_flags_notify e1 = []" by auto
  show ?case
  proof (cases out)
    case Null_Call
    with st Cons.prems f show ?thesis by simp
  next
    case (Returned r)
    obtain i2 e2 where ss: "vcs_session i1 xs = (i2, e2)" by (cases "vcs_session i1 xs")
    from Cons.IH [OF _ ss] f Cons.prems(1)
    have "vcs_flags i2 = vcs_flags i1 \<and> filter is_flags_notify e2 = []" by simp
    with Returned st ss Cons.prems f show ?thesis by auto
  qed
qed


section \<open>Lemmas on the three control points\<close>




lemmas aics_consts = AICS_OPCODE_SET_GAIN_def AICS_OPCODE_UNMUTE_def AICS_OPCODE_MUTE_def
  AICS_OPCODE_SET_MANUAL_def AICS_OPCODE_SET_AUTO_def AICS_STATE_UNMUTED_def
  AICS_STATE_MUTED_def AICS_STATE_MUTE_DISABLED_def AICS_MODE_MANUAL_ONLY_def
  AICS_MODE_AUTO_ONLY_def AICS_MODE_MANUAL_def AICS_MODE_AUTO_def
  AICS_ERR_INVALID_COUNTER_def AICS_ERR_OP_NOT_SUPPORTED_def AICS_ERR_MUTE_DISABLED_def
  AICS_ERR_OUT_OF_RANGE_def AICS_ERR_GAIN_MODE_NO_SUPPORT_def AICS_CP_LEN_def
  AICS_CP_SET_GAIN_LEN_def

lemmas vocs_consts = VOCS_OPCODE_SET_OFFSET_def VOCS_ERR_INVALID_COUNTER_def
  VOCS_ERR_OP_NOT_SUPPORTED_def VOCS_ERR_OUT_OF_RANGE_def sizeof_vocs_control_t_def










lemma write_aics_control_accepted:
  assumes "aics_guards_pass inst cp len offset"
  shows "write_aics_control inst (Some cp) len offset =
           (case aics_switch inst cp of
              Inl e \<Rightarrow> (BT_GATT_ERR e, inst, [])
            | Inr (st, notify) \<Rightarrow>
                (case aics_notify_state inst st notify of
                   (inst', ev) \<Rightarrow> (uint len, inst', ev)))"
  using assms by (auto simp: write_aics_control_def aics_guards_pass_def aics_format_ok_def)

lemma write_vocs_control_accepted:
  assumes "vocs_guards_pass inst cp len offset"
  shows "write_vocs_control bo inst (Some cp) len offset =
           (case vocs_switch bo inst cp of
              Inl e \<Rightarrow> (BT_GATT_ERR e, inst, [])
            | Inr (st, notify) \<Rightarrow>
                (case vocs_notify_state inst st notify of
                   (inst', ev) \<Rightarrow> (uint len, inst', ev)))"
  using assms by (auto simp: write_vocs_control_def vocs_guards_pass_def vocs_format_ok_def)



lemma len_not_BT_GATT_ERR: "0 < uint e \<Longrightarrow> uint (l :: 16 word) \<noteq> BT_GATT_ERR e"
  unfolding BT_GATT_ERR_def using uint_ge_0 [of l] by linarith

lemma BT_GATT_ERR_inject [simp]: "BT_GATT_ERR a = BT_GATT_ERR b \<longleftrightarrow> a = b"
  by (simp add: BT_GATT_ERR_def word_uint_eq_iff)

lemma vcs_invalid_counter_iff:
  "fst (write_vcs_control inst buf len offset) = Returned (BT_GATT_ERR 0x80) \<longleftrightarrow>
   (\<exists>cp. buf = Some cp \<and> vcs_format_ok cp len offset \<and>
         vcs_cp_counter cp \<noteq> vcs_change_counter (vcs_state inst))"
proof (cases buf)
  case None
  then show ?thesis by (simp add: write_vcs_control_def att_err_defs)
next
  case (Some cp)
  show ?thesis
  proof (cases "vcs_format_ok cp len offset")
    case False
    with Some show ?thesis
      by (auto simp: write_vcs_control_def vcs_format_ok_def att_err_defs
          VCS_ERR_OP_NOT_SUPPORTED_def)
  next
    case True
    then obtain st n vc where sw: "vcs_switch inst cp = Some (st, n, vc)"
      using VALID_VCS_OPCODE_switch unfolding vcs_format_ok_def by blast
    have neg: "uint len \<noteq> BT_GATT_ERR 0x80"
      by (rule len_not_BT_GATT_ERR) simp
    from True Some sw neg show ?thesis
      by (auto simp: write_vcs_control_def vcs_format_ok_def VCS_ERR_INVALID_COUNTER_def
          split: prod.splits)
  qed
qed

lemma aics_invalid_counter_iff:
  "fst (write_aics_control inst buf len offset) = BT_GATT_ERR 0x80 \<longleftrightarrow>
   (\<exists>cp. buf = Some cp \<and> aics_format_ok cp len offset \<and>
         aics_cp_counter (aics_cp cp) \<noteq> aics_change_counter (aics_state inst))"
proof (cases buf)
  case None
  then show ?thesis by (simp add: write_aics_control_def att_err_defs)
next
  case (Some cp)
  show ?thesis
  proof (cases "aics_format_ok cp len offset")
    case False
    with Some show ?thesis
      by (auto simp: write_aics_control_def aics_format_ok_def att_err_defs
          AICS_ERR_OP_NOT_SUPPORTED_def)
  next
    case True
    have neg: "uint len \<noteq> BT_GATT_ERR 0x80"
      by (rule len_not_BT_GATT_ERR) simp
    have sw: "\<And>e. aics_switch inst cp = Inl e \<Longrightarrow> e \<noteq> 0x80"
      by (auto simp: aics_switch_def Let_def aics_consts split: if_splits)
    from True Some neg sw show ?thesis
      by (auto simp: write_aics_control_def aics_format_ok_def AICS_ERR_INVALID_COUNTER_def
          split: prod.splits sum.splits)
  qed
qed

lemma vocs_invalid_counter_iff:
  "fst (write_vocs_control bo inst buf len offset) = BT_GATT_ERR 0x80 \<longleftrightarrow>
   (\<exists>cp. buf = Some cp \<and> vocs_format_ok cp len offset \<and>
         vocs_cp_counter cp \<noteq> vocs_change_counter (vocs_state inst))"
proof (cases buf)
  case None
  then show ?thesis by (simp add: write_vocs_control_def att_err_defs)
next
  case (Some cp)
  show ?thesis
  proof (cases "vocs_format_ok cp len offset")
    case False
    with Some show ?thesis
      by (auto simp: write_vocs_control_def vocs_format_ok_def att_err_defs
          VOCS_ERR_OP_NOT_SUPPORTED_def)
  next
    case True
    have neg: "uint len \<noteq> BT_GATT_ERR 0x80"
      by (rule len_not_BT_GATT_ERR) simp
    have sw: "\<And>e. vocs_switch bo inst cp = Inl e \<Longrightarrow> e \<noteq> 0x80"
      by (auto simp: vocs_switch_def Let_def vocs_consts split: if_splits)
    from True Some neg sw show ?thesis
      by (auto simp: write_vocs_control_def vocs_format_ok_def VOCS_ERR_INVALID_COUNTER_def
          split: prod.splits sum.splits)
  qed
qed

lemma vcs_invalid_counter_frame:
  "fst (write_vcs_control inst buf len offset) = Returned (BT_GATT_ERR 0x80) \<Longrightarrow>
   snd (write_vcs_control inst buf len offset) = (inst, [])"
proof -
  assume a: "fst (write_vcs_control inst buf len offset) = Returned (BT_GATT_ERR 0x80)"
  then obtain cp where c: "buf = Some cp" "vcs_format_ok cp len offset"
    "vcs_cp_counter cp \<noteq> vcs_change_counter (vcs_state inst)"
    using vcs_invalid_counter_iff by blast
  then show ?thesis by (auto simp: write_vcs_control_def vcs_format_ok_def)
qed

lemma aics_error_frame:
  "fst (write_aics_control inst buf len offset) \<noteq> uint len \<Longrightarrow>
   snd (write_aics_control inst buf len offset) = (inst, [])"
  by (auto simp: write_aics_control_def split: option.splits if_splits sum.splits prod.splits)

lemma vocs_error_frame:
  "fst (write_vocs_control bo inst buf len offset) \<noteq> uint len \<Longrightarrow>
   snd (write_vocs_control bo inst buf len offset) = (inst, [])"
  by (auto simp: write_vocs_control_def split: option.splits if_splits sum.splits prod.splits)

text \<open>
  The handlers' guards against the guards of the pattern: the VCS and the AICS length
  test also let the long opcode through when it is written with two bytes; the VOCS
  test is the one of the pattern.
\<close>

lemma vcs_format_ok_spec:
  "vcs_format_ok cp len offset \<longleftrightarrow>
   vcs_spec_guards_ok cp len offset \<or> vcs_short_long_opcode cp len offset"
proof -
  have l: "\<not> (len < 2 \<or> len > 3) \<longleftrightarrow> len = 2 \<or> len = 3"
    by (auto simp: word_less_nat_alt word_unat_eq_iff)
  have o: "VALID_VCS_OPCODE VCS_OPCODE_SET_ABS_VOL"
    by (simp add: VALID_VCS_OPCODE_def vcs_opcode_defs)
  from l o show ?thesis
    by (auto simp: vcs_format_ok_def vcs_spec_guards_ok_def vcs_short_long_opcode_def
        vcs_spec_length_def vcs_len_defs)
qed

lemma aics_format_ok_spec:
  "aics_format_ok cp len offset \<longleftrightarrow>
   aics_spec_guards_ok cp len offset \<or> aics_short_long_opcode cp len offset"
proof -
  have l: "\<not> (len < 2 \<or> len > 3) \<longleftrightarrow> len = 2 \<or> len = 3"
    by (auto simp: word_less_nat_alt word_unat_eq_iff)
  have o: "VALID_AICS_OPCODE AICS_OPCODE_SET_GAIN"
    by (simp add: VALID_AICS_OPCODE_def aics_consts)
  from l o show ?thesis
    by (auto simp: aics_format_ok_def aics_spec_guards_ok_def aics_short_long_opcode_def
        aics_spec_length_def AICS_CP_LEN_def AICS_CP_SET_GAIN_LEN_def)
qed

lemma vocs_format_ok_spec:
  "vocs_format_ok cp len offset \<longleftrightarrow> vocs_spec_guards_ok cp len offset"
  by (auto simp: vocs_format_ok_def vocs_spec_guards_ok_def vocs_spec_length_def
      sizeof_vocs_control_t_def)

text \<open>The operand on the two hosts.\<close>

lemma bswap_16_bytes:
  "bswap_16 (word_cat (a :: 8 word) (b :: 8 word)) = word_cat b a"
proof -
  have m: "(0xff :: 16 word) = mask 8" by (simp add: mask_eq_exp_minus_1)
  show ?thesis
    unfolding bswap_16_def m
    by (rule bit_word_eqI) (auto simp: bit_simps)
qed

lemma vocs_wire_offset_bytes:
  "vocs_wire_offset bo (vocs_control_of_bytes bo b0 b1 b2 b3) = word_cat b3 b2"
  by (cases bo) (simp_all add: vocs_wire_offset_def vocs_control_of_bytes_def bswap_16_bytes)

lemma sys_le16_to_cpu_wire:
  "word_of_int (sys_le16_to_cpu bo (vocs_cp_offset cp)) = vocs_wire_offset bo cp"
  by (cases bo) (simp_all add: sys_le16_to_cpu_def vocs_wire_offset_def)


lemmas aics_eval = write_aics_control_def aics_switch_def aics_notify_state_def
  aics_guards_pass_def aics_format_ok_def VALID_AICS_OPCODE_def AICS_INPUT_MODE_SETTABLE_def
  AICS_INPUT_MODE_IMMUTABLE_def aics_consts aics_inst_mode_def aics_set_gain_5_def
  aics_set_gain_5_stale_def aics_bad_opcode_def att_err_defs BT_GATT_ERR_def Let_def

lemmas vocs_eval = write_vocs_control_def vocs_switch_def vocs_notify_state_def
  vocs_guards_pass_def vocs_format_ok_def VALID_VOCS_OPCODE_def vocs_consts
  vocs_inst_zero_def vocs_set_offset_req_def vocs_bad_opcode_def sys_le16_to_cpu_def
  vocs_control_of_bytes_def vocs_wire_offset_def
  att_err_defs BT_GATT_ERR_def Let_def

text \<open>
  The comparison \<open>inst->state.offset != sys_le16_to_cpu(cp->offset)\<close> on the two
  hosts, at a second write of the operand -1 (bytes 0xff 0xff) to an instance whose
  offset is -1.  On the little-endian host the write changes nothing.  On the
  big-endian host the \<open>int16_t\<close> -1 is compared with the \<open>uint16_t\<close> 0xffff: the write
  stores the same offset again, increments the counter and notifies.
\<close>

lemma vocs_rewrite_minus_one:
  "write_vocs_control Little_Endian vocs_inst_minus_one
     (Some (vocs_control_of_bytes Little_Endian 1 1 0xff 0xff)) 4 0 =
     (4, vocs_inst_minus_one, []) \<and>
   vocs_switch Big_Endian vocs_inst_minus_one (vocs_control_of_bytes Big_Endian 1 1 0xff 0xff) =
     Inr (vocs_state vocs_inst_minus_one, True) \<and>
   write_vocs_control Big_Endian vocs_inst_minus_one
     (Some (vocs_control_of_bytes Big_Endian 1 1 0xff 0xff)) 4 0 =
     (4, vocs_inst_minus_one\<lparr>vocs_state := \<lparr>vocs_offset = - 1, vocs_change_counter = 2\<rparr>\<rparr>,
      [Notify_VOCS_State \<lparr>vocs_offset = - 1, vocs_change_counter = 2\<rparr>])"
proof -
  have c: "(word_cat (0xff :: 8 word) (0xff :: 8 word) :: 16 word) = - 1"
    by (simp add: word_cat_eq push_bit_eq_mult)
  have b: "bswap_16 (- 1) = - 1"
    using bswap_16_bytes [of "0xff" "0xff"] by (simp add: c)
  have u: "- 1 \<noteq> uint (- 1 :: 16 word)"
    using uint_ge_0 [of "- 1 :: 16 word"] by linarith
  show ?thesis
    by (simp add: vocs_eval vocs_inst_minus_one_def c b u)
qed


section \<open>Lemmas on the ASCS response buffer\<close>

lemma ascs_add_saturated:
  "rsp_num_ase rsp = 0xff \<Longrightarrow>
   ascs_cp_rsp_add i op code reason (Some (rsp, ases)) = Some (rsp, ases)"
  by (simp add: ascs_cp_rsp_add_def)

lemma ascs_adds_saturated:
  "rsp_num_ase rsp = 0xff \<Longrightarrow> ascs_cp_rsp_adds cs (Some (rsp, ases)) = Some (rsp, ases)"
  by (induction cs) (auto simp: ascs_add_saturated)

lemma ascs_add_Some: "\<exists>rsp ases. ascs_cp_rsp_add i op code reason buf = Some (rsp, ases)"
  by (auto simp: ascs_cp_rsp_add_def split: option.splits prod.splits)

lemma unat_succ_lt_ff:
  assumes "n \<noteq> (0xff :: 8 word)"
  shows "unat (n + 1) = unat n + 1"
proof -
  have "unat n \<noteq> 255" using assms by (simp add: word_unat_eq_iff)
  moreover have "unat n < 256" using unsigned_less [of n, where 'a = nat] by simp
  ultimately have "unat n + 1 < 256" by simp
  then show ?thesis by (simp add: unat_word_ariths)
qed

lemma ascs_add_counted:
  assumes "rsp_counted rsp ases"
  shows "\<exists>rsp' ases'. ascs_cp_rsp_add i op code reason (Some (rsp, ases)) = Some (rsp', ases') \<and>
           rsp_counted rsp' ases'"
proof (cases "rsp_num_ase rsp = 0xff")
  case True
  with assms show ?thesis by (simp add: ascs_cp_rsp_add_def)
next
  case False
  with assms have plain: "\<forall>e \<in> set ases. \<not> ase_rsp_special e"
    and len: "unat (rsp_num_ase rsp) = length ases"
    by (auto simp: rsp_counted_def)
  from False plain len show ?thesis
    by (auto simp: ascs_cp_rsp_add_def rsp_counted_def ase_rsp_special_def unat_succ_lt_ff)
qed

lemma ascs_alloc_counted: "rsp_counted (fst (ascs_cp_rsp_alloc op)) (snd (ascs_cp_rsp_alloc op))"
  by (simp add: rsp_counted_def ascs_cp_rsp_alloc_def)

lemma ascs_add_counted_any:
  assumes "buf_counted buf"
  shows "\<exists>rsp' ases'. ascs_cp_rsp_add i op code reason buf = Some (rsp', ases') \<and>
           rsp_counted rsp' ases'"
proof (cases buf)
  case None
  have "ascs_cp_rsp_add i op code reason None =
        ascs_cp_rsp_add i op code reason
          (Some (fst (ascs_cp_rsp_alloc op), snd (ascs_cp_rsp_alloc op)))"
    by (simp add: ascs_cp_rsp_add_def)
  with None ascs_add_counted [OF ascs_alloc_counted] show ?thesis by simp
next
  case (Some b)
  with assms ascs_add_counted [of "fst b" "snd b"] show ?thesis
    by (cases b) (simp add: buf_counted_def)
qed

lemma ascs_adds_counted:
  assumes "buf_counted buf"
  shows "buf_counted (ascs_cp_rsp_adds cs buf) \<and>
         (ascs_cp_rsp_adds cs buf = None \<longrightarrow> cs = [])"
  using assms
proof (induction cs arbitrary: buf)
  case Nil
  then show ?case by simp
next
  case (Cons c cs)
  obtain i op code reason where c: "c = (i, op, code, reason)" by (cases c)
  from ascs_add_counted_any [OF Cons.prems]
  obtain rsp' ases' where b: "ascs_cp_rsp_add i op code reason buf = Some (rsp', ases')"
    "rsp_counted rsp' ases'"
    by blast
  then have bc: "buf_counted (Some (rsp', ases'))" by (simp add: buf_counted_def)
  have "ascs_cp_rsp_adds cs (Some (rsp', ases')) \<noteq> None"
  proof (cases cs)
    case Nil
    then show ?thesis by simp
  next
    case (Cons d ds)
    with Cons.IH [OF bc] show ?thesis by auto
  qed
  with Cons.IH [OF bc] b show ?case by (simp add: c)
qed

lemma ascs_add_special:
  "rsp_code_special code \<Longrightarrow>
   \<exists>rsp ases. ascs_cp_rsp_add i op code reason buf = Some (rsp, ases) \<and>
              rsp_num_ase rsp = 0xff"
  by (auto simp: ascs_cp_rsp_add_def rsp_code_special_def split: option.splits prod.splits)

lemma ascs_adds_special:
  "\<exists>c \<in> set cs. rsp_code_special (fst (snd (snd c))) \<Longrightarrow>
   \<exists>rsp ases. ascs_cp_rsp_adds cs buf = Some (rsp, ases) \<and> rsp_num_ase rsp = 0xff"
proof (induction cs arbitrary: buf)
  case Nil
  then show ?case by simp
next
  case (Cons c cs)
  obtain i op code reason where c: "c = (i, op, code, reason)" by (cases c)
  show ?case
  proof (cases "rsp_code_special code")
    case True
    from ascs_add_special [OF True] obtain rsp ases where
      "ascs_cp_rsp_add i op code reason buf = Some (rsp, ases)" "rsp_num_ase rsp = 0xff"
      by blast
    then show ?thesis by (simp add: c ascs_adds_saturated)
  next
    case False
    with Cons.prems c have "\<exists>c \<in> set cs. rsp_code_special (fst (snd (snd c)))" by auto
    from Cons.IH [OF this] show ?thesis by (simp add: c)
  qed
qed

lemma ascs_adds_plain:
  assumes "\<forall>c \<in> set cs. \<not> rsp_code_special (fst (snd (snd c)))"
    and "unat (rsp_num_ase rsp) + length cs \<le> 255"
  shows "\<exists>rsp'. ascs_cp_rsp_adds cs (Some (rsp, ases)) = Some (rsp', ases @ map ase_rsp_of cs) \<and>
           rsp_op rsp' = rsp_op rsp \<and>
           unat (rsp_num_ase rsp') = unat (rsp_num_ase rsp) + length cs"
  using assms
proof (induction cs arbitrary: rsp ases)
  case Nil
  then show ?case by simp
next
  case (Cons c cs)
  obtain i op code reason where c: "c = (i, op, code, reason)" by (cases c)
  from Cons.prems(2) have lt: "unat (rsp_num_ase rsp) < 255" by simp
  then have ne: "rsp_num_ase rsp \<noteq> 0xff" by (auto simp: word_unat_eq_iff)
  from Cons.prems(1) c have ns: "\<not> rsp_code_special code" by simp
  let ?rsp = "rsp\<lparr>rsp_num_ase := rsp_num_ase rsp + 1\<rparr>"
  have step: "ascs_cp_rsp_add i op code reason (Some (rsp, ases)) =
      Some (?rsp, ases @ [ase_rsp_of c])"
    using ne ns by (simp add: ascs_cp_rsp_add_def rsp_code_special_def ase_rsp_of_def c)
  have n: "unat (rsp_num_ase ?rsp) = unat (rsp_num_ase rsp) + 1"
    using ne by (simp add: unat_succ_lt_ff)
  with Cons.prems have "unat (rsp_num_ase ?rsp) + length cs \<le> 255" by simp
  from Cons.IH [OF _ this, of "ases @ [ase_rsp_of c]"] Cons.prems(1) n
  show ?case by (auto simp: c step)
qed


section \<open>Lemmas on the CSIS lock\<close>

lemma notify_client_lock_part:
  "csis_lock_part (fst (notify_client ex conn acc)) = csis_lock_part (fst acc)"
  by (cases acc) (simp add: notify_client_def csis_lock_part_def)

lemma fold_notify_client_lock_part:
  "csis_lock_part (fst (fold (notify_client ex) cs acc)) = csis_lock_part (fst acc)"
  by (induction cs arbitrary: acc) (simp_all add: notify_client_lock_part)

lemma notify_clients_lock_part:
  "csis_lock_part (fst (notify_clients host ex inst)) = csis_lock_part inst"
  by (simp add: notify_clients_def fold_notify_client_lock_part) (simp add: csis_lock_part_def)

lemma notify_clients_fields:
  "csis_set_lock (fst (notify_clients host ex inst)) = csis_set_lock inst"
  "csis_set_lock_timer (fst (notify_clients host ex inst)) = csis_set_lock_timer inst"
  "csis_lock_client_addr (fst (notify_clients host ex inst)) = csis_lock_client_addr inst"
  using notify_clients_lock_part [of host ex inst] by (simp_all add: csis_lock_part_def)

lemmas csip_defs = BT_CSIP_RELEASE_VALUE_def BT_CSIP_LOCK_VALUE_def

lemma write_set_lock_inst:
  "fst (snd (write_set_lock host inst conn buf offset)) =
     (if fst (write_set_lock host inst conn buf offset) = Inr 1 then
        (let val = hd buf;
             inst2 = (if val = BT_CSIP_LOCK_VALUE then
                        (case conn of
                           Some c \<Rightarrow> inst\<lparr>csis_set_lock := val, csis_lock_client_addr := conn_dst c\<rparr>
                         | None \<Rightarrow> inst\<lparr>csis_set_lock := val\<rparr>)\<lparr>csis_set_lock_timer := True\<rparr>
                      else inst\<lparr>csis_set_lock := val, csis_lock_client_addr := server_dummy_addr,
                                csis_set_lock_timer := False\<rparr>)
         in if csis_set_lock inst \<noteq> val then fst (notify_clients host conn inst2) else inst2)
      else inst)"
  by (auto simp: write_set_lock_def Let_def split: list.splits prod.splits option.splits)


lemma write_set_lock_success:
  "fst (write_set_lock host inst conn buf offset) = Inr n \<Longrightarrow>
   n = 1 \<and> (buf = [BT_CSIP_RELEASE_VALUE] \<or> buf = [BT_CSIP_LOCK_VALUE])"
  by (simp add: write_set_lock_def Let_def split: list.splits prod.splits if_splits)

lemma write_set_lock_lock_part:
  "csis_lock_part (fst (snd (write_set_lock host inst conn buf offset))) =
     (if fst (write_set_lock host inst conn buf offset) = Inr 1 then
        (hd buf, hd buf = BT_CSIP_LOCK_VALUE,
         if hd buf = BT_CSIP_LOCK_VALUE
         then (case conn of Some c \<Rightarrow> conn_dst c | None \<Rightarrow> csis_lock_client_addr inst)
         else server_dummy_addr)
      else csis_lock_part inst)"
  unfolding write_set_lock_inst
  by (simp add: Let_def notify_clients_lock_part) (simp add: csis_lock_part_def split: option.splits)


lemma csis_locked_timer_part:
  "csis_locked_timer inst \<longleftrightarrow>
     (fst (csis_lock_part inst) = BT_CSIP_LOCK_VALUE \<longrightarrow> fst (snd (csis_lock_part inst))) \<and>
     (fst (csis_lock_part inst) = BT_CSIP_LOCK_VALUE \<or>
      fst (csis_lock_part inst) = BT_CSIP_RELEASE_VALUE)"
  by (simp add: csis_locked_timer_def csis_lock_part_def)

lemma write_set_lock_locked_timer:
  assumes "csis_locked_timer inst"
  shows "csis_locked_timer (fst (snd (write_set_lock host inst conn buf offset)))"
proof (cases "fst (write_set_lock host inst conn buf offset) = Inr 1")
  case True
  from write_set_lock_success [OF True]
  have "buf = [BT_CSIP_RELEASE_VALUE] \<or> buf = [BT_CSIP_LOCK_VALUE]" by simp
  with True show ?thesis
    unfolding csis_locked_timer_part write_set_lock_lock_part by auto
next
  case False
  with assms show ?thesis
    unfolding csis_locked_timer_part write_set_lock_lock_part by simp
qed

lemma bt_csis_lock_inst:
  "fst (snd (bt_csis_lock host inst lock force)) =
     (if \<not> lock \<and> force
      then fst (notify_clients host None (inst\<lparr>csis_set_lock := BT_CSIP_RELEASE_VALUE\<rparr>))
      else fst (snd (write_set_lock host inst None
             [if lock then BT_CSIP_LOCK_VALUE else BT_CSIP_RELEASE_VALUE] 0)))"
  by (simp add: bt_csis_lock_def Let_def split: prod.splits sum.splits)

lemma bt_csis_lock_locked_timer:
  assumes "csis_locked_timer inst"
  shows "csis_locked_timer (fst (snd (bt_csis_lock host inst lock force)))"
  unfolding bt_csis_lock_inst
  using write_set_lock_locked_timer [OF assms]
  by (simp add: csis_locked_timer_def notify_clients_fields csip_defs)

lemma timer_handler_inst:
  "fst (set_lock_timer_handler host inst) =
     fst (notify_clients host None (inst\<lparr>csis_set_lock := BT_CSIP_RELEASE_VALUE\<rparr>))"
  by (simp add: set_lock_timer_handler_def split: prod.splits)

lemma timer_handler_locked_timer:
  "csis_locked_timer (fst (set_lock_timer_handler host inst))"
  unfolding timer_handler_inst
  by (simp add: csis_locked_timer_def notify_clients_fields csip_defs)

lemma csis_disconnected_lock_part:
  "csis_lock_part (fst (csis_disconnected host inst conn)) =
     (if \<not> is_bonded host conn \<and> is_last_client_to_write inst (Some conn)
      then (BT_CSIP_RELEASE_VALUE, csis_set_lock_timer inst, server_dummy_addr)
      else csis_lock_part inst)"
proof -
  have a: "\<And>i f. csis_lock_part (i\<lparr>csis_pend_notify := f\<rparr>) = csis_lock_part i"
    by (simp add: csis_lock_part_def)
  show ?thesis
    using notify_clients_lock_part [of host None
        "inst\<lparr>csis_lock_client_addr := server_dummy_addr,
              csis_set_lock := BT_CSIP_RELEASE_VALUE\<rparr>"]
    by (simp add: csis_disconnected_def a split: prod.splits) (auto simp: csis_lock_part_def)
qed

lemma csis_disconnected_locked_timer:
  assumes "csis_locked_timer inst"
  shows "csis_locked_timer (fst (csis_disconnected host inst conn))"
  using assms unfolding csis_locked_timer_part csis_disconnected_lock_part
  by (simp add: csip_defs)

lemma csis_do_locked_timer:
  "csis_locked_timer inst \<Longrightarrow> csis_locked_timer (csis_do inst step)"
  by (cases step)
     (simp_all add: write_set_lock_locked_timer bt_csis_lock_locked_timer
        timer_handler_locked_timer csis_disconnected_locked_timer)

lemma csis_run_locked_timer:
  "csis_locked_timer inst \<Longrightarrow> csis_locked_timer (csis_run inst steps)"
  unfolding csis_run_def
  by (induction steps arbitrary: inst) (simp_all add: csis_do_locked_timer)

lemma csis_init_locked_timer: "csis_locked_timer (csis_inst_init n)"
  by (simp add: csis_locked_timer_def csis_inst_init_def csip_defs)


lemma write_set_lock_by_peer:
  assumes "fst (write_set_lock host inst (Some c) [BT_CSIP_LOCK_VALUE] 0) = Inr 1"
  shows "csis_lock_part (fst (snd (write_set_lock host inst (Some c) [BT_CSIP_LOCK_VALUE] 0))) =
           (BT_CSIP_LOCK_VALUE, True, conn_dst c)"
  using assms unfolding write_set_lock_lock_part by simp

lemma write_set_lock_by_server:
  assumes "fst (write_set_lock host inst None [BT_CSIP_LOCK_VALUE] 0) = Inr 1"
  shows "csis_lock_part (fst (snd (write_set_lock host inst None [BT_CSIP_LOCK_VALUE] 0))) =
           (BT_CSIP_LOCK_VALUE, True, csis_lock_client_addr inst)"
  using assms unfolding write_set_lock_lock_part by simp

lemma write_set_lock_release:
  assumes "fst (write_set_lock host inst conn [BT_CSIP_RELEASE_VALUE] 0) = Inr 1"
  shows "csis_lock_part (fst (snd (write_set_lock host inst conn [BT_CSIP_RELEASE_VALUE] 0))) =
           (BT_CSIP_RELEASE_VALUE, False, server_dummy_addr)"
  using assms unfolding write_set_lock_lock_part by (simp add: csip_defs)

lemma write_set_lock_ret:
  "fst (write_set_lock host inst conn buf offset) =
     (if offset \<noteq> 0 then Inl CSIS_ATT_ERR_INVALID_OFFSET
      else if length buf \<noteq> 1 then Inl CSIS_ATT_ERR_INVALID_ATTRIBUTE_LEN
      else if hd buf \<noteq> BT_CSIP_RELEASE_VALUE \<and> hd buf \<noteq> BT_CSIP_LOCK_VALUE
      then Inl BT_CSIP_ERROR_LOCK_INVAL_VALUE
      else if csis_set_lock inst = BT_CSIP_LOCK_VALUE \<and> hd buf = BT_CSIP_LOCK_VALUE
      then Inl BT_CSIP_ERROR_LOCK_DENIED
      else if csis_set_lock inst = BT_CSIP_LOCK_VALUE \<and> \<not> is_last_client_to_write inst conn
      then Inl BT_CSIP_ERROR_LOCK_RELEASE_DENIED
      else Inr 1)"
  by (simp add: write_set_lock_def Let_def split: list.splits prod.splits)

lemma csis_lock_part_init:
  "csis_lock_part (csis_inst_init n) = (BT_CSIP_RELEASE_VALUE, False, server_dummy_addr)"
  by (simp add: csis_lock_part_def csis_inst_init_def)

lemma csis_server_locked_part:
  "csis_lock_part csis_server_locked = (BT_CSIP_LOCK_VALUE, True, server_dummy_addr)"
proof -
  have r: "fst (write_set_lock host_empty (csis_inst_init 2) None [BT_CSIP_LOCK_VALUE] 0) = Inr 1"
    by (simp add: write_set_lock_ret csis_inst_init_def csip_defs)
  have a: "csis_lock_client_addr (csis_inst_init 2) = server_dummy_addr"
    by (simp add: csis_inst_init_def)
  show ?thesis
    unfolding csis_server_locked_def csis_run_def
    by (simp add: bt_csis_lock_inst write_set_lock_by_server [OF r] a)
qed

lemma csis_forced_release_part:
  "csis_lock_part csis_forced_release = (BT_CSIP_RELEASE_VALUE, True, conn_dst peer_a)"
proof -
  have r: "fst (write_set_lock host_a (csis_inst_init 2) (Some peer_a) [BT_CSIP_LOCK_VALUE] 0) =
      Inr 1"
    by (simp add: write_set_lock_ret csis_inst_init_def csip_defs)
  note p = write_set_lock_by_peer [OF r]
  have "csis_lock_part (fst (notify_clients host_a None
      ((fst (snd (write_set_lock host_a (csis_inst_init 2) (Some peer_a)
          [BT_CSIP_LOCK_VALUE] 0)))\<lparr>csis_set_lock := BT_CSIP_RELEASE_VALUE\<rparr>))) =
      (BT_CSIP_RELEASE_VALUE, True, conn_dst peer_a)"
    unfolding notify_clients_lock_part using p by (simp add: csis_lock_part_def)
  then show ?thesis
    unfolding csis_forced_release_def csis_run_def
    by (simp add: bt_csis_lock_inst)
qed


section \<open>Lemmas on the client write transactions\<close>

lemma gatt_ret_0 [simp]: "gatt_ret 0 = Ret_OK"
  by (simp add: gatt_ret_def)

lemma vcs_write_cb_reread:
  assumes "vcs_cli_state_handle (cli_vcs_inst c) \<noteq> 0"
  shows "vcs_client_write_vcs_cp_cb c VCS_ERR_INVALID_COUNTER 0 =
           (c, [Gatt_Read (vcs_cli_state_handle (cli_vcs_inst c))])"
  using assms by (simp add: vcs_client_write_vcs_cp_cb_def Let_def)

lemma vcs_read_cb_retry:
  assumes "conn \<noteq> None" and "vcs_cli_control_handle (cli_vcs_inst c) \<noteq> 0"
  shows "snd (internal_read_volume_state_cb c conn 0 (Some st) sizeof_vcs_state_t 0) =
           [Gatt_Write (vcs_cli_control_handle (cli_vcs_inst c))
              (vcs_retry_bytes (vcs_cli_write_buf (cli_vcs_inst c)) (vcs_change_counter st))] \<and>
         vcs_cli_state (cli_vcs_inst
           (fst (internal_read_volume_state_cb c conn 0 (Some st) sizeof_vcs_state_t 0))) = st \<and>
         vcs_cli_busy (cli_vcs_inst
           (fst (internal_read_volume_state_cb c conn 0 (Some st) sizeof_vcs_state_t 0)))"
  using assms
  by (simp add: internal_read_volume_state_cb_def Let_def bt_vcs_client_set_volume_def
      vcs_client_common_vcs_cp_def vcs_retry_bytes_def)

lemma vcs_read_cb_failed:
  assumes "err \<noteq> 0"
  shows "internal_read_volume_state_cb c conn err data data_len write_ret =
           (c\<lparr>cli_vcs_inst := (cli_vcs_inst c)\<lparr>vcs_cli_busy := False\<rparr>\<rparr>,
            vcs_cp_notify_app c (vcs_cp_opcode (vcs_cli_write_buf (cli_vcs_inst c)))
              BT_ATT_ERR_UNLIKELY)"
  using assms
  by (simp add: internal_read_volume_state_cb_def Let_def BT_ATT_ERR_UNLIKELY_def)

lemma lookup_aics_from_Some:
  "lookup_aics_from k xs h = Some i \<Longrightarrow>
   k \<le> i \<and> i - k < length xs \<and> (\<exists>a. xs ! (i - k) = Some a)"
proof (induction xs arbitrary: k)
  case Nil
  then show ?case by simp
next
  case (Cons x xs)
  show ?case
  proof (cases "lookup_aics_from (Suc k) xs h = Some i")
    case True
    from Cons.IH [OF True] have "Suc k \<le> i" "i - Suc k < length xs"
      "\<exists>a. xs ! (i - Suc k) = Some a" by auto
    moreover from this have "(x # xs) ! (i - k) = xs ! (i - Suc k)"
      by (simp add: Suc_diff_le)
    ultimately show ?thesis by auto
  next
    case False
    with Cons.prems show ?thesis by (auto split: option.splits if_splits)
  qed
qed

lemma lookup_aics_by_handle_Some:
  "lookup_aics_by_handle insts h = Some i \<Longrightarrow> i < length insts \<and> (\<exists>a. insts ! i = Some a)"
  using lookup_aics_from_Some [of 0 insts h i] by (simp add: lookup_aics_by_handle_def)

lemma lookup_vocs_from_Some:
  "lookup_vocs_from k xs h = Some i \<Longrightarrow> k \<le> i \<and> i - k < length xs"
proof (induction xs arbitrary: k)
  case Nil
  then show ?case by simp
next
  case (Cons x xs)
  show ?case
  proof (cases "lookup_vocs_from (Suc k) xs h = Some i")
    case True
    from Cons.IH [OF True] show ?thesis by auto
  next
    case False
    with Cons.prems show ?thesis by (auto split: if_splits)
  qed
qed

lemma lookup_vocs_by_handle_Some:
  "lookup_vocs_by_handle c h = Some i \<Longrightarrow> i < length (vcs_cli_vocs (cli_vcs_inst c))"
  using lookup_vocs_from_Some [of 0 _ h i] by (fastforce simp: lookup_vocs_by_handle_def)

lemma aics_write_cb_reread:
  assumes "lookup_aics_by_handle insts handle = Some i" and "insts ! i = Some a"
    and "aics_cli_state_handle a \<noteq> 0"
  shows "aics_client_write_aics_cp_cb insts AICS_ERR_INVALID_COUNTER handle 0 =
           (insts, [Gatt_Read (aics_cli_state_handle a)])"
  using assms by (simp add: aics_client_write_aics_cp_cb_def)

lemma aics_read_cb_retry:
  assumes l: "lookup_aics_by_handle insts handle = Some i" and a: "insts ! i = Some a"
    and ix: "unat (aics_cli_index a) = i"
    and conn: "conn \<noteq> None" and ch: "aics_cli_control_handle a \<noteq> 0"
  shows "\<exists>a'. internal_read_input_state_cb insts conn 0 handle (Some st) sizeof_aics_state_t 0 =
           (insts[i := Some a'],
            [Gatt_Write (aics_cli_control_handle a)
               (aics_retry_bytes (aics_cli_write_buf a) (aics_change_counter st))]) \<and>
           aics_cli_change_counter a' = aics_change_counter st \<and> aics_cli_busy a'"
proof -
  from l have i: "i < length insts" using lookup_aics_by_handle_Some by blast
  show ?thesis
    using l a ix conn ch i
    by (auto simp: internal_read_input_state_cb_def Let_def bt_aics_client_gain_set_def
        aics_client_common_control_def aics_retry_bytes_def BT_ATT_ERR_UNLIKELY_def)
qed

lemma aics_read_cb_failed:
  assumes "lookup_aics_by_handle insts handle = Some i" and "insts ! i = Some a"
    and "err \<noteq> 0"
  shows "internal_read_input_state_cb insts conn err handle data data_len write_ret =
           (insts[i := Some (a\<lparr>aics_cli_busy := False\<rparr>)],
            aics_cp_notify_app a BT_ATT_ERR_UNLIKELY)"
  using assms
  by (simp add: internal_read_input_state_cb_def Let_def BT_ATT_ERR_UNLIKELY_def
      aics_set_busy_def)

lemma vocs_write_cb_reread:
  assumes "lookup_vocs_by_handle c handle = Some i"
    and "vocs_cli_state_handle (vcs_cli_vocs (cli_vcs_inst c) ! i) \<noteq> 0"
  shows "vcs_client_write_vocs_cp_cb c VOCS_ERR_INVALID_COUNTER handle 0 =
           (c, [Gatt_Read (vocs_cli_state_handle (vcs_cli_vocs (cli_vcs_inst c) ! i))])"
  using assms by (simp add: vcs_client_write_vocs_cp_cb_def Let_def)

lemma vocs_read_cb_retry_explicit:
  assumes l: "lookup_vocs_by_handle c handle = Some i"
    and v: "vcs_cli_vocs (cli_vcs_inst c) ! i = v"
    and ix: "unat (vocs_cli_index v) = i"
    and conn: "conn \<noteq> None" and ch: "vocs_cli_control_handle v \<noteq> 0"
  shows "internal_read_volume_offset_state_cb c conn 0 handle (Some st) sizeof_vocs_state_t
           next_byte 0 =
         (vocs_put c i
            (v\<lparr>vocs_cli_state := st,
               vocs_cli_write_buf :=
                 \<lparr>vocs_cp_opcode = VOCS_OPCODE_SET_OFFSET,
                  vocs_cp_counter = vocs_change_counter st,
                  vocs_cp_offset =
                    word_cat next_byte (vcs_cp_volume (vcs_cli_write_buf (cli_vcs_inst c)))\<rparr>,
               vocs_cli_busy := True\<rparr>),
          [Gatt_Write (vocs_cli_control_handle v)
             (vocs_control_bytes
                \<lparr>vocs_cp_opcode = VOCS_OPCODE_SET_OFFSET,
                 vocs_cp_counter = vocs_change_counter st,
                 vocs_cp_offset =
                   word_cat next_byte
                     (vcs_cp_volume (vcs_cli_write_buf (cli_vcs_inst c)))\<rparr>)])"
proof -
  from l have i: "i < length (vcs_cli_vocs (cli_vcs_inst c))"
    using lookup_vocs_by_handle_Some by blast
  show ?thesis
    using l v ix conn ch i
    by (auto simp: internal_read_volume_offset_state_cb_def Let_def
        bt_vcs_client_vocs_set_offset_def vocs_put_def BT_ATT_ERR_UNLIKELY_def)
qed

lemma vocs_read_cb_retry:
  assumes l: "lookup_vocs_by_handle c handle = Some i"
    and v: "vcs_cli_vocs (cli_vcs_inst c) ! i = v"
    and ix: "unat (vocs_cli_index v) = i"
    and conn: "conn \<noteq> None" and ch: "vocs_cli_control_handle v \<noteq> 0"
  shows "\<exists>operand v'.
           internal_read_volume_offset_state_cb c conn 0 handle (Some st) sizeof_vocs_state_t
             next_byte 0 =
           (vocs_put c i v',
            [Gatt_Write (vocs_cli_control_handle v)
               (vocs_control_bytes \<lparr>vocs_cp_opcode = VOCS_OPCODE_SET_OFFSET,
                  vocs_cp_counter = vocs_change_counter st, vocs_cp_offset = operand\<rparr>)]) \<and>
           vocs_cli_state v' = st \<and> vocs_cli_busy v'"
  unfolding vocs_read_cb_retry_explicit [OF assms]
  by (intro exI conjI) (rule refl, simp_all)

lemma vocs_read_cb_failed:
  assumes "lookup_vocs_by_handle c handle = Some i" and "err \<noteq> 0"
  shows "internal_read_volume_offset_state_cb c conn err handle data data_len next_byte
           write_ret =
           (vocs_put c i ((vcs_cli_vocs (cli_vcs_inst c) ! i)\<lparr>vocs_cli_busy := False\<rparr>),
            vocs_cp_notify_app c (vocs_cli_index (vcs_cli_vocs (cli_vcs_inst c) ! i))
              BT_ATT_ERR_UNLIKELY)"
  using assms
  by (simp add: internal_read_volume_offset_state_cb_def Let_def BT_ATT_ERR_UNLIKELY_def)

lemmas client_inputs =
  client_conn_def vocs_client_inst_def vcs_client_cb_all_def vcs_client_idle_def
  vcs_server_state_def vcs_client_written_def vcs_client_rereading_def
  vcs_client_retried_def vcs_client_rereading_again_def vocs_client_written_def
  aics_client_inst_def aics_client_written_def aics_server_state_def

lemmas client_eval =
  client_inputs vcs_client_common_vcs_cp_def bt_vcs_client_set_volume_def
  internal_read_volume_state_cb_def vcs_client_write_vcs_cp_cb_def vcs_cp_notify_app_def
  lookup_vocs_by_handle_def vocs_cp_notify_app_def vocs_put_def vocs_control_bytes_def
  bt_vcs_client_vocs_set_offset_def internal_read_volume_offset_state_cb_def
  vcs_client_write_vocs_cp_cb_def lookup_aics_by_handle_def aics_cp_notify_app_def
  aics_client_common_control_def bt_aics_client_gain_set_def aics_set_busy_def
  internal_read_input_state_cb_def aics_client_write_aics_cp_cb_def
  sizeof_vcs_state_t_def sizeof_vocs_state_t_def sizeof_aics_state_t_def
  VCS_ERR_INVALID_COUNTER_def AICS_ERR_INVALID_COUNTER_def VOCS_ERR_INVALID_COUNTER_def
  BT_ATT_ERR_UNLIKELY_def vcs_opcode_defs aics_consts vocs_consts Let_def

lemma vcs_client_written_eval:
  "vcs_client_written =
     vcs_client_idle\<lparr>cli_vcs_inst := (cli_vcs_inst vcs_client_idle)
       \<lparr>vcs_cli_busy := True,
        vcs_cli_write_buf := \<lparr>vcs_cp_opcode = 1, vcs_cp_counter = 0, vcs_cp_volume = 0\<rparr>\<rparr>\<rparr>"
  by (simp add: client_eval)

lemma vcs_client_rereading_eval: "vcs_client_rereading = vcs_client_written"
  unfolding vcs_client_rereading_def vcs_client_written_eval
  by (simp add: client_eval)

lemma vcs_client_retried_eval:
  "vcs_client_retried =
     vcs_client_idle\<lparr>cli_vcs_inst := (cli_vcs_inst vcs_client_idle)
       \<lparr>vcs_cli_state := vcs_server_state 1, vcs_cli_busy := True,
        vcs_cli_write_buf := \<lparr>vcs_cp_opcode = 1, vcs_cp_counter = 1, vcs_cp_volume = 0\<rparr>\<rparr>\<rparr>"
  unfolding vcs_client_retried_def vcs_client_rereading_eval vcs_client_written_eval
  by (simp add: client_eval)

lemma vcs_client_rereading_again_eval: "vcs_client_rereading_again = vcs_client_retried"
  unfolding vcs_client_rereading_again_def vcs_client_retried_eval
  by (simp add: client_eval)

lemma vcs_write_cb_read_refused:
  assumes "vcs_cli_state_handle (cli_vcs_inst c) \<noteq> 0" and "read_ret \<noteq> 0"
  shows "vcs_client_write_vcs_cp_cb c VCS_ERR_INVALID_COUNTER read_ret =
           (c\<lparr>cli_vcs_inst := (cli_vcs_inst c)\<lparr>vcs_cli_busy := False\<rparr>\<rparr>,
            Gatt_Read (vcs_cli_state_handle (cli_vcs_inst c)) #
            vcs_cp_notify_app c (vcs_cp_opcode (vcs_cli_write_buf (cli_vcs_inst c)))
              VCS_ERR_INVALID_COUNTER)"
  using assms by (simp add: vcs_client_write_vcs_cp_cb_def Let_def)

lemma aics_write_cb_read_refused:
  assumes "lookup_aics_by_handle insts handle = Some i" and "insts ! i = Some a"
    and "aics_cli_state_handle a \<noteq> 0" and "read_ret \<noteq> 0"
  shows "aics_client_write_aics_cp_cb insts AICS_ERR_INVALID_COUNTER handle read_ret =
           (insts[i := Some (a\<lparr>aics_cli_busy := False\<rparr>)],
            Gatt_Read (aics_cli_state_handle a) #
            aics_cp_notify_app a AICS_ERR_INVALID_COUNTER)"
  using assms by (simp add: aics_client_write_aics_cp_cb_def)

lemma vocs_write_cb_read_refused:
  assumes "lookup_vocs_by_handle c handle = Some i"
    and "vocs_cli_state_handle (vcs_cli_vocs (cli_vcs_inst c) ! i) \<noteq> 0" and "read_ret \<noteq> 0"
  shows "vcs_client_write_vocs_cp_cb c VOCS_ERR_INVALID_COUNTER handle read_ret =
           (vocs_put c i ((vcs_cli_vocs (cli_vcs_inst c) ! i)\<lparr>vocs_cli_busy := False\<rparr>),
            Gatt_Read (vocs_cli_state_handle (vcs_cli_vocs (cli_vcs_inst c) ! i)) #
            vocs_cp_notify_app c (vocs_cli_index (vcs_cli_vocs (cli_vcs_inst c) ! i))
              VOCS_ERR_INVALID_COUNTER)"
  using assms by (simp add: vcs_client_write_vocs_cp_cb_def Let_def)

lemma vocs_client_written_eval:
  "vocs_client_written =
     vcs_client_idle\<lparr>cli_vcs_inst := (cli_vcs_inst vcs_client_idle)
       \<lparr>vcs_cli_vocs :=
          [vocs_client_inst\<lparr>vocs_cli_busy := True,
             vocs_cli_write_buf :=
               \<lparr>vocs_cp_opcode = 1, vocs_cp_counter = 0, vocs_cp_offset = 0x0107\<rparr>\<rparr>]\<rparr>\<rparr>"
  by (simp add: client_eval)

lemma aics_client_written_eval:
  "aics_client_written =
     [Some (aics_client_inst\<lparr>aics_cli_busy := True,
        aics_cli_write_buf :=
          \<lparr>aics_cp = \<lparr>aics_cp_opcode = 1, aics_cp_counter = 0\<rparr>, aics_gain_setting = 5\<rparr>\<rparr>)]"
  by (simp add: client_eval)


section \<open>C1: SetGain and the gain mode\<close>

text \<open>
  C1 as stated (the operand is applied in the modes Manual and Auto, and accepted but
  not applied in ManualOnly and AutoOnly) fails on the code.  Counterexample: in mode
  Auto a SetGain 5 that passes every guard returns success and leaves the gain at 0.
\<close>

theorem aics_set_gain_auto_counterexample:
  "aics_mode (aics_state (aics_inst_mode AICS_MODE_AUTO)) = AICS_MODE_AUTO \<and>
   aics_guards_pass (aics_inst_mode AICS_MODE_AUTO) aics_set_gain_5 3 0 \<and>
   aics_cp_opcode (aics_cp aics_set_gain_5) = AICS_OPCODE_SET_GAIN \<and>
   sint (aics_minimum (aics_gain_settings (aics_inst_mode AICS_MODE_AUTO))) \<le>
     sint (aics_gain_setting aics_set_gain_5) \<and>
   sint (aics_gain_setting aics_set_gain_5) \<le>
     sint (aics_maximum (aics_gain_settings (aics_inst_mode AICS_MODE_AUTO))) \<and>
   fst (write_aics_control (aics_inst_mode AICS_MODE_AUTO) (Some aics_set_gain_5) 3 0) = 3 \<and>
   aics_gain (aics_state (fst (snd
     (write_aics_control (aics_inst_mode AICS_MODE_AUTO) (Some aics_set_gain_5) 3 0)))) = 0 \<and>
   aics_gain_setting aics_set_gain_5 = 5"
  by (simp add: aics_eval)

text \<open>
  C1, amended.  For every AICS control-point SetGain write that passes the offset,
  opcode, length, counter and range guards, success is returned; if the mode is Manual
  or ManualOnly the operand is the new gain; if the mode is Auto or AutoOnly the
  instance is left as it is and nothing is notified (accepted but not applied).
\<close>

theorem aics_set_gain:
  assumes "aics_guards_pass inst cp len offset"
    and "aics_cp_opcode (aics_cp cp) = AICS_OPCODE_SET_GAIN"
    and "sint (aics_minimum (aics_gain_settings inst)) \<le> sint (aics_gain_setting cp)"
    and "sint (aics_gain_setting cp) \<le> sint (aics_maximum (aics_gain_settings inst))"
  shows "fst (write_aics_control inst (Some cp) len offset) = uint len \<and>
         (aics_mode (aics_state inst) = AICS_MODE_MANUAL \<or>
          aics_mode (aics_state inst) = AICS_MODE_MANUAL_ONLY \<longrightarrow>
            aics_gain (aics_state (fst (snd (write_aics_control inst (Some cp) len offset)))) =
              aics_gain_setting cp) \<and>
         (aics_mode (aics_state inst) = AICS_MODE_AUTO \<or>
          aics_mode (aics_state inst) = AICS_MODE_AUTO_ONLY \<longrightarrow>
            snd (write_aics_control inst (Some cp) len offset) = (inst, []))"
proof -
  have sw: "aics_switch inst cp =
      (if AICS_INPUT_MODE_SETTABLE (aics_mode (aics_state inst)) \<and>
          aics_gain (aics_state inst) \<noteq> aics_gain_setting cp
       then Inr ((aics_state inst)\<lparr>aics_gain := aics_gain_setting cp\<rparr>, True)
       else Inr (aics_state inst, False))"
    using assms(2-4) by (simp add: aics_switch_def Let_def)
  show ?thesis
    by (auto simp: write_aics_control_accepted [OF assms(1)] sw aics_notify_state_def Let_def
        AICS_INPUT_MODE_SETTABLE_def AICS_MODE_MANUAL_def AICS_MODE_MANUAL_ONLY_def
        AICS_MODE_AUTO_def AICS_MODE_AUTO_ONLY_def)
qed

text \<open>Witness: SetGain 5 in mode ManualOnly is applied.\<close>

theorem aics_set_gain_witness:
  "aics_guards_pass (aics_inst_mode AICS_MODE_MANUAL_ONLY) aics_set_gain_5 3 0 \<and>
   aics_mode (aics_state (aics_inst_mode AICS_MODE_MANUAL_ONLY)) = AICS_MODE_MANUAL_ONLY \<and>
   fst (write_aics_control (aics_inst_mode AICS_MODE_MANUAL_ONLY) (Some aics_set_gain_5) 3 0) =
     3 \<and>
   aics_gain (aics_state (fst (snd (write_aics_control (aics_inst_mode AICS_MODE_MANUAL_ONLY)
                                      (Some aics_set_gain_5) 3 0)))) = 5"
proof -
  have g: "aics_guards_pass (aics_inst_mode AICS_MODE_MANUAL_ONLY) aics_set_gain_5 3 0"
    and o: "aics_cp_opcode (aics_cp aics_set_gain_5) = AICS_OPCODE_SET_GAIN"
    and lo: "sint (aics_minimum (aics_gain_settings (aics_inst_mode AICS_MODE_MANUAL_ONLY))) \<le>
             sint (aics_gain_setting aics_set_gain_5)"
    and hi: "sint (aics_gain_setting aics_set_gain_5) \<le>
             sint (aics_maximum (aics_gain_settings (aics_inst_mode AICS_MODE_MANUAL_ONLY)))"
    by (simp_all add: aics_eval)
  from aics_set_gain [OF g o lo hi] g show ?thesis
    by (simp add: aics_inst_mode_def aics_set_gain_5_def)
qed


section \<open>C2: the client's answer to Invalid Change Counter\<close>

text \<open>
  C2, as stated, fails on its last part.  A VCS client writes Relative Volume Up with
  its cached counter 0; the write completes with Invalid Change Counter, the client
  reads the state (counter 1) and writes again with counter 1; this second write also
  completes with Invalid Change Counter.  \<open>vcs_client_write_vcs_cp_cb\<close> then issues a
  second read, and no application callback; when that read completes (counter 2) the
  client writes a third time.
\<close>

theorem client_second_rejection_counterexample:
  "snd (snd (vcs_client_common_vcs_cp vcs_client_idle (Some client_conn)
               VCS_OPCODE_REL_VOL_UP 0)) = [Gatt_Write 5 [1, 0]] \<and>
   snd (vcs_client_write_vcs_cp_cb vcs_client_written VCS_ERR_INVALID_COUNTER 0) =
     [Gatt_Read 3] \<and>
   snd (internal_read_volume_state_cb vcs_client_rereading (Some client_conn) 0
          (Some (vcs_server_state 1)) sizeof_vcs_state_t 0) = [Gatt_Write 5 [1, 1]] \<and>
   snd (vcs_client_write_vcs_cp_cb vcs_client_retried VCS_ERR_INVALID_COUNTER 0) =
     [Gatt_Read 3] \<and>
   snd (internal_read_volume_state_cb vcs_client_rereading_again (Some client_conn) 0
          (Some (vcs_server_state 2)) sizeof_vcs_state_t 0) = [Gatt_Write 5 [1, 2]]"
proof -
  have "snd (snd (vcs_client_common_vcs_cp vcs_client_idle (Some client_conn)
               VCS_OPCODE_REL_VOL_UP 0)) = [Gatt_Write 5 [1, 0]]"
    by (simp add: client_eval)
  moreover have "snd (vcs_client_write_vcs_cp_cb vcs_client_written
                   VCS_ERR_INVALID_COUNTER 0) = [Gatt_Read 3]"
    unfolding vcs_client_written_eval by (simp add: client_eval)
  moreover have "snd (internal_read_volume_state_cb vcs_client_rereading (Some client_conn) 0
          (Some (vcs_server_state 1)) sizeof_vcs_state_t 0) = [Gatt_Write 5 [1, 1]]"
    unfolding vcs_client_rereading_eval vcs_client_written_eval by (simp add: client_eval)
  moreover have "snd (vcs_client_write_vcs_cp_cb vcs_client_retried
                   VCS_ERR_INVALID_COUNTER 0) = [Gatt_Read 3]"
    unfolding vcs_client_retried_eval by (simp add: client_eval)
  moreover have "snd (internal_read_volume_state_cb vcs_client_rereading_again
          (Some client_conn) 0 (Some (vcs_server_state 2)) sizeof_vcs_state_t 0) =
          [Gatt_Write 5 [1, 2]]"
    unfolding vcs_client_rereading_again_eval vcs_client_retried_eval
    by (simp add: client_eval)
  ultimately show ?thesis by (intro conjI)
qed

text \<open>
  C2, amended.  For each client (VCS, AICS, VOCS inside the VCS client):
  every completion of a control-point write with Invalid Change Counter, the state
  handle known and the read accepted by the stack, issues a read of the state
  characteristic and leaves the client as it is (there is no bound on how often); if
  the stack refuses the read, \<open>busy\<close> is cleared and the application callback receives
  the Invalid Change Counter error itself.  A re-read that completes without error
  and with a state of the right size updates the cached state or counter and writes
  the control point again, with the opcode (and, on VCS and AICS, the operand) of the
  write buffer and the refreshed counter, \<open>busy\<close> set.  A re-read that completes with
  an error clears \<open>busy\<close> and calls the application callback with Unlikely.
\<close>

theorem client_write_retry:
  "(vcs_cli_state_handle (cli_vcs_inst c) \<noteq> 0 \<longrightarrow>
      vcs_client_write_vcs_cp_cb c VCS_ERR_INVALID_COUNTER 0 =
        (c, [Gatt_Read (vcs_cli_state_handle (cli_vcs_inst c))]) \<and>
      (read_ret \<noteq> 0 \<longrightarrow>
         vcs_client_write_vcs_cp_cb c VCS_ERR_INVALID_COUNTER read_ret =
           (c\<lparr>cli_vcs_inst := (cli_vcs_inst c)\<lparr>vcs_cli_busy := False\<rparr>\<rparr>,
            Gatt_Read (vcs_cli_state_handle (cli_vcs_inst c)) #
            vcs_cp_notify_app c (vcs_cp_opcode (vcs_cli_write_buf (cli_vcs_inst c)))
              VCS_ERR_INVALID_COUNTER))) \<and>
   (conn \<noteq> None \<and> vcs_cli_control_handle (cli_vcs_inst c) \<noteq> 0 \<longrightarrow>
      snd (internal_read_volume_state_cb c conn 0 (Some st) sizeof_vcs_state_t 0) =
        [Gatt_Write (vcs_cli_control_handle (cli_vcs_inst c))
           (vcs_retry_bytes (vcs_cli_write_buf (cli_vcs_inst c)) (vcs_change_counter st))] \<and>
      vcs_cli_state (cli_vcs_inst
        (fst (internal_read_volume_state_cb c conn 0 (Some st) sizeof_vcs_state_t 0))) = st \<and>
      vcs_cli_busy (cli_vcs_inst
        (fst (internal_read_volume_state_cb c conn 0 (Some st) sizeof_vcs_state_t 0)))) \<and>
   (err \<noteq> 0 \<longrightarrow>
      internal_read_volume_state_cb c conn err data data_len write_ret =
        (c\<lparr>cli_vcs_inst := (cli_vcs_inst c)\<lparr>vcs_cli_busy := False\<rparr>\<rparr>,
         vcs_cp_notify_app c (vcs_cp_opcode (vcs_cli_write_buf (cli_vcs_inst c)))
           BT_ATT_ERR_UNLIKELY)) \<and>
   (lookup_aics_by_handle insts handle_a = Some i \<and> insts ! i = Some a \<and>
    aics_cli_state_handle a \<noteq> 0 \<longrightarrow>
      aics_client_write_aics_cp_cb insts AICS_ERR_INVALID_COUNTER handle_a 0 =
        (insts, [Gatt_Read (aics_cli_state_handle a)]) \<and>
      (read_ret \<noteq> 0 \<longrightarrow>
         aics_client_write_aics_cp_cb insts AICS_ERR_INVALID_COUNTER handle_a read_ret =
           (insts[i := Some (a\<lparr>aics_cli_busy := False\<rparr>)],
            Gatt_Read (aics_cli_state_handle a) #
            aics_cp_notify_app a AICS_ERR_INVALID_COUNTER))) \<and>
   (lookup_aics_by_handle insts handle_a = Some i \<and> insts ! i = Some a \<and>
    unat (aics_cli_index a) = i \<and> conn \<noteq> None \<and> aics_cli_control_handle a \<noteq> 0 \<longrightarrow>
      (\<exists>a'. internal_read_input_state_cb insts conn 0 handle_a (Some st_a)
                sizeof_aics_state_t 0 =
              (insts[i := Some a'],
               [Gatt_Write (aics_cli_control_handle a)
                  (aics_retry_bytes (aics_cli_write_buf a) (aics_change_counter st_a))]) \<and>
            aics_cli_change_counter a' = aics_change_counter st_a \<and> aics_cli_busy a')) \<and>
   (lookup_aics_by_handle insts handle_a = Some i \<and> insts ! i = Some a \<and> err \<noteq> 0 \<longrightarrow>
      internal_read_input_state_cb insts conn err handle_a data_a data_len write_ret =
        (insts[i := Some (a\<lparr>aics_cli_busy := False\<rparr>)],
         aics_cp_notify_app a BT_ATT_ERR_UNLIKELY)) \<and>
   (lookup_vocs_by_handle c handle_o = Some j \<and>
    vocs_cli_state_handle (vcs_cli_vocs (cli_vcs_inst c) ! j) \<noteq> 0 \<longrightarrow>
      vcs_client_write_vocs_cp_cb c VOCS_ERR_INVALID_COUNTER handle_o 0 =
        (c, [Gatt_Read (vocs_cli_state_handle (vcs_cli_vocs (cli_vcs_inst c) ! j))]) \<and>
      (read_ret \<noteq> 0 \<longrightarrow>
         vcs_client_write_vocs_cp_cb c VOCS_ERR_INVALID_COUNTER handle_o read_ret =
           (vocs_put c j ((vcs_cli_vocs (cli_vcs_inst c) ! j)\<lparr>vocs_cli_busy := False\<rparr>),
            Gatt_Read (vocs_cli_state_handle (vcs_cli_vocs (cli_vcs_inst c) ! j)) #
            vocs_cp_notify_app c (vocs_cli_index (vcs_cli_vocs (cli_vcs_inst c) ! j))
              VOCS_ERR_INVALID_COUNTER))) \<and>
   (lookup_vocs_by_handle c handle_o = Some j \<and>
    unat (vocs_cli_index (vcs_cli_vocs (cli_vcs_inst c) ! j)) = j \<and> conn \<noteq> None \<and>
    vocs_cli_control_handle (vcs_cli_vocs (cli_vcs_inst c) ! j) \<noteq> 0 \<longrightarrow>
      (\<exists>operand v'.
         internal_read_volume_offset_state_cb c conn 0 handle_o (Some st_o)
           sizeof_vocs_state_t next_byte 0 =
         (vocs_put c j v',
          [Gatt_Write (vocs_cli_control_handle (vcs_cli_vocs (cli_vcs_inst c) ! j))
             (vocs_control_bytes \<lparr>vocs_cp_opcode = VOCS_OPCODE_SET_OFFSET,
                vocs_cp_counter = vocs_change_counter st_o, vocs_cp_offset = operand\<rparr>)]) \<and>
         vocs_cli_state v' = st_o \<and> vocs_cli_busy v')) \<and>
   (lookup_vocs_by_handle c handle_o = Some j \<and> err \<noteq> 0 \<longrightarrow>
      internal_read_volume_offset_state_cb c conn err handle_o data_o data_len next_byte
        write_ret =
        (vocs_put c j ((vcs_cli_vocs (cli_vcs_inst c) ! j)\<lparr>vocs_cli_busy := False\<rparr>),
         vocs_cp_notify_app c (vocs_cli_index (vcs_cli_vocs (cli_vcs_inst c) ! j))
           BT_ATT_ERR_UNLIKELY))"
proof -
  have v_write: "vcs_cli_state_handle (cli_vcs_inst c) \<noteq> 0 \<longrightarrow>
      vcs_client_write_vcs_cp_cb c VCS_ERR_INVALID_COUNTER 0 =
        (c, [Gatt_Read (vcs_cli_state_handle (cli_vcs_inst c))]) \<and>
      (read_ret \<noteq> 0 \<longrightarrow>
         vcs_client_write_vcs_cp_cb c VCS_ERR_INVALID_COUNTER read_ret =
           (c\<lparr>cli_vcs_inst := (cli_vcs_inst c)\<lparr>vcs_cli_busy := False\<rparr>\<rparr>,
            Gatt_Read (vcs_cli_state_handle (cli_vcs_inst c)) #
            vcs_cp_notify_app c (vcs_cp_opcode (vcs_cli_write_buf (cli_vcs_inst c)))
              VCS_ERR_INVALID_COUNTER))"
    by (intro impI conjI) (rule vcs_write_cb_reread, assumption,
        rule vcs_write_cb_read_refused, assumption+)
  have v_retry: "conn \<noteq> None \<and> vcs_cli_control_handle (cli_vcs_inst c) \<noteq> 0 \<longrightarrow>
      snd (internal_read_volume_state_cb c conn 0 (Some st) sizeof_vcs_state_t 0) =
        [Gatt_Write (vcs_cli_control_handle (cli_vcs_inst c))
           (vcs_retry_bytes (vcs_cli_write_buf (cli_vcs_inst c)) (vcs_change_counter st))] \<and>
      vcs_cli_state (cli_vcs_inst
        (fst (internal_read_volume_state_cb c conn 0 (Some st) sizeof_vcs_state_t 0))) = st \<and>
      vcs_cli_busy (cli_vcs_inst
        (fst (internal_read_volume_state_cb c conn 0 (Some st) sizeof_vcs_state_t 0)))"
    by (intro impI, elim conjE, rule vcs_read_cb_retry)
  have v_failed: "err \<noteq> 0 \<longrightarrow>
      internal_read_volume_state_cb c conn err data data_len write_ret =
        (c\<lparr>cli_vcs_inst := (cli_vcs_inst c)\<lparr>vcs_cli_busy := False\<rparr>\<rparr>,
         vcs_cp_notify_app c (vcs_cp_opcode (vcs_cli_write_buf (cli_vcs_inst c)))
           BT_ATT_ERR_UNLIKELY)"
    by (intro impI, rule vcs_read_cb_failed)
  have a_write: "lookup_aics_by_handle insts handle_a = Some i \<and> insts ! i = Some a \<and>
    aics_cli_state_handle a \<noteq> 0 \<longrightarrow>
      aics_client_write_aics_cp_cb insts AICS_ERR_INVALID_COUNTER handle_a 0 =
        (insts, [Gatt_Read (aics_cli_state_handle a)]) \<and>
      (read_ret \<noteq> 0 \<longrightarrow>
         aics_client_write_aics_cp_cb insts AICS_ERR_INVALID_COUNTER handle_a read_ret =
           (insts[i := Some (a\<lparr>aics_cli_busy := False\<rparr>)],
            Gatt_Read (aics_cli_state_handle a) #
            aics_cp_notify_app a AICS_ERR_INVALID_COUNTER))"
    by (intro impI conjI; elim conjE)
       (rule aics_write_cb_reread, assumption+, rule aics_write_cb_read_refused, assumption+)
  have a_retry: "lookup_aics_by_handle insts handle_a = Some i \<and> insts ! i = Some a \<and>
    unat (aics_cli_index a) = i \<and> conn \<noteq> None \<and> aics_cli_control_handle a \<noteq> 0 \<longrightarrow>
      (\<exists>a'. internal_read_input_state_cb insts conn 0 handle_a (Some st_a)
                sizeof_aics_state_t 0 =
              (insts[i := Some a'],
               [Gatt_Write (aics_cli_control_handle a)
                  (aics_retry_bytes (aics_cli_write_buf a) (aics_change_counter st_a))]) \<and>
            aics_cli_change_counter a' = aics_change_counter st_a \<and> aics_cli_busy a')"
    by (intro impI, elim conjE, rule aics_read_cb_retry)
  have a_failed: "lookup_aics_by_handle insts handle_a = Some i \<and> insts ! i = Some a \<and>
      err \<noteq> 0 \<longrightarrow>
      internal_read_input_state_cb insts conn err handle_a data_a data_len write_ret =
        (insts[i := Some (a\<lparr>aics_cli_busy := False\<rparr>)],
         aics_cp_notify_app a BT_ATT_ERR_UNLIKELY)"
    by (intro impI, elim conjE, rule aics_read_cb_failed)
  have o_write: "lookup_vocs_by_handle c handle_o = Some j \<and>
    vocs_cli_state_handle (vcs_cli_vocs (cli_vcs_inst c) ! j) \<noteq> 0 \<longrightarrow>
      vcs_client_write_vocs_cp_cb c VOCS_ERR_INVALID_COUNTER handle_o 0 =
        (c, [Gatt_Read (vocs_cli_state_handle (vcs_cli_vocs (cli_vcs_inst c) ! j))]) \<and>
      (read_ret \<noteq> 0 \<longrightarrow>
         vcs_client_write_vocs_cp_cb c VOCS_ERR_INVALID_COUNTER handle_o read_ret =
           (vocs_put c j ((vcs_cli_vocs (cli_vcs_inst c) ! j)\<lparr>vocs_cli_busy := False\<rparr>),
            Gatt_Read (vocs_cli_state_handle (vcs_cli_vocs (cli_vcs_inst c) ! j)) #
            vocs_cp_notify_app c (vocs_cli_index (vcs_cli_vocs (cli_vcs_inst c) ! j))
              VOCS_ERR_INVALID_COUNTER))"
    by (intro impI conjI; elim conjE)
       (rule vocs_write_cb_reread, assumption+, rule vocs_write_cb_read_refused, assumption+)
  have o_retry: "lookup_vocs_by_handle c handle_o = Some j \<and>
    unat (vocs_cli_index (vcs_cli_vocs (cli_vcs_inst c) ! j)) = j \<and> conn \<noteq> None \<and>
    vocs_cli_control_handle (vcs_cli_vocs (cli_vcs_inst c) ! j) \<noteq> 0 \<longrightarrow>
      (\<exists>operand v'.
         internal_read_volume_offset_state_cb c conn 0 handle_o (Some st_o)
           sizeof_vocs_state_t next_byte 0 =
         (vocs_put c j v',
          [Gatt_Write (vocs_cli_control_handle (vcs_cli_vocs (cli_vcs_inst c) ! j))
             (vocs_control_bytes \<lparr>vocs_cp_opcode = VOCS_OPCODE_SET_OFFSET,
                vocs_cp_counter = vocs_change_counter st_o, vocs_cp_offset = operand\<rparr>)]) \<and>
         vocs_cli_state v' = st_o \<and> vocs_cli_busy v')"
    by (intro impI, elim conjE, rule vocs_read_cb_retry) (assumption | rule refl)+
  have o_failed: "lookup_vocs_by_handle c handle_o = Some j \<and> err \<noteq> 0 \<longrightarrow>
      internal_read_volume_offset_state_cb c conn err handle_o data_o data_len next_byte
        write_ret =
        (vocs_put c j ((vcs_cli_vocs (cli_vcs_inst c) ! j)\<lparr>vocs_cli_busy := False\<rparr>),
         vocs_cp_notify_app c (vocs_cli_index (vcs_cli_vocs (cli_vcs_inst c) ! j))
           BT_ATT_ERR_UNLIKELY)"
    by (intro impI, elim conjE, rule vocs_read_cb_failed)
  from v_write v_retry v_failed a_write a_retry a_failed o_write o_retry o_failed
  show ?thesis by (intro conjI)
qed

text \<open>
  Witness: the three clients after a first write (VCS Relative Volume Up, AICS Set
  Gain 5, VOCS Set Offset 0x0107), at the completions with Invalid Change Counter.
  The VOCS retry takes its operand from the write buffer of the VCS control point,
  so it sends offset 0 where the first write sent 0x0107.
\<close>

theorem client_write_retry_witness:
  "vcs_cli_state_handle (cli_vcs_inst vcs_client_written) = 3 \<and>
   vcs_client_write_vcs_cp_cb vcs_client_written VCS_ERR_INVALID_COUNTER 0 =
     (vcs_client_written, [Gatt_Read 3]) \<and>
   snd (vcs_client_write_vcs_cp_cb vcs_client_written VCS_ERR_INVALID_COUNTER (- 12)) =
     [Gatt_Read 3, App_VCS_Write_Cb 1 0x80] \<and>
   snd (internal_read_volume_state_cb vcs_client_written (Some client_conn) 0
          (Some (vcs_server_state 1)) sizeof_vcs_state_t 0) = [Gatt_Write 5 [1, 1]] \<and>
   snd (internal_read_volume_state_cb vcs_client_written (Some client_conn) 1 None 0 0) =
     [App_VCS_Write_Cb 1 0x0e] \<and>
   lookup_aics_by_handle aics_client_written 0x32 = Some 0 \<and>
   snd (aics_client_write_aics_cp_cb aics_client_written AICS_ERR_INVALID_COUNTER 0x32 0) =
     [Gatt_Read 0x32] \<and>
   snd (internal_read_input_state_cb aics_client_written (Some client_conn) 0 0x32
          (Some (aics_server_state 1)) sizeof_aics_state_t 0) = [Gatt_Write 0x35 [1, 1, 5]] \<and>
   snd (internal_read_input_state_cb aics_client_written (Some client_conn) 1 0x32 None 0 0) =
     [App_AICS_Write_Cb 1 0 0x0e] \<and>
   lookup_vocs_by_handle vocs_client_written 0x22 = Some 0 \<and>
   snd (vcs_client_write_vocs_cp_cb vocs_client_written VOCS_ERR_INVALID_COUNTER 0x22 0) =
     [Gatt_Read 0x22] \<and>
   snd (internal_read_volume_offset_state_cb vocs_client_written (Some client_conn) 0 0x22
          (Some \<lparr>vocs_offset = 0, vocs_change_counter = 1\<rparr>) sizeof_vocs_state_t 0 0) =
     [Gatt_Write 0x25 [1, 1, 0, 0]] \<and>
   snd (internal_read_volume_offset_state_cb vocs_client_written (Some client_conn) 1 0x22
          None 0 0 0) = [App_VOCS_Set_Offset_Cb 0 0x0e]"
  using
    client_write_retry [where c = vcs_client_written and read_ret = "- 12"
      and conn = "Some client_conn" and st = "vcs_server_state 1" and err = 1
      and data = None and data_len = 0 and write_ret = 0
      and insts = aics_client_written and handle_a = "0x32" and i = 0
      and a = "aics_client_inst\<lparr>aics_cli_busy := True,
        aics_cli_write_buf :=
          \<lparr>aics_cp = \<lparr>aics_cp_opcode = 1, aics_cp_counter = 0\<rparr>, aics_gain_setting = 5\<rparr>\<rparr>"
      and st_a = "aics_server_state 1" and data_a = None
      and handle_o = 0 and j = 0]
    client_write_retry [where c = vocs_client_written and read_ret = "- 12"
      and conn = "Some client_conn" and err = 1
      and data_len = 0 and write_ret = 0
      and insts = "[]" and handle_a = 0 and i = 0
      and handle_o = "0x22" and j = 0
      and st_o = "\<lparr>vocs_offset = 0, vocs_change_counter = 1\<rparr>" and data_o = None
      and next_byte = 0]
  unfolding vcs_client_written_eval vocs_client_written_eval aics_client_written_eval
  by (simp add: client_eval)


section \<open>C3: the lock invariant of the CSIS engine\<close>

text \<open>
  C3 as stated (\<open>set_lock\<close> is Locked if and only if \<open>lock_client_addr\<close> is non-empty
  and the timer is armed, in every reachable state) fails on the code, in both
  directions.  Counterexample: after the server takes the lock through \<open>bt_csis_lock\<close>
  the engine is Locked with the timer armed and an empty \<open>lock_client_addr\<close>; after a
  peer's lock and a forced release through \<open>bt_csis_lock\<close> the engine is Released with
  the peer's address still stored and the timer still armed.
\<close>

theorem csis_lock_invariant_counterexample:
  "csis_set_lock csis_server_locked = BT_CSIP_LOCK_VALUE \<and>
   csis_set_lock_timer csis_server_locked \<and>
   csis_lock_client_addr csis_server_locked = server_dummy_addr \<and>
   \<not> csis_lock_invariant csis_server_locked \<and>
   csis_set_lock csis_forced_release = BT_CSIP_RELEASE_VALUE \<and>
   csis_set_lock_timer csis_forced_release \<and>
   csis_lock_client_addr csis_forced_release = conn_dst peer_a \<and>
   conn_dst peer_a \<noteq> server_dummy_addr \<and>
   \<not> csis_lock_invariant csis_forced_release"
  using csis_server_locked_part csis_forced_release_part
  by (simp add: csis_lock_part_def csis_lock_invariant_def csip_defs peer_a_def
      server_dummy_addr_def)

text \<open>
  C3, amended.  In every state the engine reaches from its initial state by lock and
  release writes, the server-side lock API, timer expiries and disconnects, \<open>set_lock\<close>
  is Released or Locked, and if it is Locked the 60-second timer is armed.  A successful
  Lock write by a peer stores that peer's address in \<open>lock_client_addr\<close>; a lock taken
  through the server-side API (null connection) leaves \<open>lock_client_addr\<close> as it was;
  a successful Release write empties \<open>lock_client_addr\<close> and cancels the timer.
\<close>

theorem csis_lock_timer_invariant:
  "csis_locked_timer (csis_run (csis_inst_init max_paired) steps) \<and>
   (fst (write_set_lock host inst (Some c) [BT_CSIP_LOCK_VALUE] 0) = Inr 1 \<longrightarrow>
      csis_lock_part (fst (snd (write_set_lock host inst (Some c) [BT_CSIP_LOCK_VALUE] 0))) =
        (BT_CSIP_LOCK_VALUE, True, conn_dst c)) \<and>
   (fst (write_set_lock host inst None [BT_CSIP_LOCK_VALUE] 0) = Inr 1 \<longrightarrow>
      csis_lock_part (fst (snd (write_set_lock host inst None [BT_CSIP_LOCK_VALUE] 0))) =
        (BT_CSIP_LOCK_VALUE, True, csis_lock_client_addr inst)) \<and>
   (fst (write_set_lock host inst conn [BT_CSIP_RELEASE_VALUE] 0) = Inr 1 \<longrightarrow>
      csis_lock_part (fst (snd (write_set_lock host inst conn [BT_CSIP_RELEASE_VALUE] 0))) =
        (BT_CSIP_RELEASE_VALUE, False, server_dummy_addr))"
  using csis_run_locked_timer [OF csis_init_locked_timer]
    write_set_lock_by_peer write_set_lock_by_server write_set_lock_release
  by blast

text \<open>
  Witness: the lock taken by the server is Locked with the timer armed, and a Lock write
  by peer A on the initialised engine succeeds and stores A's address.
\<close>

theorem csis_lock_timer_invariant_witness:
  "csis_set_lock csis_server_locked = BT_CSIP_LOCK_VALUE \<and>
   csis_set_lock_timer csis_server_locked \<and>
   fst (write_set_lock host_a (csis_inst_init 2) (Some peer_a) [BT_CSIP_LOCK_VALUE] 0) = Inr 1 \<and>
   csis_lock_part (fst (snd (write_set_lock host_a (csis_inst_init 2) (Some peer_a)
     [BT_CSIP_LOCK_VALUE] 0))) = (BT_CSIP_LOCK_VALUE, True, conn_dst peer_a)"
proof -
  have r: "fst (write_set_lock host_a (csis_inst_init 2) (Some peer_a) [BT_CSIP_LOCK_VALUE] 0) =
      Inr 1"
    by (simp add: write_set_lock_ret csis_inst_init_def csip_defs)
  from csis_lock_timer_invariant [where max_paired = 2
      and steps = "[Api_Lock host_empty True False]" and host = host_a
      and inst = "csis_inst_init 2" and c = peer_a and conn = None]
    r csis_server_locked_part
  show ?thesis
    by (simp add: csis_server_locked_def csis_locked_timer_def csis_lock_part_def)
qed


section \<open>C4: commit or no-op\<close>





section \<open>C5: the counter guard\<close>

text \<open>
  C5.  A server control-point write (VCS, VOCS or AICS) fails with the service's
  Invalid Change Counter error, 0x80, if and only if it passes the offset, opcode and
  length guards and its counter operand differs from the current \<open>change_counter\<close>; on
  this error the instance is unchanged and nothing is emitted.

  With the guards as the control-point pattern states them, the VOCS handler does
  this.  The VCS and the AICS handler answer 0x80 to these writes and, beside them, to
  the writes their length test misses: Set Absolute Volume and Set Gain written with
  two bytes, which do not pass the length guard of the pattern.  On every 0x80 the
  instance is unchanged and nothing is emitted.
\<close>

theorem invalid_change_counter:
  "(fst (write_vcs_control inst buf len offset) = Returned (BT_GATT_ERR 0x80) \<longleftrightarrow>
      (\<exists>cp. buf = Some cp \<and>
            (vcs_spec_guards_ok cp len offset \<or> vcs_short_long_opcode cp len offset) \<and>
            vcs_cp_counter cp \<noteq> vcs_change_counter (vcs_state inst))) \<and>
   (fst (write_vcs_control inst buf len offset) = Returned (BT_GATT_ERR 0x80) \<longrightarrow>
      snd (write_vcs_control inst buf len offset) = (inst, [])) \<and>
   (fst (write_aics_control inst_a buf_a len_a offset_a) = BT_GATT_ERR 0x80 \<longleftrightarrow>
      (\<exists>cp. buf_a = Some cp \<and>
            (aics_spec_guards_ok cp len_a offset_a \<or>
             aics_short_long_opcode cp len_a offset_a) \<and>
            aics_cp_counter (aics_cp cp) \<noteq> aics_change_counter (aics_state inst_a))) \<and>
   (fst (write_aics_control inst_a buf_a len_a offset_a) = BT_GATT_ERR 0x80 \<longrightarrow>
      snd (write_aics_control inst_a buf_a len_a offset_a) = (inst_a, [])) \<and>
   (fst (write_vocs_control bo inst_o buf_o len_o offset_o) = BT_GATT_ERR 0x80 \<longleftrightarrow>
      (\<exists>cp. buf_o = Some cp \<and> vocs_spec_guards_ok cp len_o offset_o \<and>
            vocs_cp_counter cp \<noteq> vocs_change_counter (vocs_state inst_o))) \<and>
   (fst (write_vocs_control bo inst_o buf_o len_o offset_o) = BT_GATT_ERR 0x80 \<longrightarrow>
      snd (write_vocs_control bo inst_o buf_o len_o offset_o) = (inst_o, []))"
proof -
  have neg: "\<And>l :: 16 word. BT_GATT_ERR 0x80 \<noteq> uint l"
    by (rule BT_GATT_ERR_not_len) simp
  have v: "fst (write_vcs_control inst buf len offset) = Returned (BT_GATT_ERR 0x80) \<longleftrightarrow>
      (\<exists>cp. buf = Some cp \<and>
            (vcs_spec_guards_ok cp len offset \<or> vcs_short_long_opcode cp len offset) \<and>
            vcs_cp_counter cp \<noteq> vcs_change_counter (vcs_state inst))"
    unfolding vcs_invalid_counter_iff vcs_format_ok_spec ..
  have a: "fst (write_aics_control inst_a buf_a len_a offset_a) = BT_GATT_ERR 0x80 \<longleftrightarrow>
      (\<exists>cp. buf_a = Some cp \<and>
            (aics_spec_guards_ok cp len_a offset_a \<or>
             aics_short_long_opcode cp len_a offset_a) \<and>
            aics_cp_counter (aics_cp cp) \<noteq> aics_change_counter (aics_state inst_a))"
    unfolding aics_invalid_counter_iff aics_format_ok_spec ..
  have o: "fst (write_vocs_control bo inst_o buf_o len_o offset_o) = BT_GATT_ERR 0x80 \<longleftrightarrow>
      (\<exists>cp. buf_o = Some cp \<and> vocs_spec_guards_ok cp len_o offset_o \<and>
            vocs_cp_counter cp \<noteq> vocs_change_counter (vocs_state inst_o))"
    unfolding vocs_invalid_counter_iff vocs_format_ok_spec ..
  have vf: "fst (write_vcs_control inst buf len offset) = Returned (BT_GATT_ERR 0x80) \<longrightarrow>
      snd (write_vcs_control inst buf len offset) = (inst, [])"
    using vcs_invalid_counter_frame by blast
  have af: "fst (write_aics_control inst_a buf_a len_a offset_a) = BT_GATT_ERR 0x80 \<longrightarrow>
      snd (write_aics_control inst_a buf_a len_a offset_a) = (inst_a, [])"
    using aics_error_frame [of inst_a buf_a len_a offset_a] neg by metis
  have "of": "fst (write_vocs_control bo inst_o buf_o len_o offset_o) = BT_GATT_ERR 0x80 \<longrightarrow>
      snd (write_vocs_control bo inst_o buf_o len_o offset_o) = (inst_o, [])"
    using vocs_error_frame [of bo inst_o buf_o len_o offset_o] neg by metis
  from v vf a af o "of" show ?thesis by (intro conjI)
qed

text \<open>
  Witness.  The spec's third scenario (SetAbsVol 50 with stale counter 0 while the
  counter is 2) and a stale counter on a VOCS instance pass the guards of the pattern
  and fail with 0x80.  The writes that break C5: on the VCS instance with counter 2,
  the two bytes 0x04 0x00 (Set Absolute Volume, counter 0, no operand), and on the
  AICS instance with counter 0 the two bytes 0x01 0x01 (Set Gain, counter 1, no
  operand) do not pass the length guard of the pattern, and both fail with 0x80 where
  the pattern answers Invalid Attribute Length.
\<close>

theorem invalid_change_counter_witness:
  "vcs_spec_guards_ok vcs_abs_vol_50_stale 3 0 \<and>
   vcs_cp_counter vcs_abs_vol_50_stale \<noteq> vcs_change_counter (vcs_state vcs_inst_ctr2) \<and>
   write_vcs_control vcs_inst_ctr2 (Some vcs_abs_vol_50_stale) 3 0 =
     (Returned (- 128), vcs_inst_ctr2, []) \<and>
   \<not> vcs_spec_guards_ok (vcs_abs_vol_short 0) 2 0 \<and>
   vcs_short_long_opcode (vcs_abs_vol_short 0) 2 0 \<and>
   write_vcs_control vcs_inst_ctr2 (Some (vcs_abs_vol_short 0)) 2 0 =
     (Returned (- 128), vcs_inst_ctr2, []) \<and>
   \<not> aics_spec_guards_ok (aics_set_gain_short 0) 2 0 \<and>
   aics_short_long_opcode (aics_set_gain_short 0) 2 0 \<and>
   write_aics_control (aics_inst_mode AICS_MODE_MANUAL) (Some (aics_set_gain_short 0)) 2 0 =
     (- 128, aics_inst_mode AICS_MODE_MANUAL, []) \<and>
   vocs_spec_guards_ok (vocs_set_offset_req 3 10) 4 0 \<and>
   write_vocs_control Little_Endian vocs_inst_zero (Some (vocs_set_offset_req 3 10)) 4 0 =
     (- 128, vocs_inst_zero, [])"
proof -
  have f: "vcs_spec_guards_ok vcs_abs_vol_50_stale 3 0"
    "vcs_cp_counter vcs_abs_vol_50_stale \<noteq> vcs_change_counter (vcs_state vcs_inst_ctr2)"
    "\<not> vcs_spec_guards_ok (vcs_abs_vol_short 0) 2 0"
    "vcs_short_long_opcode (vcs_abs_vol_short 0) 2 0"
    "vcs_cp_counter (vcs_abs_vol_short 0) \<noteq> vcs_change_counter (vcs_state vcs_inst_ctr2)"
    "\<not> aics_spec_guards_ok (aics_set_gain_short 0) 2 0"
    "aics_short_long_opcode (aics_set_gain_short 0) 2 0"
    "aics_cp_counter (aics_cp (aics_set_gain_short 0)) \<noteq>
       aics_change_counter (aics_state (aics_inst_mode AICS_MODE_MANUAL))"
    "vocs_spec_guards_ok (vocs_set_offset_req 3 10) 4 0"
    "vocs_cp_counter (vocs_set_offset_req 3 10) \<noteq>
       vocs_change_counter (vocs_state vocs_inst_zero)"
    by (simp_all add: vcs_eval aics_eval vocs_eval vcs_inst_ctr2_def vcs_abs_vol_50_stale_def
        vcs_spec_guards_ok_def vcs_spec_length_def vcs_short_long_opcode_def
        vcs_abs_vol_short_def aics_spec_guards_ok_def aics_spec_length_def
        aics_short_long_opcode_def aics_set_gain_short_def vocs_spec_guards_ok_def
        vocs_spec_length_def)
  have e: "BT_GATT_ERR 0x80 = - 128" by (simp add: BT_GATT_ERR_def)
  from invalid_change_counter [where inst = vcs_inst_ctr2
      and buf = "Some vcs_abs_vol_50_stale" and len = 3 and offset = 0
      and inst_a = "aics_inst_mode AICS_MODE_MANUAL"
      and buf_a = "Some (aics_set_gain_short 0)"
      and len_a = 2 and offset_a = 0 and bo = Little_Endian
      and inst_o = vocs_inst_zero and buf_o = "Some (vocs_set_offset_req 3 10)"
      and len_o = 4 and offset_o = 0]
    invalid_change_counter [where inst = vcs_inst_ctr2
      and buf = "Some (vcs_abs_vol_short 0)" and len = 2 and offset = 0
      and inst_a = "aics_inst_mode AICS_MODE_MANUAL"
      and buf_a = "Some (aics_set_gain_short 0)"
      and len_a = 2 and offset_a = 0 and bo = Little_Endian
      and inst_o = vocs_inst_zero and buf_o = "Some (vocs_set_offset_req 3 10)"
      and len_o = 4 and offset_o = 0] f
  show ?thesis unfolding e by (auto simp: prod_eq_iff)
qed


section \<open>C6: the offset guard\<close>

text \<open>
  On the VCS and the AICS control point a non-zero offset fails with Invalid Offset
  whatever the buffer, the opcode and the length are.
\<close>

lemma vcs_offset_guard:
  "offset \<noteq> 0 \<Longrightarrow>
   write_vcs_control inst buf len offset =
     (Returned (BT_GATT_ERR BT_ATT_ERR_INVALID_OFFSET), inst, [])"
  by (simp add: write_vcs_control_def)

lemma aics_offset_guard:
  "offset \<noteq> 0 \<Longrightarrow>
   write_aics_control inst buf len offset = (BT_GATT_ERR BT_ATT_ERR_INVALID_OFFSET, inst, [])"
  by (simp add: write_aics_control_def)

text \<open>
  C6 on the VOCS control point.  \<open>write_vocs_control\<close> tests the buffer and the opcode
  before the offset: with offset 1, a write of four bytes with the unknown opcode 2
  fails with Opcode Not Supported (0x81), and an empty write fails with Invalid
  Attribute Length, where the claim, and the VCS and AICS handlers on the same inputs,
  say Invalid Offset.
\<close>

theorem vocs_offset_guard_order:
  "fst (write_vocs_control bo vocs_inst_zero (Some vocs_bad_opcode) 4 1) =
     BT_GATT_ERR VOCS_ERR_OP_NOT_SUPPORTED \<and>
   fst (write_vocs_control bo vocs_inst_zero None 0 1) =
     BT_GATT_ERR BT_ATT_ERR_INVALID_ATTRIBUTE_LEN \<and>
   BT_GATT_ERR VOCS_ERR_OP_NOT_SUPPORTED \<noteq> BT_GATT_ERR BT_ATT_ERR_INVALID_OFFSET \<and>
   BT_GATT_ERR BT_ATT_ERR_INVALID_ATTRIBUTE_LEN \<noteq> BT_GATT_ERR BT_ATT_ERR_INVALID_OFFSET \<and>
   fst (write_vcs_control vcs_inst_init (Some vcs_bad_opcode) 4 1) =
     Returned (BT_GATT_ERR BT_ATT_ERR_INVALID_OFFSET) \<and>
   fst (write_aics_control (aics_inst_mode AICS_MODE_MANUAL) (Some aics_bad_opcode) 4 1) =
     BT_GATT_ERR BT_ATT_ERR_INVALID_OFFSET"
  by (simp add: vocs_eval write_vcs_control_def write_aics_control_def)


section \<open>C8: SetOffset and its range\<close>

text \<open>
  C8.  For every VOCS control-point SetOffset write that passes the offset, opcode,
  length and counter guards: if the 16-bit operand \<open>v\<close> has \<open>|v| > 255\<close> the write fails
  with error 0x82 (Out Of Range) and the instance is unchanged; if \<open>v\<close> lies in
  \<open>[-255, 255]\<close> the write succeeds and the stored offset is \<open>v\<close>.

  The handler stores \<open>sys_le16_to_cpu(cp->offset)\<close>, the operand \<open>v\<close> of the wire, but
  makes the range test on \<open>cp->offset\<close> itself, the two operand bytes as the host
  reads them.  On a little-endian host the two are the same and C8 holds; on a
  big-endian host the test is made on the byte swap of \<open>v\<close>.
\<close>

theorem vocs_set_offset:
  "(vocs_guards_pass inst cp len offset \<longrightarrow>
      (\<bar>sint (vocs_cp_offset cp)\<bar> > 255 \<longrightarrow>
         write_vocs_control bo inst (Some cp) len offset = (BT_GATT_ERR 0x82, inst, [])) \<and>
      (- 255 \<le> sint (vocs_cp_offset cp) \<and> sint (vocs_cp_offset cp) \<le> 255 \<longrightarrow>
         fst (write_vocs_control bo inst (Some cp) len offset) = uint len \<and>
         vocs_offset (vocs_state (fst (snd (write_vocs_control bo inst (Some cp) len offset)))) =
           vocs_wire_offset bo cp)) \<and>
   vocs_wire_offset Little_Endian cp = vocs_cp_offset cp \<and>
   vocs_wire_offset Big_Endian cp = bswap_16 (vocs_cp_offset cp)"
proof -
  have "(\<bar>sint (vocs_cp_offset cp)\<bar> > 255 \<longrightarrow>
         write_vocs_control bo inst (Some cp) len offset = (BT_GATT_ERR 0x82, inst, [])) \<and>
      (- 255 \<le> sint (vocs_cp_offset cp) \<and> sint (vocs_cp_offset cp) \<le> 255 \<longrightarrow>
         fst (write_vocs_control bo inst (Some cp) len offset) = uint len \<and>
         vocs_offset (vocs_state (fst (snd (write_vocs_control bo inst (Some cp) len offset)))) =
           vocs_wire_offset bo cp)"
    if g: "vocs_guards_pass inst cp len offset"
  proof -
    from g have o: "vocs_cp_opcode cp = VOCS_OPCODE_SET_OFFSET"
      by (simp add: vocs_guards_pass_def vocs_format_ok_def VALID_VOCS_OPCODE_def)
    have same: "vocs_offset (vocs_state inst) = vocs_wire_offset bo cp"
      if "sint (vocs_offset (vocs_state inst)) = sys_le16_to_cpu bo (vocs_cp_offset cp)"
    proof -
      have "vocs_offset (vocs_state inst) =
            word_of_int (sint (vocs_offset (vocs_state inst)))"
        by simp
      also have "\<dots> = vocs_wire_offset bo cp"
        unfolding that by (rule sys_le16_to_cpu_wire)
      finally show ?thesis .
    qed
    show ?thesis
      using same
      by (auto simp: write_vocs_control_accepted [OF g] vocs_switch_def o Let_def
          vocs_notify_state_def sys_le16_to_cpu_wire VOCS_ERR_OUT_OF_RANGE_def)
  qed
  then show ?thesis by (simp add: vocs_wire_offset_def)
qed

text \<open>
  Witness.  On a little-endian host the spec's fifth scenario holds (operand +256 is
  refused with 0x82, the instance unchanged) and the bound -255 is stored.  On a
  big-endian host the four bytes 0x01 0x00 0x00 0x01 (Set Offset, counter 0, operand
  +256) are accepted and 256 is stored, and the four bytes 0x01 0x00 0x01 0x00
  (operand +1) are refused with 0x82.
\<close>

theorem vocs_set_offset_witness:
  "vocs_guards_pass vocs_inst_zero (vocs_control_of_bytes Little_Endian 1 0 0x00 0x01) 4 0 \<and>
   sint (vocs_wire_offset Little_Endian (vocs_control_of_bytes Little_Endian 1 0 0x00 0x01)) =
     256 \<and>
   write_vocs_control Little_Endian vocs_inst_zero
     (Some (vocs_control_of_bytes Little_Endian 1 0 0x00 0x01)) 4 0 =
     (- 130, vocs_inst_zero, []) \<and>
   sint (vocs_wire_offset Little_Endian (vocs_control_of_bytes Little_Endian 1 0 0x01 0xff)) =
     - 255 \<and>
   fst (write_vocs_control Little_Endian vocs_inst_zero
     (Some (vocs_control_of_bytes Little_Endian 1 0 0x01 0xff)) 4 0) = 4 \<and>
   sint (vocs_offset (vocs_state (fst (snd (write_vocs_control Little_Endian vocs_inst_zero
     (Some (vocs_control_of_bytes Little_Endian 1 0 0x01 0xff)) 4 0))))) = - 255 \<and>
   vocs_guards_pass vocs_inst_zero (vocs_control_of_bytes Big_Endian 1 0 0x00 0x01) 4 0 \<and>
   sint (vocs_wire_offset Big_Endian (vocs_control_of_bytes Big_Endian 1 0 0x00 0x01)) =
     256 \<and>
   write_vocs_control Big_Endian vocs_inst_zero
     (Some (vocs_control_of_bytes Big_Endian 1 0 0x00 0x01)) 4 0 =
     (4, vocs_inst_zero\<lparr>vocs_state := \<lparr>vocs_offset = 256, vocs_change_counter = 1\<rparr>\<rparr>,
      [Notify_VOCS_State \<lparr>vocs_offset = 256, vocs_change_counter = 1\<rparr>]) \<and>
   sint (vocs_wire_offset Big_Endian (vocs_control_of_bytes Big_Endian 1 0 0x01 0x00)) = 1 \<and>
   write_vocs_control Big_Endian vocs_inst_zero
     (Some (vocs_control_of_bytes Big_Endian 1 0 0x01 0x00)) 4 0 =
     (- 130, vocs_inst_zero, [])"
proof -
  have c: "(word_cat (0 :: 8 word) (1 :: 8 word) :: 16 word) = 1"
    "(word_cat (1 :: 8 word) (0 :: 8 word) :: 16 word) = 256"
    "(word_cat (0xff :: 8 word) (1 :: 8 word) :: 16 word) = - 255"
    by (simp_all add: word_cat_eq push_bit_eq_mult)
  have b: "bswap_16 1 = 256" "bswap_16 256 = 1"
    using bswap_16_bytes [of 0 1] bswap_16_bytes [of 1 0] by (simp_all add: c)
  have g: "vocs_guards_pass vocs_inst_zero (vocs_control_of_bytes bo 1 0 b2 b3) 4 0"
    for bo b2 b3
    by (simp add: vocs_eval)
  have e: "BT_GATT_ERR 0x82 = - 130" by (simp add: BT_GATT_ERR_def)
  note t = vocs_set_offset [where inst = vocs_inst_zero and len = 4 and offset = 0]
  from t [where bo = Little_Endian and cp = "vocs_control_of_bytes Little_Endian 1 0 0x00 0x01"]
    t [where bo = Little_Endian and cp = "vocs_control_of_bytes Little_Endian 1 0 0x01 0xff"]
    t [where bo = Big_Endian and cp = "vocs_control_of_bytes Big_Endian 1 0 0x00 0x01"]
    t [where bo = Big_Endian and cp = "vocs_control_of_bytes Big_Endian 1 0 0x01 0x00"]
    g
  show ?thesis
    unfolding e
    by (simp add: vocs_eval c b)
qed


section \<open>C9: \<open>num_ase\<close> in the control-point response\<close>

text \<open>
  C9.  In the response built by \<open>ascs_cp_rsp_add\<close> on the emptied buffer, \<open>num_ase\<close>
  is 0xFF whenever an entry with code Not Supported or Truncated has been added
  (whenever a call passed such a code, and whenever the buffer holds such an entry), and
  once it is 0xFF a further call changes neither it nor the buffer; when no entry has
  such a code, \<open>num_ase\<close> is the number of entries in the buffer, which is the number
  of calls for up to 255 calls.
\<close>

theorem ascs_num_ase:
  "(case ascs_cp_rsp_adds cs None of
      None \<Rightarrow> cs = []
    | Some (rsp, ases) \<Rightarrow>
        ((\<exists>e \<in> set ases. ase_rsp_special e) \<longrightarrow> rsp_num_ase rsp = 0xff) \<and>
        ((\<forall>e \<in> set ases. \<not> ase_rsp_special e) \<longrightarrow> unat (rsp_num_ase rsp) = length ases) \<and>
        (rsp_num_ase rsp = 0xff \<longrightarrow>
           ascs_cp_rsp_add i op code reason (Some (rsp, ases)) = Some (rsp, ases)) \<and>
        ((\<exists>c \<in> set cs. rsp_code_special (fst (snd (snd c)))) \<longrightarrow> rsp_num_ase rsp = 0xff) \<and>
        ((\<forall>c \<in> set cs. \<not> rsp_code_special (fst (snd (snd c)))) \<and> length cs \<le> 255 \<longrightarrow>
           ases = map ase_rsp_of cs \<and> unat (rsp_num_ase rsp) = length cs))"
proof (cases "ascs_cp_rsp_adds cs None")
  case None
  with ascs_adds_counted [of None cs] show ?thesis by (simp add: buf_counted_def)
next
  case (Some b)
  obtain rsp ases where b: "b = (rsp, ases)" by (cases b)
  from ascs_adds_counted [of None cs] Some b have cnt: "rsp_counted rsp ases"
    by (simp add: buf_counted_def)
  have sp: "(\<exists>c \<in> set cs. rsp_code_special (fst (snd (snd c)))) \<longrightarrow> rsp_num_ase rsp = 0xff"
    using ascs_adds_special [of cs None] Some b by auto
  have pl: "(\<forall>c \<in> set cs. \<not> rsp_code_special (fst (snd (snd c)))) \<and> length cs \<le> 255 \<longrightarrow>
           ases = map ase_rsp_of cs \<and> unat (rsp_num_ase rsp) = length cs"
  proof (cases cs)
    case Nil
    with Some show ?thesis by simp
  next
    case (Cons c cs')
    obtain i' op' code' reason' where c: "c = (i', op', code', reason')" by (cases c)
    show ?thesis
    proof (intro impI, elim conjE)
      assume a: "\<forall>c \<in> set cs. \<not> rsp_code_special (fst (snd (snd c)))" "length cs \<le> 255"
      have "ascs_cp_rsp_adds cs None = ascs_cp_rsp_adds cs (Some (ascs_cp_rsp_alloc op'))"
        by (simp add: Cons c ascs_cp_rsp_add_def)
      moreover from a have "unat (rsp_num_ase (fst (ascs_cp_rsp_alloc op'))) + length cs \<le> 255"
        by (simp add: ascs_cp_rsp_alloc_def)
      ultimately show "ases = map ase_rsp_of cs \<and> unat (rsp_num_ase rsp) = length cs"
        using ascs_adds_plain [OF a(1), of "fst (ascs_cp_rsp_alloc op')" "[]"] Some b
        by (auto simp: ascs_cp_rsp_alloc_def)
    qed
  qed
  from cnt have c1: "(\<exists>e \<in> set ases. ase_rsp_special e) \<longrightarrow> rsp_num_ase rsp = 0xff"
    and c2: "(\<forall>e \<in> set ases. \<not> ase_rsp_special e) \<longrightarrow> unat (rsp_num_ase rsp) = length ases"
    by (simp_all add: rsp_counted_def)
  from c1 c2 sp pl show ?thesis
    by (simp add: Some b ascs_add_saturated)
qed

text \<open>
  Witness: after success, Truncated, success the header says 0xFF and the third entry
  was not added; after two successes it says 2.
\<close>

theorem ascs_num_ase_witness:
  "ascs_cp_rsp_adds ascs_calls_truncated None =
     Some (\<lparr>rsp_op = 1, rsp_num_ase = 0xff\<rparr>,
           [\<lparr>ase_rsp_id = 1, ase_rsp_code = 0, ase_rsp_reason = 0\<rparr>,
            \<lparr>ase_rsp_id = 0, ase_rsp_code = 2, ase_rsp_reason = 0\<rparr>]) \<and>
   ase_rsp_special \<lparr>ase_rsp_id = 0, ase_rsp_code = 2, ase_rsp_reason = 0\<rparr> \<and>
   ascs_cp_rsp_adds ascs_calls_plain None =
     Some (\<lparr>rsp_op = 1, rsp_num_ase = 2\<rparr>,
           [\<lparr>ase_rsp_id = 1, ase_rsp_code = 0, ase_rsp_reason = 0\<rparr>,
            \<lparr>ase_rsp_id = 2, ase_rsp_code = 0, ase_rsp_reason = 0\<rparr>])"
  using ascs_num_ase [of ascs_calls_truncated 0 0 0 0] ascs_num_ase [of ascs_calls_plain 0 0 0 0]
  by (simp add: ascs_calls_truncated_def ascs_calls_plain_def ascs_cp_rsp_add_def
      ascs_cp_rsp_alloc_def ase_rsp_special_def BT_ASCS_RSP_NOT_SUPPORTED_def
      BT_ASCS_RSP_TRUNCATED_def)


section \<open>C7: the flags latch of the VCS server\<close>

text \<open>
  C7.  After the first VCS control-point write with a volume-changing opcode
  (RelVolDown, RelVolUp, UnmuteRelVolDown, UnmuteRelVolUp, SetAbsVol) that returns
  success, even when the volume is not changed, \<open>flags\<close> is 1 and the write has emitted
  one Flags notification of its own; a write that finds \<open>flags\<close> already set leaves
  it as it is and emits no Flags notification (the latch happens the first time only);
  and once \<open>flags\<close> is 1 it is 1 after every further run of operations of the session
  (control-point writes, the server-side API, step and callback registration), none of
  which emits a Flags notification again.
\<close>

theorem vcs_flags_latch:
  "(fst (write_vcs_control inst (Some cp) len offset) = Returned (uint len) \<and>
    vcs_volume_opcode (vcs_cp_opcode cp) \<and> vcs_flags inst = 0 \<longrightarrow>
      vcs_flags (fst (snd (write_vcs_control inst (Some cp) len offset))) = 1 \<and>
      filter is_flags_notify (snd (snd (write_vcs_control inst (Some cp) len offset))) =
        [Notify_VCS_Flags 1]) \<and>
   (vcs_flags inst_a \<noteq> 0 \<longrightarrow>
      vcs_flags (fst (snd (write_vcs_control inst_a buf_a len_a offset_a))) =
        vcs_flags inst_a \<and>
      filter is_flags_notify (snd (snd (write_vcs_control inst_a buf_a len_a offset_a))) =
        []) \<and>
   (vcs_flags inst_b = 1 \<longrightarrow>
      vcs_flags (fst (vcs_session inst_b ops)) = 1 \<and>
      filter is_flags_notify (snd (vcs_session inst_b ops)) = [])"
proof (intro conjI impI)
  assume a: "fst (write_vcs_control inst (Some cp) len offset) = Returned (uint len) \<and>
    vcs_volume_opcode (vcs_cp_opcode cp) \<and> vcs_flags inst = 0"
  then show "vcs_flags (fst (snd (write_vcs_control inst (Some cp) len offset))) = 1"
    "filter is_flags_notify (snd (snd (write_vcs_control inst (Some cp) len offset))) =
        [Notify_VCS_Flags 1]"
    using write_vcs_control_latch by blast+
next
  assume a: "vcs_flags inst_a \<noteq> 0"
  obtain out i e where w: "write_vcs_control inst_a buf_a len_a offset_a = (out, i, e)"
    by (cases "write_vcs_control inst_a buf_a len_a offset_a")
  from write_vcs_control_flags_nonzero [OF a w] w
  show "vcs_flags (fst (snd (write_vcs_control inst_a buf_a len_a offset_a))) =
          vcs_flags inst_a"
    "filter is_flags_notify (snd (snd (write_vcs_control inst_a buf_a len_a offset_a))) = []"
    by simp_all
next
  assume f: "vcs_flags inst_b = 1"
  obtain i e where s: "vcs_session inst_b ops = (i, e)" by (cases "vcs_session inst_b ops")
  from f have "vcs_flags inst_b \<noteq> 0" by simp
  from vcs_session_flags_nonzero [OF this s] f s
  show "vcs_flags (fst (vcs_session inst_b ops)) = 1"
    "filter is_flags_notify (snd (vcs_session inst_b ops)) = []" by simp_all
qed

text \<open>
  Witness: SetAbsVol 100 on the initial instance (volume already 100) succeeds, keeps
  the volume and latches \<open>flags\<close> with one Flags notification; the same write on the
  latched instance emits none, and a later session keeps \<open>flags\<close> at 1.
\<close>

theorem vcs_flags_latch_witness:
  "fst (write_vcs_control vcs_inst_init (Some vcs_abs_vol_100) 3 0) =
     Returned (uint (3 :: 16 word)) \<and>
   vcs_volume_opcode (vcs_cp_opcode vcs_abs_vol_100) \<and> vcs_flags vcs_inst_init = 0 \<and>
   vcs_volume (vcs_state (fst (snd (write_vcs_control vcs_inst_init
                                      (Some vcs_abs_vol_100) 3 0)))) =
     vcs_volume (vcs_state vcs_inst_init) \<and>
   vcs_flags (fst (snd (write_vcs_control vcs_inst_init (Some vcs_abs_vol_100) 3 0))) = 1 \<and>
   filter is_flags_notify
     (snd (snd (write_vcs_control vcs_inst_init (Some vcs_abs_vol_100) 3 0))) =
     [Notify_VCS_Flags 1] \<and>
   vcs_flags vcs_inst_latched \<noteq> 0 \<and>
   filter is_flags_notify
     (snd (snd (write_vcs_control vcs_inst_latched (Some vcs_abs_vol_100) 3 0))) = [] \<and>
   vcs_flags vcs_inst_latched = 1 \<and>
   vcs_flags (fst (vcs_session vcs_inst_latched
                [Api_Volume_Up, CP_Write (Some vcs_abs_vol_100) 3 0])) = 1"
  using vcs_flags_latch [where inst = vcs_inst_init and cp = vcs_abs_vol_100 and len = 3
      and offset = 0 and inst_a = vcs_inst_latched and buf_a = "Some vcs_abs_vol_100"
      and len_a = 3 and offset_a = 0 and inst_b = vcs_inst_latched
      and ops = "[Api_Volume_Up, CP_Write (Some vcs_abs_vol_100) 3 0]"]
  by (simp add: vcs_eval)


section \<open>C10: the guard in front of the flags callback\<close>

text \<open>
  C10.  In the flags-latch path of the VCS control-point handler the call of the
  \<open>flags\<close> callback is guarded by the \<open>state\<close> member of the callback structure only.
  For a write that passes the guards with a volume-changing opcode while \<open>flags\<close> is
  still 0 and a callback structure is registered: if its \<open>state\<close> member is non-null
  and its \<open>flags\<close> member is null, the handler calls through the null pointer; if both
  are non-null the flags callback is called; if \<open>state\<close> is null the flags callback is
  not called, whatever the \<open>flags\<close> member is.
\<close>

theorem vcs_flags_cb_guard:
  assumes "vcs_guards_pass inst cp len offset"
    and "vcs_volume_opcode (vcs_cp_opcode cp)"
    and "vcs_flags inst = 0"
    and "vcs_cb inst = Some cb"
  shows "(vcs_cb_state cb \<and> \<not> vcs_cb_flags cb \<longrightarrow>
            fst (write_vcs_control inst (Some cp) len offset) = Null_Call) \<and>
         (vcs_cb_state cb \<and> vcs_cb_flags cb \<longrightarrow>
            fst (write_vcs_control inst (Some cp) len offset) = Returned (uint len) \<and>
            Cb_VCS_Flags 1 \<in> set (snd (snd (write_vcs_control inst (Some cp) len offset)))) \<and>
         (\<not> vcs_cb_state cb \<longrightarrow>
            fst (write_vcs_control inst (Some cp) len offset) = Returned (uint len) \<and>
            Cb_VCS_Flags 1 \<notin> set (snd (snd (write_vcs_control inst (Some cp) len offset))))"
proof -
  from assms(2) obtain st n where sw: "vcs_switch inst cp = Some (st, n, True)"
    using vcs_switch_volume_opcode by blast
  obtain inst1 ev1 where ns: "vcs_notify_state inst st n = (inst1, ev1)"
    by (cases "vcs_notify_state inst st n")
  obtain ok inst2 ev2 where lf: "vcs_latch_flags inst1 True = (ok, inst2, ev2)"
    by (cases "vcs_latch_flags inst1 True")
  note w = write_vcs_control_accepted [OF assms(1) sw ns lf]
  from ns assms(3,4) have i1: "vcs_flags inst1 = 0" "vcs_cb inst1 = Some cb"
    using vcs_notify_state_flags by fastforce+
  from ns have e1: "Cb_VCS_Flags 1 \<notin> set ev1"
    by (auto simp: vcs_notify_state_def Let_def split: if_splits option.splits)
  from lf i1 have "ok = (\<not> (vcs_cb_state cb \<and> \<not> vcs_cb_flags cb))"
    "Cb_VCS_Flags 1 \<in> set ev2 \<longleftrightarrow> vcs_cb_state cb \<and> vcs_cb_flags cb"
    by (auto simp: vcs_latch_flags_def Let_def split: if_splits)
  with w e1 show ?thesis by auto
qed

text \<open>
  Witness: RelVolUp on the initial instance with a callback structure that has only the
  \<open>state\<close> member set.
\<close>

theorem vcs_flags_cb_guard_witness:
  "vcs_guards_pass vcs_inst_state_cb vcs_vol_up 2 0 \<and>
   vcs_volume_opcode (vcs_cp_opcode vcs_vol_up) \<and> vcs_flags vcs_inst_state_cb = 0 \<and>
   vcs_cb vcs_inst_state_cb = Some vcs_cb_state_only \<and>
   vcs_cb_state vcs_cb_state_only \<and> \<not> vcs_cb_flags vcs_cb_state_only \<and>
   fst (write_vcs_control vcs_inst_state_cb (Some vcs_vol_up) 2 0) = Null_Call"
proof -
  have g: "vcs_guards_pass vcs_inst_state_cb vcs_vol_up 2 0"
    and v: "vcs_volume_opcode (vcs_cp_opcode vcs_vol_up)"
    and f: "vcs_flags vcs_inst_state_cb = 0"
    and c: "vcs_cb vcs_inst_state_cb = Some vcs_cb_state_only"
    by (simp_all add: vcs_eval)
  from vcs_flags_cb_guard [OF g v f c] g v f c show ?thesis
    by (simp add: vcs_cb_state_only_def)
qed

end
